theory Spec2Isabelle
  imports Main "HOL-Library.AList"
begin

section \<open>Values of the source language\<close>

text \<open>
  The normaliser of \<^verbatim>\<open>src/main.py\<close> works on the values that \<^verbatim>\<open>json.loads\<close> and
  \<^verbatim>\<open>resp.json()\<close> produce: \<^verbatim>\<open>None\<close>, booleans, integers, floats, strings, lists and
  dictionaries with string keys. Floats are kept abstract (the type parameter \<open>'f\<close>):
  what Python's \<^verbatim>\<open>float\<close>, \<^verbatim>\<open>str\<close> and \<^verbatim>\<open>json.loads\<close> do with them is supplied
  by the environment record below. A dictionary is an association list in insertion
  order; \<open>map_of\<close> reads it and \<open>AList.update\<close> writes it (in place when the key
  exists, at the end otherwise), as a Python \<^verbatim>\<open>dict\<close> does. Strings are sequences of
  characters below 256.
\<close>

datatype 'f pyval =
    PNone
  | PBool bool
  | PInt int
  | PFloat 'f
  | PStr string
  | PList "'f pyval list"
  | PDict "(string \<times> 'f pyval) list"

type_synonym 'f pydict = "(string \<times> 'f pyval) list"

datatype exn =
    AttributeError
  | TypeError
  | ValueError
  | OverflowError
  | JSONDecodeError
  | RecursionError
  | IndexError
  | KeyError

text \<open>
  The builtins of Python and of its standard library that the normaliser calls and that
  are not part of the repository:
  \<^item> \<open>loads\<close>: \<^verbatim>\<open>json.loads\<close> on a string: the document, or the exception raised,
    which is \<^verbatim>\<open>JSONDecodeError\<close> for a text that is not JSON, \<^verbatim>\<open>RecursionError\<close> for
    a text nested deeper than the interpreter's recursion limit and \<^verbatim>\<open>ValueError\<close> for
    a numeral longer than its limit on the digits of an integer;
  \<^item> \<open>float_of_str\<close>: \<^verbatim>\<open>float(s)\<close>, \<open>None\<close> for \<^verbatim>\<open>ValueError\<close>;
  \<^item> \<open>float_of_int\<close>: \<^verbatim>\<open>float(i)\<close>, \<open>None\<close> for \<^verbatim>\<open>OverflowError\<close>;
  \<^item> \<open>float_nonzero\<close>: the truth value of a float;
  \<^item> \<open>str_of_float\<close>: \<^verbatim>\<open>str(x)\<close> of a float;
  \<^item> \<open>repr_container\<close>: \<^verbatim>\<open>str(x)\<close> of a list or a dictionary;
  \<^item> \<open>reformat_date\<close>: \<^verbatim>\<open>datetime.strptime(s, "%Y-%m-%d").strftime("%b %d, %Y")\<close>,
    \<open>None\<close> when \<^verbatim>\<open>strptime\<close> raises.
\<close>

record 'f pyenv =
  loads :: "string \<Rightarrow> exn + 'f pyval"
  float_of_str :: "string \<Rightarrow> 'f option"
  float_of_int :: "int \<Rightarrow> 'f option"
  float_nonzero :: "'f \<Rightarrow> bool"
  str_of_float :: "'f \<Rightarrow> string"
  repr_container :: "'f pyval \<Rightarrow> string"
  reformat_date :: "string \<Rightarrow> string option"

datatype warning =
    RawReportWarning exn
  | CreditScoreWarning exn
  | BureauReportsWarning exn

subsection \<open>Exceptions as values\<close>

definition bindE :: "exn + 'a \<Rightarrow> ('a \<Rightarrow> exn + 'b) \<Rightarrow> exn + 'b" where
  "bindE m f = (case m of Inl e \<Rightarrow> Inl e | Inr x \<Rightarrow> f x)"

text \<open>A \<^verbatim>\<open>for\<close> loop whose body may raise: the first exception leaves the loop.\<close>

fun for_each :: "('a \<Rightarrow> 's \<Rightarrow> exn + 's) \<Rightarrow> 'a list \<Rightarrow> 's \<Rightarrow> exn + 's" where
  "for_each f [] s = Inr s"
| "for_each f (x # xs) s =
     (case f x s of Inl e \<Rightarrow> Inl e | Inr s' \<Rightarrow> for_each f xs s')"

text \<open>
  The same loop inside a \<^verbatim>\<open>try\<close> block that catches the exception: what the loop
  did to the state before the exception stays done, so a body returns the state it
  reached together with the exception, if any. \<open>keep\<close> is for a body that changes the
  state as its last action: when it raises, the state is as it found it.
\<close>

definition keep :: "'s \<Rightarrow> exn + 's \<Rightarrow> 's \<times> exn option" where
  "keep s m = (case m of Inl e \<Rightarrow> (s, Some e) | Inr s' \<Rightarrow> (s', None))"

fun for_each_try ::
  "('a \<Rightarrow> 's \<Rightarrow> 's \<times> exn option) \<Rightarrow> 'a list \<Rightarrow> 's \<Rightarrow> 's \<times> exn option" where
  "for_each_try f [] s = (s, None)"
| "for_each_try f (x # xs) s =
     (case f x s of (s', Some e) \<Rightarrow> (s', Some e) | (s', None) \<Rightarrow> for_each_try f xs s')"

subsection \<open>Truth values, \<^verbatim>\<open>or\<close>, \<^verbatim>\<open>dict.get\<close>\<close>

fun truthy :: "'f pyenv \<Rightarrow> 'f pyval \<Rightarrow> bool" where
  "truthy env PNone = False"
| "truthy env (PBool b) = b"
| "truthy env (PInt i) = (i \<noteq> 0)"
| "truthy env (PFloat x) = float_nonzero env x"
| "truthy env (PStr s) = (s \<noteq> [])"
| "truthy env (PList xs) = (xs \<noteq> [])"
| "truthy env (PDict d) = (d \<noteq> [])"

text \<open>\<^verbatim>\<open>a or b\<close> when evaluating \<open>b\<close> cannot raise, and when it can.\<close>

definition py_or :: "'f pyenv \<Rightarrow> 'f pyval \<Rightarrow> 'f pyval \<Rightarrow> 'f pyval" where
  "py_or env a b = (if truthy env a then a else b)"

definition py_orE :: "'f pyenv \<Rightarrow> 'f pyval \<Rightarrow> (exn + 'f pyval) \<Rightarrow> exn + 'f pyval" where
  "py_orE env a mb = (if truthy env a then Inr a else mb)"

text \<open>\<^verbatim>\<open>d.get(k)\<close> and \<^verbatim>\<open>d.get(k, dflt)\<close> on a value known to be a dictionary.\<close>

definition dget_or :: "'f pydict \<Rightarrow> string \<Rightarrow> 'f pyval \<Rightarrow> 'f pyval" where
  "dget_or d k dflt = (case map_of d k of None \<Rightarrow> dflt | Some v \<Rightarrow> v)"

definition dget :: "'f pydict \<Rightarrow> string \<Rightarrow> 'f pyval" where
  "dget d k = dget_or d k PNone"

text \<open>The same on any value: only a dictionary has the attribute \<^verbatim>\<open>get\<close>.\<close>

definition py_get_or :: "'f pyval \<Rightarrow> string \<Rightarrow> 'f pyval \<Rightarrow> exn + 'f pyval" where
  "py_get_or v k dflt = (case v of PDict d \<Rightarrow> Inr (dget_or d k dflt) | _ \<Rightarrow> Inl AttributeError)"

definition py_get :: "'f pyval \<Rightarrow> string \<Rightarrow> exn + 'f pyval" where
  "py_get v k = py_get_or v k PNone"

text \<open>\<^verbatim>\<open>if isinstance(x, dict): x = [x]\<close>, written out at every use in the source.\<close>

definition wrap_dict :: "'f pyval \<Rightarrow> 'f pyval" where
  "wrap_dict v = (case v of PDict d \<Rightarrow> PList [PDict d] | _ \<Rightarrow> v)"

text \<open>
  The elements a \<^verbatim>\<open>for\<close> loop visits: those of a list, the characters of a string,
  the keys of a dictionary; other values are not iterable.
\<close>

definition py_iter :: "'f pyval \<Rightarrow> exn + 'f pyval list" where
  "py_iter v =
     (case v of
        PList xs \<Rightarrow> Inr xs
      | PStr s \<Rightarrow> Inr (map (\<lambda>c. PStr [c]) s)
      | PDict d \<Rightarrow> Inr (map (\<lambda>p. PStr (fst p)) d)
      | _ \<Rightarrow> Inl TypeError)"

text \<open>\<^verbatim>\<open>x[0]\<close>.\<close>

definition py_first :: "'f pyval \<Rightarrow> exn + 'f pyval" where
  "py_first v =
     (case v of
        PList xs \<Rightarrow> (case xs of [] \<Rightarrow> Inl IndexError | x # _ \<Rightarrow> Inr x)
      | PStr s \<Rightarrow> (case s of [] \<Rightarrow> Inl IndexError | c # _ \<Rightarrow> Inr (PStr [c]))
      | PDict d \<Rightarrow> Inl KeyError
      | _ \<Rightarrow> Inl TypeError)"

subsection \<open>Strings\<close>

text \<open>Python's \<^verbatim>\<open>str.isspace\<close> on the characters below 256.\<close>

definition is_space :: "char \<Rightarrow> bool" where
  "is_space c = ((of_char c :: nat) \<in> {9, 10, 11, 12, 13, 28, 29, 30, 31, 32, 133, 160})"

definition strip_chars :: "(char \<Rightarrow> bool) \<Rightarrow> string \<Rightarrow> string" where
  "strip_chars p s = rev (dropWhile p (rev (dropWhile p s)))"

definition strip :: "string \<Rightarrow> string" where
  "strip s = strip_chars is_space s"

text \<open>\<^verbatim>\<open>s.strip(', ')\<close>.\<close>

definition strip_comma_space :: "string \<Rightarrow> string" where
  "strip_comma_space s = strip_chars (\<lambda>c. c = CHR '','' \<or> c = CHR '' '') s"

fun starts_with :: "string \<Rightarrow> string \<Rightarrow> bool" where
  "starts_with [] s = True"
| "starts_with (c # cs) [] = False"
| "starts_with (c # cs) (d # ds) = (c = d \<and> starts_with cs ds)"

text \<open>\<^verbatim>\<open>tok in s\<close> for two strings.\<close>

fun is_substring :: "string \<Rightarrow> string \<Rightarrow> bool" where
  "is_substring tok [] = (tok = [])"
| "is_substring tok (c # cs) = (starts_with tok (c # cs) \<or> is_substring tok cs)"

text \<open>
  \<^verbatim>\<open>tok in v\<close> for a string literal \<open>tok\<close>: a substring test on a string, membership
  on a list, key membership on a dictionary, \<^verbatim>\<open>TypeError\<close> on anything else.
\<close>

definition py_in :: "string \<Rightarrow> 'f pyval \<Rightarrow> exn + bool" where
  "py_in tok v =
     (case v of
        PStr s \<Rightarrow> Inr (is_substring tok s)
      | PList xs \<Rightarrow> Inr (PStr tok \<in> set xs)
      | PDict d \<Rightarrow> Inr (tok \<in> set (map fst d))
      | _ \<Rightarrow> Inl TypeError)"

fun show_nat :: "nat \<Rightarrow> string" where
  "show_nat n =
     (if n < 10 then [''0123456789'' ! n]
      else show_nat (n div 10) @ [''0123456789'' ! (n mod 10)])"

declare show_nat.simps [simp del]

definition show_int :: "int \<Rightarrow> string" where
  "show_int i = (if i < 0 then CHR ''-'' # show_nat (nat (- i)) else show_nat (nat i))"

text \<open>\<^verbatim>\<open>str(v)\<close>, which is also what an f-string field \<^verbatim>\<open>{v}\<close> inserts.\<close>

fun py_str :: "'f pyenv \<Rightarrow> 'f pyval \<Rightarrow> string" where
  "py_str env PNone = ''None''"
| "py_str env (PBool b) = (if b then ''True'' else ''False'')"
| "py_str env (PInt i) = show_int i"
| "py_str env (PFloat x) = str_of_float env x"
| "py_str env (PStr s) = s"
| "py_str env (PList xs) = repr_container env (PList xs)"
| "py_str env (PDict d) = repr_container env (PDict d)"

text \<open>\<^verbatim>\<open>v.strip()\<close>: only a string has the attribute.\<close>

definition py_strip :: "'f pyval \<Rightarrow> exn + string" where
  "py_strip v = (case v of PStr s \<Rightarrow> Inr (strip s) | _ \<Rightarrow> Inl AttributeError)"

text \<open>
  \<^verbatim>\<open>sep.join([p for p in parts if p])\<close>: the falsy parts are dropped first, and
  \<^verbatim>\<open>join\<close> raises \<^verbatim>\<open>TypeError\<close> on a part that is not a string.
\<close>

fun join_strs :: "string \<Rightarrow> string list \<Rightarrow> string" where
  "join_strs sep [] = []"
| "join_strs sep [s] = s"
| "join_strs sep (s # t # ts) = s @ sep @ join_strs sep (t # ts)"

fun the_strs :: "'f pyval list \<Rightarrow> exn + string list" where
  "the_strs [] = Inr []"
| "the_strs (v # vs) =
     (case v of
        PStr s \<Rightarrow> (case the_strs vs of Inl e \<Rightarrow> Inl e | Inr ss \<Rightarrow> Inr (s # ss))
      | _ \<Rightarrow> Inl TypeError)"

definition join_truthy :: "'f pyenv \<Rightarrow> string \<Rightarrow> 'f pyval list \<Rightarrow> exn + string" where
  "join_truthy env sep parts =
     bindE (the_strs (filter (truthy env) parts)) (\<lambda>ss. Inr (join_strs sep ss))"

subsection \<open>The shape coercers\<close>

text \<open>
  \<^verbatim>\<open>safe_number\<close>: \<^verbatim>\<open>None\<close> and the empty string give \<^verbatim>\<open>None\<close>; \<^verbatim>\<open>float(val)\<close>
  otherwise, with \<^verbatim>\<open>TypeError\<close> (a list or a dictionary) and \<^verbatim>\<open>ValueError\<close> (a
  string that is no number) caught. \<^verbatim>\<open>OverflowError\<close> (an integer too large for a
  float) is not caught.
\<close>

fun safe_number :: "'f pyenv \<Rightarrow> 'f pyval \<Rightarrow> exn + 'f pyval" where
  "safe_number env PNone = Inr PNone"
| "safe_number env (PStr s) =
     (if s = [] then Inr PNone
      else case float_of_str env s of None \<Rightarrow> Inr PNone | Some x \<Rightarrow> Inr (PFloat x))"
| "safe_number env (PInt i) =
     (case float_of_int env i of None \<Rightarrow> Inl OverflowError | Some x \<Rightarrow> Inr (PFloat x))"
| "safe_number env (PBool b) =
     (case float_of_int env (if b then 1 else 0) of
        None \<Rightarrow> Inl OverflowError | Some x \<Rightarrow> Inr (PFloat x))"
| "safe_number env (PFloat x) = Inr (PFloat x)"
| "safe_number env (PList xs) = Inr PNone"
| "safe_number env (PDict d) = Inr PNone"

definition safe_string :: "'f pyenv \<Rightarrow> 'f pyval \<Rightarrow> 'f pyval" where
  "safe_string env val =
     (if val = PNone then PNone
      else if strip (py_str env val) \<noteq> [] then PStr (strip (py_str env val)) else PNone)"

text \<open>\<^verbatim>\<open>safe_number(x) if x else None\<close>, the guard of the legacy numeric fields.\<close>

definition number_if_truthy :: "'f pyenv \<Rightarrow> 'f pyval \<Rightarrow> exn + 'f pyval" where
  "number_if_truthy env x = (if truthy env x then safe_number env x else Inr PNone)"

text \<open>
  \<^verbatim>\<open>a == b\<close>. In the normaliser one operand is always a string literal or a field that
  \<^verbatim>\<open>safe_string\<close> stored (\<^verbatim>\<open>None\<close> or a string), and \<^verbatim>\<open>None\<close> and strings are
  equal only to themselves.
\<close>

definition py_eq :: "'f pyval \<Rightarrow> 'f pyval \<Rightarrow> bool" where
  "py_eq a b = (a = b)"


section \<open>Accounts\<close>

text \<open>
  \<^verbatim>\<open>normalized["accounts"]\<close> is a list of dictionaries, filled by three passes in
  turn. The duplicate checks of the second and third pass read three fields of the
  entries already there.
\<close>

text \<open>
  One condition of the duplicate loops. Python's \<^verbatim>\<open>and\<close> evaluates its right operand
  only when the left one holds.
\<close>

definition inst_name :: "'f pydict \<Rightarrow> exn + 'f pyval" where
  "inst_name existing_acct = py_get (dget_or existing_acct ''institution'' (PDict [])) ''name''"

definition same_account3 ::
  "'f pydict \<Rightarrow> 'f pyval \<Rightarrow> 'f pyval \<Rightarrow> 'f pyval \<Rightarrow> exn + bool" where
  "same_account3 existing_acct account_number creditor_name bureau_symbol =
     (if py_eq (dget existing_acct ''maskedAccountNumber'') account_number
      then bindE (inst_name existing_acct)
             (\<lambda>nm. Inr (py_eq nm creditor_name \<and> py_eq (dget existing_acct ''bureau'') bureau_symbol))
      else Inr False)"

definition same_account2 :: "'f pydict \<Rightarrow> 'f pyval \<Rightarrow> 'f pyval \<Rightarrow> exn + bool" where
  "same_account2 existing_acct account_number creditor_name =
     (if py_eq (dget existing_acct ''maskedAccountNumber'') account_number
      then bindE (inst_name existing_acct) (\<lambda>nm. Inr (py_eq nm creditor_name))
      else Inr False)"

text \<open>\<^verbatim>\<open>for existing_acct in normalized["accounts"]: if cond: is_duplicate = True; break\<close>\<close>

fun is_duplicate :: "('a \<Rightarrow> exn + bool) \<Rightarrow> 'a list \<Rightarrow> exn + bool" where
  "is_duplicate cond [] = Inr False"
| "is_duplicate cond (e # es) =
     (case cond e of
        Inl x \<Rightarrow> Inl x
      | Inr True \<Rightarrow> Inr True
      | Inr False \<Rightarrow> is_duplicate cond es)"

subsection \<open>Pass 1: the primary trade list\<close>

text \<open>The dictionary literal \<^verbatim>\<open>acct\<close> of the first pass, as a function of the local variables.\<close>

definition acct ::
  "'f pyenv \<Rightarrow> 'f pyval \<Rightarrow> 'f pyval \<Rightarrow> 'f pyval \<Rightarrow> 'f pyval \<Rightarrow> 'f pyval \<Rightarrow> 'f pyval \<Rightarrow> 'f pyval \<Rightarrow>
   'f pyval \<Rightarrow> 'f pyval \<Rightarrow> 'f pyval \<Rightarrow> 'f pyval \<Rightarrow> 'f pyval \<Rightarrow> 'f pyval \<Rightarrow> 'f pyval \<Rightarrow>
   'f pyval \<Rightarrow> 'f pyval \<Rightarrow> 'f pyval \<Rightarrow> 'f pyval \<Rightarrow> 'f pyval \<Rightarrow> 'f pyval \<Rightarrow> 'f pyval \<Rightarrow>
   'f pyval \<Rightarrow> 'f pydict" where
  "acct env institution_name account_type account_status current_balance credit_limit open_date
     account_number high_credit payment_amount payment_history times_30_late times_60_late
     times_90_late bureau last_reported account_age closed_date member_code
     balance credit_limit_n high_balance payment_amount_n =
         [(''institution'', PDict [(''name'', safe_string env institution_name)]),
          (''accountTypeObj'',
             if truthy env account_type
             then PDict [(''description'', safe_string env account_type)] else PNone),
          (''accountType'', safe_string env account_type),
          (''accountStatus'', safe_string env account_status),
          (''currentBalanceAmount'', safe_string env current_balance),
          (''creditLimitAmount'', safe_string env credit_limit),
          (''currentAccountRatingDisplay'', safe_string env account_status),
          (''openDateFormatted'', safe_string env open_date),
          (''maskedAccountNumber'', safe_string env account_number),
          (''highCreditAmount'', safe_string env high_credit),
          (''termsMonthlyPayment'', safe_string env payment_amount),
          (''paymentHistory'', safe_string env payment_history),
          (''times30Late'', times_30_late),
          (''times60Late'', times_60_late),
          (''times90Late'', times_90_late),
          (''creditorContactSource'', safe_string env bureau),
          (''bureau'', safe_string env bureau),
          (''lastReported'', safe_string env last_reported),
          (''accountAge'', safe_string env account_age),
          (''dateClosed'', safe_string env closed_date),
          (''memberCode'', safe_string env member_code),
          (''account_type'', safe_string env account_type),
          (''status'', safe_string env account_status),
          (''balance'', balance),
          (''credit_limit'', credit_limit_n),
          (''high_balance'', high_balance),
          (''open_date'', safe_string env open_date),
          (''closed_date'', safe_string env closed_date),
          (''payment_amount'', payment_amount_n),
          (''account_number'', safe_string env account_number),
          (''last_reported'', safe_string env last_reported),
          (''account_age'', safe_string env account_age)]"

text \<open>
  The bureau of a trade: the nested \<^verbatim>\<open>memberCodeAccount\<close> structure first, then the
  direct \<^verbatim>\<open>creditorContact\<close>, then three plain fields.
\<close>

definition trade_bureau :: "'f pyenv \<Rightarrow> 'f pydict \<Rightarrow> exn + 'f pyval" where
  "trade_bureau env trade =
     bindE (py_get (py_or env (dget trade ''memberCodeAccount'') (PDict [])) ''creditorContact'')
       (\<lambda>creditor_contact_v.
     bindE (py_get (py_or env creditor_contact_v (PDict [])) ''creditorContactSource'')
       (\<lambda>bureau0.
     bindE (if \<not> truthy env bureau0
            then py_get (py_or env (dget trade ''creditorContact'') (PDict []))
                   ''creditorContactSource''
            else Inr bureau0)
       (\<lambda>bureau1.
     Inr (if \<not> truthy env bureau1
          then py_or env (py_or env (dget trade ''bureau'') (dget trade ''source''))
                 (dget trade ''reportingBureau'')
          else bureau1))))"

definition trade_account :: "'f pyenv \<Rightarrow> 'f pyval \<Rightarrow> exn + 'f pydict" where
  "trade_account env trade_v =
    (case trade_v of
       PDict trade \<Rightarrow>
        bindE (py_get (py_or env (dget trade ''institution'') (PDict [])) ''name'')
          (\<lambda>institution_name.
        bindE (py_get (py_or env (dget trade ''accountTypeObj'') (PDict [])) ''description'')
          (\<lambda>account_type_description.
        bindE (trade_bureau env trade) (\<lambda>bureau.
        let account_type =
              py_or env (py_or env (dget trade ''accountTypeDisplay'') account_type_description)
                (dget trade ''accountType'');
            account_status =
              py_or env (dget trade ''accountStatus'') (dget trade ''currentAccountRatingDisplay'');
            current_balance = dget trade ''currentBalanceAmount'';
            credit_limit = dget trade ''creditLimitAmount'';
            high_credit = dget trade ''highCreditAmount'';
            open_date = py_or env (dget trade ''openDateFormatted'') (dget trade ''openDate'');
            closed_date = dget trade ''closedDate'';
            account_number = dget trade ''maskedAccountNumber'';
            payment_amount =
              py_or env (dget trade ''termsMonthlyPayment'') (dget trade ''scheduledMonthlyPayment'');
            last_reported = dget trade ''lastReported'';
            member_code = dget trade ''memberCode'';
            payment_history = dget trade ''paymentHistory'';
            account_age = dget trade ''accountAge''
        in
        bindE (safe_number env (dget trade ''times30Late'')) (\<lambda>times_30_late.
        bindE (safe_number env (dget trade ''times60Late'')) (\<lambda>times_60_late.
        bindE (safe_number env (dget trade ''times90Late'')) (\<lambda>times_90_late.
        bindE (number_if_truthy env current_balance) (\<lambda>balance.
        bindE (number_if_truthy env credit_limit) (\<lambda>credit_limit_n.
        bindE (number_if_truthy env high_credit) (\<lambda>high_balance.
        bindE (number_if_truthy env payment_amount) (\<lambda>payment_amount_n.
        Inr (acct env institution_name account_type account_status current_balance credit_limit
               open_date account_number high_credit payment_amount payment_history
               times_30_late times_60_late times_90_late bureau last_reported account_age
               closed_date member_code balance credit_limit_n high_balance
               payment_amount_n)))))))))))
     | _ \<Rightarrow> Inl AttributeError)"

definition trade_step :: "'f pyenv \<Rightarrow> 'f pyval \<Rightarrow> 'f pydict list \<Rightarrow> exn + 'f pydict list" where
  "trade_step env trade accounts = bindE (trade_account env trade) (\<lambda>acct. Inr (accounts @ [acct]))"

text \<open>
  \<^verbatim>\<open>trades = (raw.get("trades") or {}).get("trades", [])\<close>, a bare object wrapped into
  a list, and the loop over it.
\<close>

definition trades_of :: "'f pyenv \<Rightarrow> 'f pydict \<Rightarrow> exn + 'f pyval list" where
  "trades_of env raw =
     bindE (py_get_or (py_or env (dget raw ''trades'') (PDict [])) ''trades'' (PList []))
       (\<lambda>trades. py_iter (wrap_dict trades))"

definition trade_accounts :: "'f pyenv \<Rightarrow> 'f pydict \<Rightarrow> 'f pydict list \<Rightarrow> exn + 'f pydict list" where
  "trade_accounts env raw accounts =
     bindE (trades_of env raw) (\<lambda>trades. for_each (trade_step env) trades accounts)"


subsection \<open>Pass 2: the tradeline partition of the merged report\<close>

text \<open>
  The date conversion of the second pass: a truthy value whose \<^verbatim>\<open>str\<close> contains a
  hyphen is reformatted; any exception (a value that is not a string, a string that
  \<^verbatim>\<open>strptime\<close> rejects) is swallowed by the bare \<^verbatim>\<open>except\<close> and leaves the value
  as it was.
\<close>

definition convert_date :: "'f pyenv \<Rightarrow> 'f pyval \<Rightarrow> 'f pyval" where
  "convert_date env d =
     (if truthy env d \<and> is_substring ''-'' (py_str env d)
      then (case d of
              PStr s \<Rightarrow> (case reformat_date env s of None \<Rightarrow> d | Some s' \<Rightarrow> PStr s')
            | _ \<Rightarrow> d)
      else d)"

text \<open>The chain of six historical names of the creditor, and the two of the number.\<close>

definition creditor_name_of :: "'f pyenv \<Rightarrow> 'f pydict \<Rightarrow> 'f pyval" where
  "creditor_name_of env tradeline =
     py_or env (py_or env (py_or env (py_or env (py_or env
       (dget tradeline ''creditorName'')
       (dget tradeline ''creditor_name''))
       (dget tradeline ''institutionName''))
       (dget tradeline ''institution_name''))
       (dget tradeline ''lenderName''))
       (dget tradeline ''subscriberName'')"

definition account_number_of :: "'f pyenv \<Rightarrow> 'f pydict \<Rightarrow> 'f pyval" where
  "account_number_of env tradeline =
     py_or env (dget tradeline ''accountNumber'') (dget tradeline ''maskedAccountNumber'')"

text \<open>
  \<^verbatim>\<open>tradeline.get("accountStatus") or tradeline.get("accountCondition", {}).get("description")\<close>
\<close>

definition account_status_of :: "'f pyenv \<Rightarrow> 'f pydict \<Rightarrow> exn + 'f pyval" where
  "account_status_of env tradeline =
     py_orE env (dget tradeline ''accountStatus'')
       (py_get (dget_or tradeline ''accountCondition'' (PDict [])) ''description'')"

text \<open>The dictionary literal \<^verbatim>\<open>tradeline_acct\<close> of the second pass.\<close>

definition tradeline_acct ::
  "'f pyenv \<Rightarrow> 'f pyval \<Rightarrow> 'f pyval \<Rightarrow> 'f pyval \<Rightarrow> 'f pyval \<Rightarrow> 'f pyval \<Rightarrow> 'f pyval \<Rightarrow> 'f pyval \<Rightarrow>
   'f pyval \<Rightarrow> 'f pyval \<Rightarrow> 'f pyval \<Rightarrow> 'f pyval \<Rightarrow> 'f pyval \<Rightarrow> 'f pyval \<Rightarrow> 'f pyval \<Rightarrow>
   'f pydict" where
  "tradeline_acct env creditor_name account_type account_status current_balance credit_limit
     open_date account_number high_balance bureau_symbol last_reported close_date
     balance credit_limit_n high_balance_n =
         [(''institution'', PDict [(''name'', safe_string env creditor_name)]),
          (''accountTypeObj'',
             if truthy env account_type
             then PDict [(''description'', safe_string env account_type)] else PNone),
          (''accountType'', safe_string env account_type),
          (''accountStatus'', safe_string env account_status),
          (''currentBalanceAmount'', safe_string env current_balance),
          (''creditLimitAmount'', safe_string env credit_limit),
          (''currentAccountRatingDisplay'', safe_string env account_status),
          (''openDateFormatted'', safe_string env open_date),
          (''maskedAccountNumber'', safe_string env account_number),
          (''highCreditAmount'', safe_string env high_balance),
          (''termsMonthlyPayment'', PNone),
          (''paymentHistory'', PNone),
          (''times30Late'', PNone),
          (''times60Late'', PNone),
          (''times90Late'', PNone),
          (''creditorContactSource'', safe_string env bureau_symbol),
          (''bureau'', safe_string env bureau_symbol),
          (''lastReported'', safe_string env last_reported),
          (''accountAge'', PNone),
          (''dateClosed'', safe_string env close_date),
          (''memberCode'', PNone),
          (''account_type'', safe_string env account_type),
          (''status'', safe_string env account_status),
          (''balance'', balance),
          (''credit_limit'', credit_limit_n),
          (''high_balance'', high_balance_n),
          (''open_date'', safe_string env open_date),
          (''closed_date'', safe_string env close_date),
          (''payment_amount'', PNone),
          (''account_number'', safe_string env account_number),
          (''last_reported'', safe_string env last_reported),
          (''account_age'', PNone)]"

text \<open>The bureau symbol of a tradeline: \<^verbatim>\<open>tradeline.get("Source", {}).get("Bureau", {}).get("symbol")\<close>\<close>

definition tradeline_symbol :: "'f pydict \<Rightarrow> exn + 'f pyval" where
  "tradeline_symbol tradeline =
     bindE (py_get_or (dget_or tradeline ''Source'' (PDict [])) ''Bureau'' (PDict []))
       (\<lambda>bureau_info. py_get bureau_info ''symbol'')"

definition partition_tradeline ::
  "'f pyenv \<Rightarrow> 'f pydict \<Rightarrow> 'f pyval \<Rightarrow> 'f pydict list \<Rightarrow> exn + 'f pydict list" where
  "partition_tradeline env partition_item tradeline_v accounts =
    (case tradeline_v of
       PDict tradeline \<Rightarrow>
        bindE (tradeline_symbol tradeline) (\<lambda>bureau_symbol.
        bindE (account_status_of env tradeline) (\<lambda>account_status.
        let creditor_name = creditor_name_of env tradeline;
            account_number = account_number_of env tradeline;
            account_type =
              py_or env (py_or env (dget tradeline ''accountType'')
                (dget tradeline ''accountTypeDescription''))
                (dget partition_item ''accountTypeDescription'');
            current_balance =
              py_or env (dget tradeline ''currentBalance'') (dget tradeline ''balanceAmount'');
            credit_limit =
              py_or env (dget tradeline ''creditLimit'') (dget tradeline ''creditLimitAmount'');
            high_balance =
              py_or env (dget tradeline ''highBalance'') (dget tradeline ''highCreditAmount'');
            open_date =
              convert_date env
                (py_or env (dget tradeline ''dateOpened'') (dget tradeline ''openDate''));
            close_date =
              convert_date env
                (py_or env (dget tradeline ''dateClosed'') (dget tradeline ''closedDate''));
            last_reported =
              py_or env (dget tradeline ''dateReported'') (dget tradeline ''lastReported'')
        in
        bindE (number_if_truthy env current_balance) (\<lambda>balance.
        bindE (number_if_truthy env credit_limit) (\<lambda>credit_limit_n.
        bindE (number_if_truthy env high_balance) (\<lambda>high_balance_n.
        bindE (is_duplicate
                 (\<lambda>existing_acct.
                    same_account3 existing_acct account_number creditor_name bureau_symbol)
                 accounts)
          (\<lambda>dup.
        if \<not> dup \<and> truthy env creditor_name \<and> truthy env account_number
        then Inr (accounts @
               [tradeline_acct env creditor_name account_type account_status current_balance
                  credit_limit open_date account_number high_balance bureau_symbol
                  last_reported close_date balance credit_limit_n high_balance_n])
        else Inr accounts))))))
     | _ \<Rightarrow> Inr accounts)"

definition partition_step ::
  "'f pyenv \<Rightarrow> 'f pyval \<Rightarrow> 'f pydict list \<Rightarrow> exn + 'f pydict list" where
  "partition_step env partition_item_v accounts =
     (case partition_item_v of
        PDict partition_item \<Rightarrow>
          (let tradeline_data = dget_or partition_item ''Tradeline'' (PDict []);
               tradelines =
                 (case tradeline_data of
                    PList xs \<Rightarrow> xs
                  | _ \<Rightarrow> if truthy env tradeline_data then [tradeline_data] else [])
           in for_each (partition_tradeline env partition_item) tradelines accounts)
      | _ \<Rightarrow> Inl AttributeError)"

definition partition_accounts ::
  "'f pyenv \<Rightarrow> 'f pyval \<Rightarrow> 'f pydict list \<Rightarrow> exn + 'f pydict list" where
  "partition_accounts env true_link accounts =
     (if truthy env true_link
      then bindE (py_get_or true_link ''TradeLinePartition'' (PList []))
             (\<lambda>tradeline_partition.
           bindE (py_iter (wrap_dict tradeline_partition))
             (\<lambda>items. for_each (partition_step env) items accounts))
      else Inr accounts)"

subsection \<open>Pass 3: the reports of the single bureaus\<close>

definition bureau_symbol_of :: "string \<Rightarrow> string" where
  "bureau_symbol_of comp_type =
     (if is_substring ''TUC'' comp_type then ''TUC''
      else if is_substring ''EQF'' comp_type then ''EQF'' else ''EXP'')"

text \<open>The dictionary literal \<^verbatim>\<open>additional_acct\<close> of the third pass.\<close>

definition additional_acct ::
  "'f pyenv \<Rightarrow> 'f pyval \<Rightarrow> 'f pyval \<Rightarrow> 'f pyval \<Rightarrow> 'f pyval \<Rightarrow> 'f pyval \<Rightarrow> 'f pyval \<Rightarrow> 'f pyval \<Rightarrow>
   'f pyval \<Rightarrow> 'f pyval \<Rightarrow> 'f pyval \<Rightarrow> 'f pyval \<Rightarrow> 'f pyval \<Rightarrow> 'f pyval \<Rightarrow> 'f pydict" where
  "additional_acct env creditor_name account_type account_status current_balance credit_limit
     open_date account_number high_balance bureau_symbol close_date
     balance credit_limit_n high_balance_n =
         [(''institution'', PDict [(''name'', safe_string env creditor_name)]),
          (''accountTypeObj'',
             if truthy env account_type
             then PDict [(''description'', safe_string env account_type)] else PNone),
          (''accountType'', safe_string env account_type),
          (''accountStatus'', safe_string env account_status),
          (''currentBalanceAmount'', safe_string env current_balance),
          (''creditLimitAmount'', safe_string env credit_limit),
          (''currentAccountRatingDisplay'', safe_string env account_status),
          (''openDateFormatted'', safe_string env open_date),
          (''maskedAccountNumber'', safe_string env account_number),
          (''highCreditAmount'', safe_string env high_balance),
          (''creditorContactSource'', safe_string env bureau_symbol),
          (''bureau'', safe_string env bureau_symbol),
          (''dateClosed'', safe_string env close_date),
          (''account_type'', safe_string env account_type),
          (''status'', safe_string env account_status),
          (''balance'', balance),
          (''credit_limit'', credit_limit_n),
          (''high_balance'', high_balance_n),
          (''open_date'', safe_string env open_date),
          (''closed_date'', safe_string env close_date),
          (''account_number'', safe_string env account_number)]"

definition bureau_tradeline ::
  "'f pyenv \<Rightarrow> string \<Rightarrow> 'f pyval \<Rightarrow> 'f pydict list \<Rightarrow> exn + 'f pydict list" where
  "bureau_tradeline env bureau_symbol tradeline_v accounts =
    (case tradeline_v of
       PDict tradeline \<Rightarrow>
        bindE (account_status_of env tradeline) (\<lambda>account_status.
        let creditor_name = creditor_name_of env tradeline;
            account_number = account_number_of env tradeline;
            account_type =
              py_or env (dget tradeline ''accountType'') (dget tradeline ''accountTypeDescription'');
            current_balance = dget tradeline ''currentBalance'';
            credit_limit = dget tradeline ''creditLimit'';
            high_balance = dget tradeline ''highBalance'';
            open_date = dget tradeline ''dateOpened'';
            close_date = dget tradeline ''dateClosed''
        in
        bindE (number_if_truthy env current_balance) (\<lambda>balance.
        bindE (number_if_truthy env credit_limit) (\<lambda>credit_limit_n.
        bindE (number_if_truthy env high_balance) (\<lambda>high_balance_n.
        bindE (is_duplicate
                 (\<lambda>existing_acct. same_account2 existing_acct account_number creditor_name)
                 accounts)
          (\<lambda>dup.
        if \<not> dup
        then Inr (accounts @
               [additional_acct env creditor_name account_type account_status current_balance
                  credit_limit open_date account_number high_balance (PStr bureau_symbol)
                  close_date balance credit_limit_n high_balance_n])
        else Inr accounts)))))
     | _ \<Rightarrow> Inl AttributeError)"

text \<open>
  One bundle component of the third pass. Only the three report types are read;
  \<^verbatim>\<open>Tradeline\<close>, \<^verbatim>\<open>Trade\<close> and \<^verbatim>\<open>Account\<close> are tried in turn for the list.
\<close>

definition bureau_comp ::
  "'f pyenv \<Rightarrow> 'f pyval \<Rightarrow> 'f pydict list \<Rightarrow> 'f pydict list \<times> exn option" where
  "bureau_comp env comp_v accounts =
    (case comp_v of
       PDict component \<Rightarrow>
        (case dget component ''Type'' of
           PStr comp_type \<Rightarrow>
            if comp_type \<in> set [''TUCReportV6'', ''EQFReportV6'', ''EXPReportV6'']
            then
              (case dget_or component ''CreditReportType'' (PDict []) of
                 PDict report_data \<Rightarrow>
                  (let tradelines =
                         py_or env (py_or env (dget_or report_data ''Tradeline'' (PList []))
                           (dget_or report_data ''Trade'' (PList [])))
                           (dget_or report_data ''Account'' (PList []))
                   in case py_iter (wrap_dict tradelines) of
                        Inl e \<Rightarrow> (accounts, Some e)
                      | Inr tls \<Rightarrow>
                          for_each_try
                            (\<lambda>tradeline accs.
                               keep accs
                                 (bureau_tradeline env (bureau_symbol_of comp_type) tradeline accs))
                            tls accounts)
               | _ \<Rightarrow> (accounts, Some AttributeError))
            else (accounts, None)
         | _ \<Rightarrow> (accounts, None))
     | _ \<Rightarrow> (accounts, Some AttributeError))"

text \<open>The \<^verbatim>\<open>try\<close> block of the third pass, from \<^verbatim>\<open>json.loads\<close> on.\<close>

definition json_loads :: "'f pyenv \<Rightarrow> 'f pyval \<Rightarrow> exn + 'f pyval" where
  "json_loads env v =
     (case v of
        PStr s \<Rightarrow> loads env s
      | _ \<Rightarrow> Inl TypeError)"

definition bureau_try ::
  "'f pyenv \<Rightarrow> 'f pyval \<Rightarrow> 'f pydict list \<Rightarrow> 'f pydict list \<times> exn option" where
  "bureau_try env raw_report_str accounts =
     (case json_loads env raw_report_str of
        Inl e \<Rightarrow> (accounts, Some e)
      | Inr raw_report_data \<Rightarrow>
         (case py_get_or raw_report_data ''BundleComponents'' (PDict []) of
            Inl e \<Rightarrow> (accounts, Some e)
          | Inr bundle_components \<Rightarrow>
             (case bundle_components of
                PDict bc \<Rightarrow>
                 (case py_iter (wrap_dict (dget_or bc ''BundleComponent'' (PList []))) of
                    Inl e \<Rightarrow> (accounts, Some e)
                  | Inr comps \<Rightarrow> for_each_try (bureau_comp env) comps accounts)
              | _ \<Rightarrow> (accounts, None))))"

definition warn :: "(exn \<Rightarrow> warning) \<Rightarrow> exn option \<Rightarrow> warning list" where
  "warn w r = (case r of None \<Rightarrow> [] | Some e \<Rightarrow> [w e])"

definition bureau_accounts ::
  "'f pyenv \<Rightarrow> 'f pyval \<Rightarrow> 'f pydict list \<Rightarrow> 'f pydict list \<times> warning list" where
  "bureau_accounts env raw_report_str accounts =
     (if truthy env raw_report_str
      then (case bureau_try env raw_report_str accounts of
              (accounts', r) \<Rightarrow> (accounts', warn BureauReportsWarning r))
      else (accounts, []))"


section \<open>The report tree navigator\<close>

text \<open>
  The loop that looks for the component of type \<^verbatim>\<open>MergeCreditReports\<close> and reads
  \<^verbatim>\<open>true_link\<close> and \<^verbatim>\<open>borrower\<close> from it. The state is the pair of these two
  variables: \<^verbatim>\<open>true_link\<close> is already assigned when reading the borrower raises.
\<close>

fun find_merge ::
  "'f pyval list \<Rightarrow> 'f pyval \<times> 'f pyval \<Rightarrow> ('f pyval \<times> 'f pyval) \<times> exn option" where
  "find_merge [] st = (st, None)"
| "find_merge (comp_v # comps) (true_link, borrower) =
     (case comp_v of
        PDict component \<Rightarrow>
          if py_eq (dget component ''Type'') (PStr ''MergeCreditReports'')
          then (let true_link' = dget_or component ''TrueLinkCreditReportType'' (PDict [])
                in case py_get_or true_link' ''Borrower'' (PDict []) of
                     Inl e \<Rightarrow> ((true_link', borrower), Some e)
                   | Inr borrower' \<Rightarrow> ((true_link', borrower'), None))
          else find_merge comps (true_link, borrower)
      | _ \<Rightarrow> ((true_link, borrower), Some AttributeError))"

text \<open>
  The navigation from a document to its component list, the same text in the source for
  the parsed \<^verbatim>\<open>rawReport\<close> and for the outer document.
\<close>

definition locate_borrower ::
  "'f pyval \<Rightarrow> 'f pyval \<times> 'f pyval \<Rightarrow> ('f pyval \<times> 'f pyval) \<times> exn option" where
  "locate_borrower doc st =
     (case py_get_or doc ''BundleComponents'' (PDict []) of
        Inl e \<Rightarrow> (st, Some e)
      | Inr bundle_components \<Rightarrow>
         (case bundle_components of
            PDict bc \<Rightarrow>
             (case py_iter (wrap_dict (dget_or bc ''BundleComponent'' (PList []))) of
                Inl e \<Rightarrow> (st, Some e)
              | Inr comps \<Rightarrow> find_merge comps st)
          | _ \<Rightarrow> (st, None)))"

text \<open>
  The first \<^verbatim>\<open>try\<close> block: \<^verbatim>\<open>json.loads\<close> and the navigation of its result;
  \<^verbatim>\<open>JSONDecodeError\<close>, \<^verbatim>\<open>AttributeError\<close> and \<^verbatim>\<open>TypeError\<close> are caught and
  printed as a warning.
\<close>

definition parse_raw_report ::
  "'f pyenv \<Rightarrow> 'f pyval \<Rightarrow> exn + (('f pyval \<times> 'f pyval) \<times> warning list)" where
  "parse_raw_report env raw_report_str =
     (if truthy env raw_report_str
      then (case (case json_loads env raw_report_str of
                    Inl e \<Rightarrow> ((PNone, PNone), Some e)
                  | Inr raw_report_data \<Rightarrow> locate_borrower raw_report_data (PNone, PNone)) of
              (st, None) \<Rightarrow> Inr (st, [])
            | (st, Some e) \<Rightarrow>
                if e \<in> {JSONDecodeError, AttributeError, TypeError}
                then Inr (st, [RawReportWarning e]) else Inl e)
      else Inr ((PNone, PNone), []))"

text \<open>The fallback to the outer document, outside any \<^verbatim>\<open>try\<close>.\<close>

definition fallback_borrower ::
  "'f pyenv \<Rightarrow> 'f pydict \<Rightarrow> 'f pyval \<times> 'f pyval \<Rightarrow> exn + ('f pyval \<times> 'f pyval)" where
  "fallback_borrower env cr_json st =
     (if \<not> truthy env (snd st)
      then (case locate_borrower (PDict cr_json) st of
              (st', None) \<Rightarrow> Inr st'
            | (st', Some e) \<Rightarrow> Inl e)
      else Inr st)"

section \<open>Personal information\<close>

definition name_fields :: "'f pyval \<Rightarrow> exn + 'f pyval list" where
  "name_fields name_data =
     (case name_data of
        PDict nd \<Rightarrow>
          Inr [dget_or nd ''first'' (PStr []), dget_or nd ''middle'' (PStr []),
               dget_or nd ''last'' (PStr [])]
      | _ \<Rightarrow> Inl AttributeError)"

text \<open>\<^verbatim>\<open>" ".join([p for p in [first, middle, last] if p]).strip()\<close>\<close>

definition joined_name :: "'f pyenv \<Rightarrow> 'f pyval \<Rightarrow> exn + 'f pyval" where
  "joined_name env name_data =
     bindE (name_fields name_data) (\<lambda>parts.
     bindE (join_truthy env '' '' parts) (\<lambda>s. Inr (PStr (strip s))))"

text \<open>
  The variant of the primary name: \<^verbatim>\<open>[first, middle, last] if middle else [first, last]\<close>
  before the falsy parts are dropped.
\<close>

definition primary_joined_name :: "'f pyenv \<Rightarrow> 'f pyval \<Rightarrow> exn + 'f pyval" where
  "primary_joined_name env name_data =
     bindE (name_fields name_data) (\<lambda>parts.
     bindE (join_truthy env '' ''
              (if truthy env (parts ! 1) then parts else [parts ! 0, parts ! 2]))
       (\<lambda>s. Inr (PStr (strip s))))"

text \<open>The loop for the name marked \<^verbatim>\<open>Primary\<close>; \<open>PNone\<close> when there is none.\<close>

fun find_primary :: "'f pyval list \<Rightarrow> exn + 'f pyval" where
  "find_primary [] = Inr PNone"
| "find_primary (name_obj # rest) =
     bindE (py_get_or name_obj ''NameType'' (PDict [])) (\<lambda>name_type.
     bindE (py_get name_type ''abbreviation'') (\<lambda>abbr.
     if py_eq abbr (PStr ''Primary'') then Inr name_obj else find_primary rest))"

text \<open>The last loop on \<^verbatim>\<open>name\<close>, run when the name is still a list.\<close>

fun first_valid_name :: "'f pyenv \<Rightarrow> 'f pyval list \<Rightarrow> 'f pyval \<Rightarrow> exn + 'f pyval" where
  "first_valid_name env [] name = Inr name"
| "first_valid_name env (name_item # rest) name =
     (case name_item of
        PDict item \<Rightarrow>
          (let name_data = dget_or item ''Name'' (PDict [])
           in if truthy env name_data then joined_name env name_data
              else first_valid_name env rest name)
      | _ \<Rightarrow> first_valid_name env rest name)"

definition borrower_name :: "'f pyenv \<Rightarrow> 'f pydict \<Rightarrow> exn + 'f pyval" where
  "borrower_name env borrower =
    (let name0 = dget borrower ''BorrowerName'' in
     bindE
      (if \<not> truthy env name0
       then
        (let names = dget_or borrower ''Name'' (PList []) in
         bindE
          (case names of
             PList ns \<Rightarrow>
               if ns \<noteq> []
               then bindE (find_primary ns) (\<lambda>primary0.
                    let primary_name = (if \<not> truthy env primary0 then hd ns else primary0)
                    in if truthy env primary_name
                       then bindE (py_get_or primary_name ''Name'' (PDict []))
                              (primary_joined_name env)
                       else Inr name0)
               else Inr name0
           | _ \<Rightarrow> Inr name0)
          (\<lambda>name1.
         bindE
          (case names of
             PList ns \<Rightarrow>
               if \<not> truthy env name1 \<and> ns \<noteq> []
               then (case hd ns of
                       PDict first_name_obj \<Rightarrow>
                         (let name_data = dget_or first_name_obj ''Name'' (PDict [])
                          in if truthy env name_data then joined_name env name_data
                             else Inr name1)
                     | _ \<Rightarrow> Inr name1)
               else Inr name1
           | _ \<Rightarrow> Inr name1)
          (\<lambda>name2.
         if \<not> truthy env name2
         then (let first_name =
                     py_or env (dget borrower ''firstName'') (dget borrower ''FirstName'');
                   last_name =
                     py_or env (dget borrower ''lastName'') (dget borrower ''LastName'')
               in if truthy env first_name \<and> truthy env last_name
                  then Inr (PStr (py_str env first_name @ '' '' @ py_str env last_name))
                  else Inr name2)
         else Inr name2)))
       else Inr name0)
      (\<lambda>name.
     case name of
       PList items \<Rightarrow> first_valid_name env items name
     | _ \<Rightarrow> Inr name))"

definition borrower_ssn :: "'f pyenv \<Rightarrow> 'f pydict \<Rightarrow> exn + 'f pyval" where
  "borrower_ssn env borrower =
     py_orE env
       (py_or env (dget borrower ''SocialSecurityNumber'') (dget borrower ''ssn''))
       (py_get (py_or env (dget borrower ''SocialPartition'') (PDict [])) ''Social'')"

text \<open>\<^verbatim>\<open>credit_addr.get(k, "").strip()\<close>\<close>

definition stripped_field :: "'f pydict \<Rightarrow> string \<Rightarrow> exn + string" where
  "stripped_field credit_addr k = py_strip (dget_or credit_addr k (PStr []))"

definition borrower_address :: "'f pyenv \<Rightarrow> 'f pydict \<Rightarrow> exn + 'f pyval" where
  "borrower_address env borrower =
    (let addresses = wrap_dict (dget_or borrower ''BorrowerAddress'' (PList [])) in
     if truthy env addresses
     then
       bindE (py_first addresses) (\<lambda>addr_obj.
       bindE (py_get_or addr_obj ''CreditAddress'' (PDict [])) (\<lambda>credit_addr_v.
       case credit_addr_v of
         PDict credit_addr \<Rightarrow>
           bindE
            (if truthy env (dget credit_addr ''unparsedStreet'')
             then stripped_field credit_addr ''unparsedStreet''
             else join_truthy env '' ''
                    [dget_or credit_addr ''houseNumber'' (PStr []),
                     dget_or credit_addr ''direction'' (PStr []),
                     dget_or credit_addr ''streetName'' (PStr []),
                     dget_or credit_addr ''streetType'' (PStr [])])
            (\<lambda>street.
           bindE (stripped_field credit_addr ''city'') (\<lambda>city.
           bindE (stripped_field credit_addr ''stateCode'') (\<lambda>state.
           bindE (stripped_field credit_addr ''postalCode'') (\<lambda>postal.
           let address_parts = filter (\<lambda>p. p \<noteq> []) [street, city, state, postal]
           in Inr (if address_parts \<noteq> [] then PStr (join_strs '', '' address_parts)
                   else PNone)))))
       | _ \<Rightarrow> Inl AttributeError))
     else Inr PNone)"

definition borrower_birth_date :: "'f pyenv \<Rightarrow> 'f pydict \<Rightarrow> exn + 'f pyval" where
  "borrower_birth_date env borrower =
    (let birth_dates = wrap_dict (dget_or borrower ''Birth'' (PList [])) in
     if truthy env birth_dates
     then bindE (py_first birth_dates) (\<lambda>b. py_get b ''date'')
     else Inr PNone)"

text \<open>
  \<^verbatim>\<open>bureau_info = x.get("Source", {}).get("Bureau", {})\<close> and
  \<^verbatim>\<open>bureau_info.get("description") or bureau_info.get(k)\<close>, used for previous
  addresses, inquiries and employers.
\<close>

definition source_bureau :: "'f pydict \<Rightarrow> exn + 'f pyval" where
  "source_bureau x = py_get_or (dget_or x ''Source'' (PDict [])) ''Bureau'' (PDict [])"

definition description_or :: "'f pyenv \<Rightarrow> 'f pyval \<Rightarrow> string \<Rightarrow> exn + 'f pyval" where
  "description_or env bureau_info k =
     (case bureau_info of
        PDict bi \<Rightarrow> Inr (py_or env (dget bi ''description'') (dget bi k))
      | _ \<Rightarrow> Inl AttributeError)"

text \<open>The f-string of a previous address, before \<^verbatim>\<open>.strip(', ')\<close>.\<close>

definition address_line :: "'f pyenv \<Rightarrow> string \<Rightarrow> 'f pydict \<Rightarrow> string" where
  "address_line env street credit_address =
     street @ '', '' @ py_str env (dget_or credit_address ''city'' (PStr [])) @ '', ''
       @ py_str env (dget_or credit_address ''stateCode'' (PStr [])) @ '', ''
       @ py_str env (dget_or credit_address ''postalCode'' (PStr []))"

definition previous_address :: "'f pyenv \<Rightarrow> 'f pyval \<Rightarrow> exn + 'f pyval" where
  "previous_address env prev_addr_v =
    (case prev_addr_v of
       PDict prev_addr \<Rightarrow>
        bindE (source_bureau prev_addr) (\<lambda>bureau_info.
        bindE (description_or env bureau_info ''symbol'') (\<lambda>bureau_name.
        case dget_or prev_addr ''CreditAddress'' (PDict []) of
          PDict credit_address \<Rightarrow>
            bindE
             (if truthy env (dget credit_address ''unparsedStreet'')
              then Inr (py_str env (dget_or credit_address ''unparsedStreet'' (PStr [])))
              else join_truthy env '' ''
                     [dget credit_address ''houseNumber'', dget credit_address ''direction'',
                      dget credit_address ''streetName'', dget credit_address ''streetType''])
             (\<lambda>street.
            let addr_str = strip_comma_space (address_line env street credit_address)
            in Inr (PDict
                 [(''address'',
                     if strip_comma_space addr_str \<noteq> [] then safe_string env (PStr addr_str)
                     else PNone),
                  (''date_reported'', safe_string env (dget prev_addr ''dateReported'')),
                  (''bureau'', safe_string env bureau_name)]))
        | _ \<Rightarrow> Inl AttributeError))
     | _ \<Rightarrow> Inl AttributeError)"

definition previous_address_step ::
  "'f pyenv \<Rightarrow> 'f pyval \<Rightarrow> 'f pyval list \<Rightarrow> exn + 'f pyval list" where
  "previous_address_step env prev_addr entries =
     bindE (previous_address env prev_addr) (\<lambda>entry. Inr (entries @ [entry]))"

text \<open>The block under \<^verbatim>\<open>if borrower:\<close>, which builds \<^verbatim>\<open>normalized["personal_info"]\<close>.\<close>

definition borrower_info :: "'f pyenv \<Rightarrow> 'f pyval \<Rightarrow> exn + 'f pyval" where
  "borrower_info env borrower_v =
    (case borrower_v of
       PDict borrower \<Rightarrow>
        bindE (borrower_name env borrower) (\<lambda>name.
        bindE (borrower_ssn env borrower) (\<lambda>ssn.
        bindE (borrower_address env borrower) (\<lambda>address_str.
        bindE (borrower_birth_date env borrower) (\<lambda>birth_date.
        bindE (py_iter (wrap_dict (dget_or borrower ''PreviousAddress'' (PList []))))
          (\<lambda>prev_addresses.
        bindE (for_each (previous_address_step env) prev_addresses []) (\<lambda>entries.
        Inr (PDict
          [(''name'', safe_string env name),
           (''ssn'', safe_string env ssn),
           (''dateOfBirth'', safe_string env birth_date),
           (''address'', address_str),
           (''previous_addresses'', PList entries)])))))))
     | _ \<Rightarrow> Inl AttributeError)"

definition personal_info_of :: "'f pyenv \<Rightarrow> 'f pyval \<Rightarrow> exn + 'f pyval" where
  "personal_info_of env borrower =
     (if truthy env borrower then borrower_info env borrower else Inr (PDict []))"


section \<open>Scores\<close>

text \<open>
  \<^verbatim>\<open>normalized["scores"]\<close> starts as the \<^verbatim>\<open>scores\<close> argument. The loop over the
  bundle components of the outer document then writes the score of each component
  whose \<^verbatim>\<open>Type\<close> contains a bureau token.
\<close>

text \<open>
  The key and the value one component makes the loop write, if any: the \<^verbatim>\<open>if\<close>/\<^verbatim>\<open>elif\<close>
  chain on the bureau tokens, taken in the order of the source.
\<close>

definition score_target ::
  "'f pyenv \<Rightarrow> 'f pyval \<Rightarrow> exn + (string \<times> 'f pyval) option" where
  "score_target env comp_v =
    (case comp_v of
       PDict component \<Rightarrow>
        (let bureau = dget component ''Type'' in
         case py_or env (dget component ''CreditScoreType'') (PDict []) of
           PDict cs \<Rightarrow>
            (let score = py_or env (dget cs ''riskScore'') (dget cs ''score'') in
             if truthy env score \<and> truthy env bureau
             then bindE (py_in ''TUC'' bureau) (\<lambda>tuc.
                  if tuc then Inr (Some (''TransUnion'', score))
                  else bindE (py_in ''EQF'' bureau) (\<lambda>eqf.
                  if eqf then Inr (Some (''Equifax'', score))
                  else bindE (py_in ''EXP'' bureau) (\<lambda>exp.
                  if exp then Inr (Some (''Experian'', score))
                  else Inr None)))
             else Inr None)
         | _ \<Rightarrow> Inl AttributeError)
     | _ \<Rightarrow> Inl AttributeError)"

definition score_step :: "'f pyenv \<Rightarrow> 'f pyval \<Rightarrow> 'f pydict \<Rightarrow> exn + 'f pydict" where
  "score_step env comp_v scores =
     bindE (score_target env comp_v)
       (\<lambda>t. Inr (case t of None \<Rightarrow> scores | Some (k, v) \<Rightarrow> AList.update k v scores))"

definition bundle_scores :: "'f pyenv \<Rightarrow> 'f pydict \<Rightarrow> 'f pydict \<Rightarrow> exn + 'f pydict" where
  "bundle_scores env cr_json scores =
     bindE (py_get_or (py_or env (dget cr_json ''BundleComponents'') (PDict []))
              ''BundleComponent'' (PList []))
       (\<lambda>comps.
     bindE (py_iter (wrap_dict comps)) (\<lambda>cs. for_each (score_step env) cs scores))"

text \<open>
  \<^verbatim>\<open>bureau_symbol == tok or (bureau_name and long_name in bureau_name)\<close>
\<close>

definition bureau_matches ::
  "'f pyenv \<Rightarrow> 'f pyval \<Rightarrow> 'f pyval \<Rightarrow> string \<Rightarrow> string \<Rightarrow> exn + bool" where
  "bureau_matches env bureau_symbol bureau_name tok long_name =
     (if py_eq bureau_symbol (PStr tok) then Inr True
      else if truthy env bureau_name then py_in long_name bureau_name
      else Inr False)"

definition credit_score_step :: "'f pyenv \<Rightarrow> 'f pyval \<Rightarrow> 'f pydict \<Rightarrow> exn + 'f pydict" where
  "credit_score_step env credit_score_v scores =
    (case credit_score_v of
       PDict credit_score \<Rightarrow>
        (let score_value = dget credit_score ''riskScore'' in
         bindE (source_bureau credit_score) (\<lambda>bureau_info_v.
         case bureau_info_v of
           PDict bureau_info \<Rightarrow>
            (let bureau_symbol = dget bureau_info ''symbol'';
                 bureau_name = dget bureau_info ''description''
             in if truthy env score_value \<and> truthy env bureau_symbol
                then bindE (bureau_matches env bureau_symbol bureau_name ''TUC'' ''TransUnion'')
                       (\<lambda>tuc.
                     if tuc then Inr (AList.update ''TransUnion'' score_value scores)
                     else bindE (bureau_matches env bureau_symbol bureau_name ''EQF'' ''Equifax'')
                       (\<lambda>eqf.
                     if eqf then Inr (AList.update ''Equifax'' score_value scores)
                     else bindE (bureau_matches env bureau_symbol bureau_name ''EXP'' ''Experian'')
                       (\<lambda>exp.
                     if exp then Inr (AList.update ''Experian'' score_value scores)
                     else Inr scores)))
                else Inr scores)
         | _ \<Rightarrow> Inl AttributeError))
     | _ \<Rightarrow> Inl AttributeError)"

text \<open>
  The \<^verbatim>\<open>CreditScore\<close> array of the borrower, read under \<^verbatim>\<open>except Exception\<close>: the
  scores written before an exception stay.
\<close>

definition credit_score_try ::
  "'f pyenv \<Rightarrow> 'f pyval \<Rightarrow> 'f pydict \<Rightarrow> 'f pydict \<times> exn option" where
  "credit_score_try env borrower scores =
     (case py_get_or borrower ''CreditScore'' (PList []) of
        Inl e \<Rightarrow> (scores, Some e)
      | Inr credit_scores \<Rightarrow>
         (case credit_scores of
            PList css \<Rightarrow>
              for_each_try (\<lambda>c sc. keep sc (credit_score_step env c sc)) css scores
          | _ \<Rightarrow> (scores, None)))"

definition borrower_scores ::
  "'f pyenv \<Rightarrow> 'f pyval \<Rightarrow> 'f pyval \<Rightarrow> 'f pydict \<Rightarrow> 'f pydict \<times> warning list" where
  "borrower_scores env raw_report_str borrower scores =
     (if truthy env raw_report_str \<and> truthy env borrower
      then (case credit_score_try env borrower scores of
              (scores', r) \<Rightarrow> (scores', warn CreditScoreWarning r))
      else (scores, []))"

section \<open>Inquiries, public records, employers\<close>

definition search_results_list :: "'f pyenv \<Rightarrow> 'f pydict \<Rightarrow> string \<Rightarrow> exn + 'f pyval list" where
  "search_results_list env raw k =
     bindE (py_get_or (py_or env (dget raw ''search_results'') (PDict [])) k (PList []))
       (\<lambda>xs. py_iter (wrap_dict xs))"

definition search_inquiry :: "'f pyval \<Rightarrow> 'f pyval list \<Rightarrow> exn + 'f pyval list" where
  "search_inquiry iq_v inquiries =
     (case iq_v of
        PDict iq \<Rightarrow>
          Inr (inquiries @
            [PDict [(''bureau'', dget iq ''bureau''),
                    (''business_name'', dget iq ''subscriberName''),
                    (''inquiry_date'', dget iq ''inquiryDate''),
                    (''type'', dget iq ''inquiryType'')]])
      | _ \<Rightarrow> Inl AttributeError)"

definition partition_inquiry :: "'f pyenv \<Rightarrow> 'f pyval \<Rightarrow> 'f pyval list \<Rightarrow> exn + 'f pyval list" where
  "partition_inquiry env inquiry_item inquiries =
     bindE (py_get_or inquiry_item ''Inquiry'' (PDict [])) (\<lambda>inquiry_data_v.
     if truthy env inquiry_data_v
     then (case inquiry_data_v of
             PDict inquiry_data \<Rightarrow>
               bindE (if \<not> truthy env (dget inquiry_data ''bureau'')
                      then bindE (source_bureau inquiry_data)
                             (\<lambda>bureau_info. description_or env bureau_info ''abbreviation'')
                      else Inr (dget inquiry_data ''bureau''))
                 (\<lambda>bureau_name.
               Inr (inquiries @
                 [PDict [(''bureau'', bureau_name),
                         (''business_name'', dget inquiry_data ''subscriberName''),
                         (''inquiry_date'', dget inquiry_data ''inquiryDate''),
                         (''type'', dget inquiry_data ''inquiryType'')]]))
           | _ \<Rightarrow> Inl AttributeError)
     else Inr inquiries)"

definition partition_inquiries ::
  "'f pyenv \<Rightarrow> 'f pyval \<Rightarrow> 'f pyval list \<Rightarrow> exn + 'f pyval list" where
  "partition_inquiries env true_link inquiries =
     (if truthy env true_link
      then bindE (py_get_or true_link ''InquiryPartition'' (PList [])) (\<lambda>inquiry_partition.
           bindE (py_iter (wrap_dict inquiry_partition))
             (\<lambda>items. for_each (partition_inquiry env) items inquiries))
      else Inr inquiries)"

definition borrower_inquiry :: "'f pyenv \<Rightarrow> 'f pyval \<Rightarrow> 'f pyval list \<Rightarrow> exn + 'f pyval list" where
  "borrower_inquiry env iq_v inquiries =
     (case iq_v of
        PDict iq \<Rightarrow>
          bindE (source_bureau iq) (\<lambda>bureau_info.
          bindE (description_or env bureau_info ''symbol'') (\<lambda>bureau_name.
          Inr (inquiries @
            [PDict [(''bureau'', bureau_name),
                    (''business_name'',
                       py_or env (dget iq ''subscriberName'') (dget iq ''businessName'')),
                    (''inquiry_date'',
                       py_or env (dget iq ''inquiryDate'') (dget iq ''dateReported'')),
                    (''type'', py_or env (dget iq ''inquiryType'') (dget iq ''type''))]])))
      | _ \<Rightarrow> Inl AttributeError)"

definition borrower_inquiries ::
  "'f pyenv \<Rightarrow> 'f pyval \<Rightarrow> 'f pyval list \<Rightarrow> exn + 'f pyval list" where
  "borrower_inquiries env borrower inquiries =
     (if truthy env borrower
      then bindE (py_get_or borrower ''Inquiry'' (PList [])) (\<lambda>raw_inquiries.
           bindE (py_iter (wrap_dict raw_inquiries))
             (\<lambda>iqs. for_each (borrower_inquiry env) iqs inquiries))
      else Inr inquiries)"

definition public_record :: "'f pyenv \<Rightarrow> 'f pyval \<Rightarrow> 'f pyval list \<Rightarrow> exn + 'f pyval list" where
  "public_record env pr_v records =
     (case pr_v of
        PDict pr \<Rightarrow>
          bindE (safe_number env (dget pr ''amount'')) (\<lambda>amount.
          Inr (records @
            [PDict [(''type'', dget pr ''type''),
                    (''date_filed'', dget pr ''dateFiled''),
                    (''status'', dget pr ''status''),
                    (''amount'', amount)]]))
      | _ \<Rightarrow> Inl AttributeError)"

definition borrower_employer :: "'f pyenv \<Rightarrow> 'f pyval \<Rightarrow> 'f pyval list \<Rightarrow> exn + 'f pyval list" where
  "borrower_employer env emp_v employers =
     (case emp_v of
        PDict emp \<Rightarrow>
          bindE (source_bureau emp) (\<lambda>bureau_info.
          bindE (description_or env bureau_info ''symbol'') (\<lambda>bureau_name.
          Inr (employers @
            [PDict [(''name'', dget emp ''name''),
                    (''date_reported'',
                       py_or env (dget emp ''dateReported'') (dget emp ''dateUpdated'')),
                    (''bureau'', bureau_name)]])))
      | _ \<Rightarrow> Inl AttributeError)"

definition borrower_employers ::
  "'f pyenv \<Rightarrow> 'f pyval \<Rightarrow> 'f pyval list \<Rightarrow> exn + 'f pyval list" where
  "borrower_employers env borrower employers =
     (if truthy env borrower
      then bindE (py_get_or borrower ''Employer'' (PList [])) (\<lambda>emps.
           bindE (py_iter (wrap_dict emps))
             (\<lambda>es. for_each (borrower_employer env) es employers))
      else Inr employers)"

definition fallback_employer :: "'f pyenv \<Rightarrow> 'f pyval \<Rightarrow> 'f pyval list \<Rightarrow> exn + 'f pyval list" where
  "fallback_employer env emp_v employers =
     (case emp_v of
        PDict emp \<Rightarrow>
          Inr (employers @
            [PDict [(''name'', py_or env (dget emp ''name'') (dget emp ''employerName'')),
                    (''date_reported'',
                       py_or env (dget emp ''dateReported'') (dget emp ''dateUpdated'')),
                    (''bureau'', dget emp ''bureau'')]])
      | _ \<Rightarrow> Inl AttributeError)"

text \<open>
  \<^verbatim>\<open>(cr_json.get("Borrower") or {}).get("Employer", [])\<close>: here \<^verbatim>\<open>cr_json\<close> is used
  without the \<^verbatim>\<open>isinstance\<close> test of the earlier sections.
\<close>

definition fallback_employers ::
  "'f pyenv \<Rightarrow> 'f pyval \<Rightarrow> 'f pyval list \<Rightarrow> exn + 'f pyval list" where
  "fallback_employers env cr_json employers =
     bindE (py_get cr_json ''Borrower'') (\<lambda>b.
     bindE (py_get_or (py_or env b (PDict [])) ''Employer'' (PList [])) (\<lambda>emps.
     bindE (py_iter (wrap_dict emps))
       (\<lambda>es. for_each (fallback_employer env) es employers)))"

section \<open>The normaliser\<close>

record 'f report =
  personal_info :: "'f pyval"
  scores :: "'f pydict"
  accounts :: "'f pydict list"
  inquiries :: "'f pyval list"
  public_records :: "'f pyval list"
  employers :: "'f pyval list"

text \<open>
  The part of \<^verbatim>\<open>normalize_report\<close> that is guarded by
  \<^verbatim>\<open>isinstance(cr_json, dict)\<close>: the navigator, the personal information and the two
  score passes. It returns the three variables the later sections reuse
  (\<^verbatim>\<open>raw_report_str\<close>, \<^verbatim>\<open>true_link\<close>, \<^verbatim>\<open>borrower\<close>), the personal information, the
  scores and the warnings printed.
\<close>

definition credit_report_sections ::
  "'f pyenv \<Rightarrow> 'f pyval \<Rightarrow> 'f pydict \<Rightarrow>
     exn + ('f pyval \<times> 'f pyval \<times> 'f pyval \<times> 'f pyval \<times> 'f pydict \<times> warning list)" where
  "credit_report_sections env cr_json_v scores0 =
    (case cr_json_v of
       PDict cr_json \<Rightarrow>
        (let raw_report_str = dget cr_json ''rawReport'' in
         bindE (parse_raw_report env raw_report_str) (\<lambda>(st0, log1).
         bindE (fallback_borrower env cr_json st0) (\<lambda>(true_link, borrower).
         bindE (personal_info_of env borrower) (\<lambda>pinfo.
         bindE (bundle_scores env cr_json scores0) (\<lambda>scores1.
         let written = borrower_scores env raw_report_str borrower scores1
         in Inr (raw_report_str, true_link, borrower, pinfo, fst written,
                 log1 @ snd written))))))
     | _ \<Rightarrow> Inr (PNone, PNone, PNone, PDict [], scores0, []))"

text \<open>The sections of \<^verbatim>\<open>normalize_report\<close> after the scores, each with its passes in turn.\<close>

definition account_passes ::
  "'f pyenv \<Rightarrow> 'f pydict \<Rightarrow> 'f pyval \<Rightarrow> 'f pyval \<Rightarrow> exn + ('f pydict list \<times> warning list)" where
  "account_passes env raw true_link raw_report_str =
     bindE (trade_accounts env raw []) (\<lambda>accounts1.
     bindE (partition_accounts env true_link accounts1) (\<lambda>accounts2.
     Inr (bureau_accounts env raw_report_str accounts2)))"

definition inquiry_passes ::
  "'f pyenv \<Rightarrow> 'f pydict \<Rightarrow> 'f pyval \<Rightarrow> 'f pyval \<Rightarrow> exn + 'f pyval list" where
  "inquiry_passes env raw true_link borrower =
     bindE (search_results_list env raw ''inquiries'') (\<lambda>inqs.
     bindE (for_each search_inquiry inqs []) (\<lambda>inquiries1.
     bindE (partition_inquiries env true_link inquiries1) (\<lambda>inquiries2.
     borrower_inquiries env borrower inquiries2)))"

definition public_record_pass :: "'f pyenv \<Rightarrow> 'f pydict \<Rightarrow> exn + 'f pyval list" where
  "public_record_pass env raw =
     bindE (search_results_list env raw ''publicRecords'')
       (\<lambda>prs. for_each (public_record env) prs [])"

definition employer_passes :: "'f pyenv \<Rightarrow> 'f pyval \<Rightarrow> 'f pyval \<Rightarrow> exn + 'f pyval list" where
  "employer_passes env cr_json borrower =
     bindE (borrower_employers env borrower [])
       (\<lambda>employers1. fallback_employers env cr_json employers1)"

definition normalize_report ::
  "'f pyenv \<Rightarrow> 'f pydict \<Rightarrow> 'f pydict \<Rightarrow> exn + ('f report \<times> warning list)" where
  "normalize_report env raw scores0 =
    (let cr_json = dget_or raw ''credit_report_json'' (PDict []) in
     bindE (credit_report_sections env cr_json scores0)
       (\<lambda>(raw_report_str, true_link, borrower, pinfo, scores2, log12).
     bindE (account_passes env raw true_link raw_report_str) (\<lambda>(accounts3, log3).
     bindE (inquiry_passes env raw true_link borrower) (\<lambda>inquiries3.
     bindE (public_record_pass env raw) (\<lambda>records.
     bindE (employer_passes env cr_json borrower) (\<lambda>employers2.
     Inr (\<lparr>personal_info = pinfo, scores = scores2, accounts = accounts3,
            inquiries = inquiries3, public_records = records, employers = employers2\<rparr>,
          log12 @ log3)))))))"

section \<open>Reading the result\<close>

text \<open>
  The dedup key of an account record of the output: masked account number, institution
  name and bureau, as stored.
\<close>

definition acct_key :: "'f pydict \<Rightarrow> 'f pyval \<times> 'f pyval \<times> 'f pyval" where
  "acct_key a =
     (dget a ''maskedAccountNumber'',
      (case dget_or a ''institution'' (PDict []) of PDict i \<Rightarrow> dget i ''name'' | _ \<Rightarrow> PNone),
      dget a ''bureau'')"

text \<open>The report a run returns; these are only applied to runs that return.\<close>

definition returns :: "exn + 'a \<Rightarrow> bool" where
  "returns m = (\<not> isl m)"

definition report_of :: "exn + ('f report \<times> warning list) \<Rightarrow> 'f report" where
  "report_of m = fst (projr m)"

definition warnings_of :: "exn + ('f report \<times> warning list) \<Rightarrow> warning list" where
  "warnings_of m = snd (projr m)"

section \<open>Concrete inputs\<close>

text \<open>
  An environment for running the normaliser on concrete documents. Floats are the
  integers here; \<open>float\<close> of a string reads a plain decimal numeral, and
  \<open>json.loads\<close> knows the texts of the documents listed in \<open>fixture_docs\<close>.
\<close>

fun digits_value :: "nat \<Rightarrow> string \<Rightarrow> nat option" where
  "digits_value acc [] = Some acc"
| "digits_value acc (c # cs) =
     (if (48::nat) \<le> of_char c \<and> (of_char c :: nat) \<le> 57
      then digits_value (10 * acc + (of_char c - 48)) cs else None)"

definition decimal :: "string \<Rightarrow> int option" where
  "decimal s = (if s = [] then None else map_option int (digits_value 0 s))"

definition bureau_doc :: "string \<Rightarrow> int pydict \<Rightarrow> int pyval" where
  "bureau_doc comp_type tradeline =
     PDict [(''BundleComponents'', PDict [(''BundleComponent'', PList
       [PDict [(''Type'', PStr comp_type),
               (''CreditReportType'', PDict [(''Tradeline'', PList [PDict tradeline])])]])])]"

definition fixture_docs :: "(string \<times> int pyval) list" where
  \<open>fixture_docs =
     [(''{"BundleComponents":{"BundleComponent":[{"Type":"TUCReportV6","CreditReportType":{"Tradeline":[{"accountType":"Revolving"}]}}]}}'',
       bureau_doc ''TUCReportV6'' [(''accountType'', PStr ''Revolving'')]),
      (''{"BundleComponents":{"BundleComponent":[{"Type":"EQFReportV6","CreditReportType":{"Tradeline":[{"creditorName":"A","accountNumber":"1"}]}}]}}'',
       bureau_doc ''EQFReportV6'' [(''creditorName'', PStr ''A''), (''accountNumber'', PStr ''1'')]),
      (''{"BundleComponents":{"BundleComponent":[{"Type":"EXPReportV6","CreditReportType":{"Tradeline":[{"creditorName":"C","accountNumber":"3"}]}}]}}'',
       bureau_doc ''EXPReportV6'' [(''creditorName'', PStr ''C''), (''accountNumber'', PStr ''3'')])]\<close>

definition fixture_env :: "int pyenv" where
  "fixture_env =
     \<lparr>loads = (\<lambda>s. case map_of fixture_docs s of
                       None \<Rightarrow> Inl JSONDecodeError | Some d \<Rightarrow> Inr d),
      float_of_str = decimal,
      float_of_int = Some,
      float_nonzero = (\<lambda>x. x \<noteq> 0),
      str_of_float = (\<lambda>x. show_int x @ ''.0''),
      repr_container = (\<lambda>v. []),
      reformat_date = (\<lambda>s. None)\<rparr>"

text \<open>A document whose only content is a \<^verbatim>\<open>rawReport\<close> text.\<close>

definition raw_report_only :: "string \<Rightarrow> int pydict" where
  "raw_report_only text = [(''credit_report_json'', PDict [(''rawReport'', PStr text)])]"

text \<open>
  A merged component in the outer document whose tradeline partition holds one
  tradeline.
\<close>

definition partition_doc :: "int pydict \<Rightarrow> int pyval" where
  "partition_doc tradeline =
     PDict [(''BundleComponents'', PDict [(''BundleComponent'', PList
       [PDict [(''Type'', PStr ''MergeCreditReports''),
               (''TrueLinkCreditReportType'', PDict
                  [(''TradeLinePartition'', PList [PDict [(''Tradeline'', PDict tradeline)]])])]])])]"

text \<open>The trades endpoint with one trade.\<close>

definition one_trade :: "int pydict \<Rightarrow> string \<times> int pyval" where
  "one_trade trade = (''trades'', PDict [(''trades'', PList [PDict trade])])"

definition trade_A1 :: "int pydict" where
  "trade_A1 =
     [(''institution'', PDict [(''name'', PStr ''A'')]),
      (''maskedAccountNumber'', PStr ''1''),
      (''bureau'', PStr ''TUC'')]"

text \<open>A bundle component with a TransUnion score, and a score argument for the same bureau.\<close>

definition score_component :: "int pydict" where
  "score_component =
     [(''Type'', PStr ''TUCVantageScore''),
      (''CreditScoreType'', PDict [(''riskScore'', PInt 700)])]"

definition score_bundle :: "int pydict" where
  "score_bundle = [(''BundleComponent'', PList [PDict score_component])]"

definition score_cr :: "int pydict" where
  "score_cr = [(''BundleComponents'', PDict score_bundle)]"

definition score_raw :: "int pydict" where
  "score_raw = [(''credit_report_json'', PDict score_cr)]"

definition score_override :: "int pydict" where
  "score_override = [(''TransUnion'', PStr ''640'')]"

section \<open>Notions for the account properties\<close>

text \<open>
  The fields the duplicate checks of the bundle passes read from a tradeline, and the
  symbol of a bureau block. A value is in stored form when \<^verbatim>\<open>safe_string\<close> leaves it
  as it is: \<^verbatim>\<open>None\<close> or a non-empty string without surrounding whitespace. A
  document is clean when every value under one of these names, in every dictionary of
  the document, is in stored form.
\<close>

definition key_names :: "string list" where
  "key_names =
     [''creditorName'', ''creditor_name'', ''institutionName'', ''institution_name'',
      ''lenderName'', ''subscriberName'', ''accountNumber'', ''maskedAccountNumber'', ''symbol'']"

definition stored :: "'f pyenv \<Rightarrow> 'f pyval \<Rightarrow> bool" where
  "stored env v = (safe_string env v = v)"

fun clean_doc :: "'f pyenv \<Rightarrow> 'f pyval \<Rightarrow> bool" where
  "clean_doc env (PDict d) =
     (\<forall>p \<in> set d. (fst p \<in> set key_names \<longrightarrow> stored env (snd p)) \<and> clean_doc env (snd p))"
| "clean_doc env (PList xs) = (\<forall>x \<in> set xs. clean_doc env x)"
| "clean_doc env v = True"

text \<open>An account record whose \<^verbatim>\<open>institution\<close> is a dictionary, as the duplicate loops expect.\<close>

definition wf_acct :: "'f pydict \<Rightarrow> bool" where
  "wf_acct a = (case dget_or a ''institution'' (PDict []) of PDict i \<Rightarrow> True | _ \<Rightarrow> False)"

text \<open>
  \<open>fresh_from seen ks\<close>: each key of \<open>ks\<close> differs from the keys of \<open>seen\<close> and
  from the keys before it in \<open>ks\<close>. \<open>ext P F accs accs'\<close>: a pass has appended records
  satisfying \<open>P\<close> to \<open>accs\<close>, with fresh keys when \<open>F\<close> holds.
\<close>

fun fresh_from :: "'k list \<Rightarrow> 'k list \<Rightarrow> bool" where
  "fresh_from seen [] = True"
| "fresh_from seen (k # ks) = (k \<notin> set seen \<and> fresh_from (seen @ [k]) ks)"

definition ext ::
  "('f pydict \<Rightarrow> bool) \<Rightarrow> bool \<Rightarrow> 'f pydict list \<Rightarrow> 'f pydict list \<Rightarrow> bool" where
  "ext P F accs accs' =
     (\<exists>new. accs' = accs @ new \<and> (\<forall>a \<in> set new. P a) \<and>
            (F \<longrightarrow> fresh_from (map acct_key accs) (map acct_key new)))"

text \<open>
  The field names of the records of the first two passes, those of the third pass, and
  the snake-case fields that repeat a field of the provider, as the record literals of
  the three passes write them.
\<close>

definition account_keys :: "string list" where
  "account_keys =
     [''institution'', ''accountTypeObj'', ''accountType'', ''accountStatus'',
      ''currentBalanceAmount'', ''creditLimitAmount'', ''currentAccountRatingDisplay'',
      ''openDateFormatted'', ''maskedAccountNumber'', ''highCreditAmount'',
      ''termsMonthlyPayment'', ''paymentHistory'', ''times30Late'', ''times60Late'',
      ''times90Late'', ''creditorContactSource'', ''bureau'', ''lastReported'', ''accountAge'',
      ''dateClosed'', ''memberCode'', ''account_type'', ''status'', ''balance'',
      ''credit_limit'', ''high_balance'', ''open_date'', ''closed_date'', ''payment_amount'',
      ''account_number'', ''last_reported'', ''account_age'']"

definition bureau_account_keys :: "string list" where
  "bureau_account_keys =
     [''institution'', ''accountTypeObj'', ''accountType'', ''accountStatus'',
      ''currentBalanceAmount'', ''creditLimitAmount'', ''currentAccountRatingDisplay'',
      ''openDateFormatted'', ''maskedAccountNumber'', ''highCreditAmount'',
      ''creditorContactSource'', ''bureau'', ''dateClosed'', ''account_type'', ''status'',
      ''balance'', ''credit_limit'', ''high_balance'', ''open_date'', ''closed_date'',
      ''account_number'']"

definition same_fields :: "'f pydict \<Rightarrow> (string \<times> string) list \<Rightarrow> bool" where
  "same_fields a pairs = (\<forall>(k, k') \<in> set pairs. map_of a k = map_of a k')"

definition carries :: "'f pydict \<Rightarrow> string list \<Rightarrow> bool" where
  "carries a ks = (\<forall>k \<in> set ks. map_of a k \<noteq> None)"

definition is_number_or_null :: "'f pyval option \<Rightarrow> bool" where
  "is_number_or_null r = (case r of Some PNone \<Rightarrow> True | Some (PFloat x) \<Rightarrow> True | _ \<Rightarrow> False)"

definition repeated_fields :: "'f pydict \<Rightarrow> bool" where
  "repeated_fields a =
     (carries a [''account_type'', ''status'', ''open_date'', ''closed_date'', ''account_number'',
                 ''bureau''] \<and>
      same_fields a
        [(''account_type'', ''accountType''), (''status'', ''accountStatus''),
         (''status'', ''currentAccountRatingDisplay''), (''open_date'', ''openDateFormatted''),
         (''closed_date'', ''dateClosed''), (''account_number'', ''maskedAccountNumber''),
         (''bureau'', ''creditorContactSource''), (''last_reported'', ''lastReported''),
         (''account_age'', ''accountAge'')] \<and>
      is_number_or_null (map_of a ''balance'') \<and>
      is_number_or_null (map_of a ''credit_limit'') \<and>
      is_number_or_null (map_of a ''high_balance''))"

definition full_acct :: "'f pydict \<Rightarrow> bool" where
  "full_acct a = (wf_acct a \<and> repeated_fields a \<and> map fst a = account_keys)"

definition reduced_acct :: "'f pydict \<Rightarrow> bool" where
  "reduced_acct a = (wf_acct a \<and> repeated_fields a \<and> map fst a = bureau_account_keys)"

text \<open>
  The documents the bundle passes read: the outer \<^verbatim>\<open>credit_report_json\<close> and, when it
  parses, the document in its \<^verbatim>\<open>rawReport\<close> text.
\<close>

definition bundle_docs :: "'f pyenv \<Rightarrow> 'f pydict \<Rightarrow> 'f pyval list" where
  "bundle_docs env raw =
     (let cr_json = dget_or raw ''credit_report_json'' (PDict [])
      in cr_json #
         (case cr_json of
            PDict c \<Rightarrow>
              (case json_loads env (dget c ''rawReport'') of Inr d \<Rightarrow> [d] | Inl e \<Rightarrow> [])
          | _ \<Rightarrow> []))"

section \<open>Concrete inputs for the account passes\<close>

text \<open>The trade (\<^verbatim>\<open>"1"\<close>, \<^verbatim>\<open>"A"\<close>, \<^verbatim>\<open>TUC\<close>) twice in the primary list.\<close>

definition two_trades :: "string \<times> int pyval" where
  "two_trades = (''trades'', PDict [(''trades'', PList [PDict trade_A1, PDict trade_A1])])"

text \<open>Tradelines of the partition, with their bureau symbol.\<close>

definition tradeline_A1_TUC :: "int pydict" where
  "tradeline_A1_TUC =
     [(''creditorName'', PStr ''A''), (''accountNumber'', PStr ''1''),
      (''Source'', PDict [(''Bureau'', PDict [(''symbol'', PStr ''TUC'')])])]"

definition tradeline_B2_EQF :: "int pydict" where
  "tradeline_B2_EQF =
     [(''creditorName'', PStr ''B''), (''accountNumber'', PStr ''2''),
      (''Source'', PDict [(''Bureau'', PDict [(''symbol'', PStr ''EQF'')])])]"

text \<open>
  An input for all three passes: the trade (\<^verbatim>\<open>"1"\<close>, \<^verbatim>\<open>"A"\<close>, \<^verbatim>\<open>TUC\<close>), the
  tradeline (\<^verbatim>\<open>"2"\<close>, \<^verbatim>\<open>"B"\<close>, \<^verbatim>\<open>EQF\<close>) in the partition of the outer document, and
  the tradeline (\<^verbatim>\<open>"3"\<close>, \<^verbatim>\<open>"C"\<close>) of an Experian report in the \<^verbatim>\<open>rawReport\<close> text.
\<close>

definition three_pass_raw :: "int pydict" where
  "three_pass_raw =
     [one_trade trade_A1,
      (''credit_report_json'',
       PDict [(''rawReport'', PStr (fst (fixture_docs ! 2))),
              (''BundleComponents'', PDict [(''BundleComponent'', PList
                 [PDict [(''Type'', PStr ''MergeCreditReports''),
                         (''TrueLinkCreditReportType'', PDict
                            [(''TradeLinePartition'',
                              PList [PDict [(''Tradeline'', PDict tradeline_B2_EQF)]])])]])])])]"

definition three_pass_run :: "exn + (int report \<times> warning list)" where
  "three_pass_run = normalize_report fixture_env three_pass_raw []"

text \<open>The same account in the primary list and in the partition.\<close>

definition both_paths_raw :: "int pydict" where
  "both_paths_raw =
     [one_trade trade_A1, (''credit_report_json'', partition_doc tradeline_A1_TUC)]"

definition both_paths_run :: "exn + (int report \<times> warning list)" where
  "both_paths_run = normalize_report fixture_env both_paths_raw []"

text \<open>A trade with a balance, and a bureau report with one tradeline.\<close>

definition chase_trade :: "int pydict" where
  "chase_trade =
     [(''institution'', PDict [(''name'', PStr ''Chase Bank'')]),
      (''maskedAccountNumber'', PStr ''438854XXXXXXXXXX''),
      (''bureau'', PStr ''TUC''),
      (''currentBalanceAmount'', PStr ''887'')]"

definition chase_raw :: "int pydict" where
  "chase_raw = one_trade chase_trade # raw_report_only (fst (fixture_docs ! 0))"

definition chase_run :: "exn + (int report \<times> warning list)" where
  "chase_run = normalize_report fixture_env chase_raw []"

section \<open>Notions for the nested payload\<close>

text \<open>The input without the \<^verbatim>\<open>rawReport\<close> entry of its \<^verbatim>\<open>credit_report_json\<close>.\<close>

definition without_raw_report :: "'f pydict \<Rightarrow> 'f pydict" where
  "without_raw_report raw =
     (case dget_or raw ''credit_report_json'' (PDict []) of
        PDict cr_json \<Rightarrow>
          AList.update ''credit_report_json'' (PDict (AList.delete ''rawReport'' cr_json)) raw
      | _ \<Rightarrow> raw)"

text \<open>
  A \<^verbatim>\<open>rawReport\<close> of 100000 opening brackets, on which \<^verbatim>\<open>json.loads\<close> raises
  \<^verbatim>\<open>RecursionError\<close>, and the fixture environment with this text known to
  \<^verbatim>\<open>json.loads\<close>.
\<close>

definition nested_text :: string where
  "nested_text = replicate 100000 (CHR ''['')"

definition nested_env :: "int pyenv" where
  "nested_env =
     fixture_env\<lparr>loads := (\<lambda>s. if s = nested_text then Inl RecursionError
                                else loads fixture_env s)\<rparr>"

text \<open>
  An input whose \<^verbatim>\<open>rawReport\<close> is a truncated text, with a merged component in the
  outer document whose borrower has a \<^verbatim>\<open>CreditScore\<close> array, and a score argument.
\<close>

definition bad_cr :: "int pydict" where
  \<open>bad_cr =
     [(''rawReport'', PStr ''{"BundleComponents":''),
      (''BundleComponents'', PDict [(''BundleComponent'', PList
         [PDict [(''Type'', PStr ''MergeCreditReports''),
                 (''TrueLinkCreditReportType'', PDict
                    [(''Borrower'', PDict
                        [(''BorrowerName'', PStr ''JOHN DOE''),
                         (''CreditScore'', PList
                            [PDict [(''riskScore'', PInt 710),
                                    (''Source'', PDict [(''Bureau'', PDict
                                       [(''symbol'', PStr ''TUC'')])])]])])])]])])]\<close>

definition bad_raw :: "int pydict" where
  "bad_raw = [(''credit_report_json'', PDict bad_cr)]"

definition bad_run :: "exn + (int report \<times> warning list)" where
  "bad_run = normalize_report fixture_env bad_raw score_override"

definition bad_run_without :: "exn + (int report \<times> warning list)" where
  "bad_run_without = normalize_report fixture_env (without_raw_report bad_raw) score_override"

section \<open>Notions for the dual field convention\<close>

text \<open>
  The snake-case text fields with the field of the provider each of them repeats. A
  snake-case amount is coerced from the amount behind a field of the provider when
  there is a source value \<open>x\<close> whose \<^verbatim>\<open>safe_string\<close> is stored under the provider's
  name, while the snake-case field holds a float or null and, for a truthy \<open>x\<close>, what
  \<^verbatim>\<open>safe_number\<close> makes of \<open>x\<close>.
\<close>

definition text_pairs :: "(string \<times> string) list" where
  "text_pairs =
     [(''account_type'', ''accountType''), (''status'', ''accountStatus''),
      (''status'', ''currentAccountRatingDisplay''), (''open_date'', ''openDateFormatted''),
      (''closed_date'', ''dateClosed''), (''account_number'', ''maskedAccountNumber''),
      (''bureau'', ''creditorContactSource'')]"

definition coerced_amount :: "'f pyenv \<Rightarrow> 'f pydict \<Rightarrow> string \<Rightarrow> string \<Rightarrow> bool" where
  "coerced_amount env a snake original =
     (\<exists>x n. map_of a original = Some (safe_string env x) \<and> map_of a snake = Some n \<and>
            is_number_or_null (Some n) \<and> (truthy env x \<longrightarrow> safe_number env x = Inr n))"

text \<open>The three amounts that every account record carries, and the monthly payment.\<close>

definition amounts :: "'f pyenv \<Rightarrow> 'f pydict \<Rightarrow> bool" where
  "amounts env a =
     (coerced_amount env a ''balance'' ''currentBalanceAmount'' \<and>
      coerced_amount env a ''credit_limit'' ''creditLimitAmount'' \<and>
      coerced_amount env a ''high_balance'' ''highCreditAmount'')"

definition full_amounts :: "'f pyenv \<Rightarrow> 'f pydict \<Rightarrow> bool" where
  "full_amounts env a =
     (amounts env a \<and> coerced_amount env a ''payment_amount'' ''termsMonthlyPayment'')"

text \<open>
  The dual convention on the fields that the records of all passes share, and on the
  full field list.
\<close>

definition dual_fields :: "'f pyenv \<Rightarrow> 'f pydict \<Rightarrow> bool" where
  "dual_fields env a =
     (carries a (map fst text_pairs @ map snd text_pairs) \<and> same_fields a text_pairs \<and>
      amounts env a)"

definition full_fields :: "'f pyenv \<Rightarrow> 'f pydict \<Rightarrow> bool" where
  "full_fields env a =
     (map fst a = account_keys \<and> dual_fields env a \<and>
      same_fields a [(''last_reported'', ''lastReported''), (''account_age'', ''accountAge'')] \<and>
      full_amounts env a)"

section \<open>Notions for shape tolerance\<close>

text \<open>
  A position in a document is a path of dictionary keys and list indices.
  \<open>put p x v\<close> is the document \<open>v\<close> with the value \<open>x\<close> at the position \<open>p\<close>: a key
  that is absent is added, and where the path does not fit the document (a key in a
  value that is no dictionary, an index outside the list) the document stays as it is.
\<close>

datatype step = Key string | Idx nat

fun put :: "step list \<Rightarrow> 'f pyval \<Rightarrow> 'f pyval \<Rightarrow> 'f pyval" where
  "put [] x v = x"
| "put (Key k # p) x v =
     (case v of
        PDict d \<Rightarrow> PDict (AList.update k (put p x (dget_or d k (PDict []))) d)
      | _ \<Rightarrow> v)"
| "put (Idx i # p) x v =
     (case v of
        PList xs \<Rightarrow> if i < length xs then PList (xs[i := put p x (xs ! i)]) else v
      | _ \<Rightarrow> v)"

definition put_raw :: "step list \<Rightarrow> 'f pyval \<Rightarrow> 'f pydict \<Rightarrow> 'f pydict" where
  "put_raw p x raw = (case put p x (PDict raw) of PDict d \<Rightarrow> d | _ \<Rightarrow> raw)"

text \<open>
  The positions at which \<^verbatim>\<open>normalize_report\<close> reads a field and wraps a dictionary
  into a list: four fields of the borrower block, two partitions of the merged
  report beside its borrower, the component list of a document with the components
  themselves (the one at index \<open>i\<close> of the list, or the bare component), and in the
  input the trades, the inquiries and public records of the search results and the
  employers of the outer borrower.
\<close>

definition borrower_lists :: "string list" where
  "borrower_lists = [''BorrowerAddress'', ''PreviousAddress'', ''Inquiry'', ''Employer'']"

definition borrower_positions :: "step list list" where
  "borrower_positions = map (\<lambda>k. [Key k]) borrower_lists"

definition true_link_positions :: "step list list" where
  "true_link_positions =
     [Key ''TradeLinePartition''] # [Key ''InquiryPartition'']
       # map ((#) (Key ''Borrower'')) borrower_positions"

definition component_positions :: "step list list" where
  "component_positions = map ((#) (Key ''TrueLinkCreditReportType'')) true_link_positions"

definition component_list_positions :: "nat \<Rightarrow> step list list" where
  "component_list_positions i =
     [] # map ((#) (Idx i)) component_positions @ component_positions"

definition document_positions :: "nat \<Rightarrow> step list list" where
  "document_positions i =
     map (\<lambda>p. Key ''BundleComponents'' # Key ''BundleComponent'' # p) (component_list_positions i)"

definition positions :: "nat \<Rightarrow> step list list" where
  "positions i =
     [Key ''trades'', Key ''trades''] # [Key ''search_results'', Key ''inquiries'']
       # [Key ''search_results'', Key ''publicRecords'']
       # [Key ''credit_report_json'', Key ''Borrower'', Key ''Employer'']
       # map ((#) (Key ''credit_report_json'')) (document_positions i)"

text \<open>\<open>same_at c p x y\<close>: the reading \<open>c\<close> of a document does not tell \<open>x\<close> from \<open>y\<close> at \<open>p\<close>.\<close>

definition same_at :: "('f pyval \<Rightarrow> 'a) \<Rightarrow> step list \<Rightarrow> 'f pyval \<Rightarrow> 'f pyval \<Rightarrow> bool" where
  "same_at c p x y = (\<forall>v. c (put p x v) = c (put p y v))"

text \<open>
  The coerced form of a document: every dictionary at one of the positions above is
  wrapped into a list. In the coerced form of \<^verbatim>\<open>credit_report_json\<close> the
  \<^verbatim>\<open>rawReport\<close> text is left out, because the normaliser reads it only through its
  truth value and through \<^verbatim>\<open>json.loads\<close>.
\<close>

definition wrap_at :: "string list \<Rightarrow> 'f pydict \<Rightarrow> 'f pydict" where
  "wrap_at ks d = map (\<lambda>p. if fst p \<in> set ks then (fst p, wrap_dict (snd p)) else p) d"

definition on_key :: "string \<Rightarrow> ('f pyval \<Rightarrow> 'f pyval) \<Rightarrow> 'f pydict \<Rightarrow> 'f pydict" where
  "on_key k f d = map (\<lambda>p. if fst p = k then (k, f (snd p)) else p) d"

definition in_dict :: "('f pydict \<Rightarrow> 'f pydict) \<Rightarrow> 'f pyval \<Rightarrow> 'f pyval" where
  "in_dict g v = (case v of PDict d \<Rightarrow> PDict (g d) | _ \<Rightarrow> v)"

definition coerce_borrower :: "'f pyval \<Rightarrow> 'f pyval" where
  "coerce_borrower = in_dict (wrap_at borrower_lists)"

definition coerce_true_link :: "'f pyval \<Rightarrow> 'f pyval" where
  "coerce_true_link =
     in_dict (\<lambda>d. on_key ''Borrower'' coerce_borrower
                    (wrap_at [''TradeLinePartition'', ''InquiryPartition''] d))"

definition coerce_component :: "'f pyval \<Rightarrow> 'f pyval" where
  "coerce_component = in_dict (on_key ''TrueLinkCreditReportType'' coerce_true_link)"

definition coerce_components :: "'f pyval \<Rightarrow> 'f pyval" where
  "coerce_components v =
     (case wrap_dict v of PList xs \<Rightarrow> PList (map coerce_component xs) | w \<Rightarrow> w)"

definition coerce_bundle_dict :: "'f pydict \<Rightarrow> 'f pydict" where
  "coerce_bundle_dict =
     on_key ''BundleComponents'' (in_dict (on_key ''BundleComponent'' coerce_components))"

definition coerce_bundle :: "'f pyval \<Rightarrow> 'f pyval" where
  "coerce_bundle = in_dict coerce_bundle_dict"

definition coerce_cr_dict :: "'f pydict \<Rightarrow> 'f pydict" where
  "coerce_cr_dict cr_json =
     AList.delete ''rawReport''
       (on_key ''Borrower'' (in_dict (wrap_at [''Employer''])) (coerce_bundle_dict cr_json))"

definition coerce_cr :: "'f pyval \<Rightarrow> 'f pyval" where
  "coerce_cr = in_dict coerce_cr_dict"

definition coerce_raw :: "'f pydict \<Rightarrow> 'f pydict" where
  "coerce_raw raw =
     on_key ''credit_report_json'' coerce_cr
       (on_key ''trades'' (in_dict (wrap_at [''trades'']))
          (on_key ''search_results'' (in_dict (wrap_at [''inquiries'', ''publicRecords''])) raw))"

definition coerce_state :: "'f pyval \<times> 'f pyval \<Rightarrow> 'f pyval \<times> 'f pyval" where
  "coerce_state st = (coerce_true_link (fst st), coerce_borrower (snd st))"

text \<open>
  The \<^verbatim>\<open>rawReport\<close> text of an input, and the two \<^verbatim>\<open>try\<close> blocks that parse it as
  functions of its truth value and of the outcome of \<^verbatim>\<open>json.loads\<close>.
\<close>

definition raw_report_in :: "'f pyval \<Rightarrow> 'f pyval" where
  "raw_report_in cr_json_v =
     (case cr_json_v of PDict cr_json \<Rightarrow> dget cr_json ''rawReport'' | _ \<Rightarrow> PNone)"

definition raw_report_of :: "'f pydict \<Rightarrow> 'f pyval" where
  "raw_report_of raw = raw_report_in (dget_or raw ''credit_report_json'' (PDict []))"

definition parse_loaded ::
  "bool \<Rightarrow> exn + 'f pyval \<Rightarrow> exn + (('f pyval \<times> 'f pyval) \<times> warning list)" where
  "parse_loaded present loaded =
     (if present
      then (case (case loaded of
                    Inl e \<Rightarrow> ((PNone, PNone), Some e)
                  | Inr raw_report_data \<Rightarrow> locate_borrower raw_report_data (PNone, PNone)) of
              (st, None) \<Rightarrow> Inr (st, [])
            | (st, Some e) \<Rightarrow>
                if e \<in> {JSONDecodeError, AttributeError, TypeError}
                then Inr (st, [RawReportWarning e]) else Inl e)
      else Inr ((PNone, PNone), []))"

definition bureau_loaded ::
  "'f pyenv \<Rightarrow> bool \<Rightarrow> exn + 'f pyval \<Rightarrow> 'f pydict list \<Rightarrow> 'f pydict list \<times> warning list" where
  "bureau_loaded env present loaded accs =
     (if present
      then (case (case loaded of
                    Inl e \<Rightarrow> (accs, Some e)
                  | Inr raw_report_data \<Rightarrow>
                     (case py_get_or raw_report_data ''BundleComponents'' (PDict []) of
                        Inl e \<Rightarrow> (accs, Some e)
                      | Inr bundle_components \<Rightarrow>
                         (case bundle_components of
                            PDict bc \<Rightarrow>
                             (case py_iter (wrap_dict (dget_or bc ''BundleComponent'' (PList []))) of
                                Inl e \<Rightarrow> (accs, Some e)
                              | Inr comps \<Rightarrow> for_each_try (bureau_comp env) comps accs)
                          | _ \<Rightarrow> (accs, None)))) of
              (accs', r) \<Rightarrow> (accs', warn BureauReportsWarning r))
      else (accs, []))"

text \<open>
  Concrete documents: an address, a document whose merged borrower has one field, the
  position of the address of that borrower, the two texts of the document with the
  address as an object and as an array, known to \<^verbatim>\<open>json.loads\<close> in \<open>address_env\<close>,
  and an entry of the \<^verbatim>\<open>Name\<close> array.
\<close>

definition address_object :: "int pydict" where
  "address_object =
     [(''CreditAddress'', PDict [(''unparsedStreet'', PStr ''1 MAIN ST''),
        (''city'', PStr ''SPRINGFIELD''), (''stateCode'', PStr ''IL''),
        (''postalCode'', PStr ''62701'')])]"

definition merged_doc :: "string \<Rightarrow> int pyval \<Rightarrow> int pyval" where
  "merged_doc field v =
     PDict [(''BundleComponents'', PDict [(''BundleComponent'', PList
       [PDict [(''Type'', PStr ''MergeCreditReports''),
               (''TrueLinkCreditReportType'', PDict
                  [(''Borrower'', PDict [(field, v)])])]])])]"

definition address_position :: "step list" where
  "address_position =
     [Key ''BundleComponents'', Key ''BundleComponent'', Idx 0,
      Key ''TrueLinkCreditReportType'', Key ''Borrower'', Key ''BorrowerAddress'']"

definition address_object_text :: string where
  \<open>address_object_text =
     ''{"BundleComponents":{"BundleComponent":[{"Type":"MergeCreditReports","TrueLinkCreditReportType":{"Borrower":{"BorrowerAddress":{"CreditAddress":{"unparsedStreet":"1 MAIN ST","city":"SPRINGFIELD","stateCode":"IL","postalCode":"62701"}}}}}]}}''\<close>

definition address_array_text :: string where
  \<open>address_array_text =
     ''{"BundleComponents":{"BundleComponent":[{"Type":"MergeCreditReports","TrueLinkCreditReportType":{"Borrower":{"BorrowerAddress":[{"CreditAddress":{"unparsedStreet":"1 MAIN ST","city":"SPRINGFIELD","stateCode":"IL","postalCode":"62701"}}]}}}]}}''\<close>

definition address_env :: "int pyenv" where
  "address_env =
     fixture_env\<lparr>loads := (\<lambda>s.
        if s = address_object_text
        then Inr (merged_doc ''BorrowerAddress'' (PDict address_object))
        else if s = address_array_text
        then Inr (merged_doc ''BorrowerAddress'' (PList [PDict address_object]))
        else loads fixture_env s)\<rparr>"

definition name_object :: "int pydict" where
  "name_object = [(''Name'', PDict [(''first'', PStr ''JOHN''), (''last'', PStr ''DOE'')])]"

definition name_raw :: "int pyval \<Rightarrow> int pydict" where
  "name_raw names = [(''credit_report_json'', merged_doc ''Name'' names)]"

section \<open>Properties\<close>


lemmas prim_defs =
  bindE_def dget_def dget_or_def py_get_def py_get_or_def py_or_def py_orE_def wrap_dict_def
  py_iter_def


lemma bindE_Inr_iff: "bindE m f = Inr y \<longleftrightarrow> (\<exists>x. m = Inr x \<and> f x = Inr y)"
  by (cases m) (simp_all add: bindE_def)

subsection \<open>What a returning run went through\<close>

lemma normalize_report_InrD:
  assumes "normalize_report env raw scores0 = Inr (rep, log)"
  shows "\<exists>raw_report_str true_link borrower pinfo scores2 log12 accounts3 log3
           inquiries3 records employers2.
     credit_report_sections env (dget_or raw ''credit_report_json'' (PDict [])) scores0
        = Inr (raw_report_str, true_link, borrower, pinfo, scores2, log12) \<and>
     account_passes env raw true_link raw_report_str = Inr (accounts3, log3) \<and>
     inquiry_passes env raw true_link borrower = Inr inquiries3 \<and>
     public_record_pass env raw = Inr records \<and>
     employer_passes env (dget_or raw ''credit_report_json'' (PDict [])) borrower = Inr employers2 \<and>
     rep = \<lparr>personal_info = pinfo, scores = scores2, accounts = accounts3,
            inquiries = inquiries3, public_records = records, employers = employers2\<rparr> \<and>
     log = log12 @ log3"
  using assms unfolding normalize_report_def Let_def
  by (auto simp: bindE_Inr_iff split: prod.splits)

lemma credit_report_sections_InrD:
  assumes "credit_report_sections env (PDict cr_json) scores0
             = Inr (raw_report_str, true_link, borrower, pinfo, scores2, log12)"
  shows "\<exists>st0 log1 scores1.
     raw_report_str = dget cr_json ''rawReport'' \<and>
     parse_raw_report env raw_report_str = Inr (st0, log1) \<and>
     fallback_borrower env cr_json st0 = Inr (true_link, borrower) \<and>
     personal_info_of env borrower = Inr pinfo \<and>
     bundle_scores env cr_json scores0 = Inr scores1 \<and>
     scores2 = fst (borrower_scores env raw_report_str borrower scores1) \<and>
     log12 = log1 @ snd (borrower_scores env raw_report_str borrower scores1)"
  using assms unfolding credit_report_sections_def Let_def
  by (auto simp: bindE_Inr_iff split: prod.splits)

subsection \<open>Loops\<close>

lemma for_each_append:
  "for_each f (xs @ ys) s = bindE (for_each f xs s) (for_each f ys)"
  by (induction xs arbitrary: s) (auto simp: bindE_def split: sum.splits)

lemma for_each_Cons_Inr:
  "for_each f (x # xs) s = Inr s' \<longleftrightarrow> (\<exists>s1. f x s = Inr s1 \<and> for_each f xs s1 = Inr s')"
  by (cases "f x s") simp_all

subsection \<open>Fresh keys\<close>

lemma fresh_from_append:
  "fresh_from seen (ks @ ls) = (fresh_from seen ks \<and> fresh_from (seen @ ks) ls)"
  by (induction ks arbitrary: seen) auto

lemma fresh_from_nth:
  "fresh_from seen ks \<Longrightarrow> j < length ks \<Longrightarrow> ks ! j \<notin> set seen \<union> set (take j ks)"
proof (induction ks arbitrary: seen j)
  case Nil
  then show ?case by simp
next
  case (Cons k ks)
  show ?case
  proof (cases j)
    case 0
    with Cons.prems show ?thesis by simp
  next
    case (Suc j')
    with Cons.prems have "ks ! j' \<notin> set (seen @ [k]) \<union> set (take j' ks)"
      by (intro Cons.IH) auto
    with Suc show ?thesis by auto
  qed
qed

lemma ext_refl: "ext P F accs accs"
  by (simp add: ext_def)

lemma ext_trans:
  assumes "ext P F accs accs1" and "ext P G accs1 accs2"
  shows "ext P (F \<and> G) accs accs2"
  using assms by (auto simp: ext_def fresh_from_append)

lemma ext_mono:
  assumes "ext P F accs accs'" and "\<And>a. P a \<Longrightarrow> Q a" and "G \<Longrightarrow> F"
  shows "ext Q G accs accs'"
  using assms by (auto simp: ext_def)

lemma ext_wf:
  assumes "ext P F accs accs'" and "\<And>a. P a \<Longrightarrow> wf_acct a" and "\<forall>e \<in> set accs. wf_acct e"
  shows "\<forall>e \<in> set accs'. wf_acct e"
  using assms by (auto simp: ext_def)

lemma for_each_ext:
  assumes step: "\<And>x s s'. x \<in> set xs \<Longrightarrow> \<forall>e \<in> set s. wf_acct e \<Longrightarrow> f x s = Inr s'
                  \<Longrightarrow> ext P (C x) s s'"
    and wf: "\<And>a. P a \<Longrightarrow> wf_acct a"
    and init: "\<forall>e \<in> set s. wf_acct e"
    and run: "for_each f xs s = Inr s'"
  shows "ext P (\<forall>x \<in> set xs. C x) s s'"
  using step init run
proof (induction xs arbitrary: s)
  case Nil
  then show ?case by (simp add: ext_refl)
next
  case (Cons x xs)
  from Cons.prems(3) obtain s1 where s1: "f x s = Inr s1" and rest: "for_each f xs s1 = Inr s'"
    unfolding for_each_Cons_Inr by blast
  have e1: "ext P (C x) s s1" using Cons.prems(1) [OF _ Cons.prems(2) s1] by simp
  have wf1: "\<forall>e \<in> set s1. wf_acct e" using ext_wf [OF e1 wf Cons.prems(2)] .
  have e2: "ext P (\<forall>x \<in> set xs. C x) s1 s'"
    using Cons.prems(1) by (intro Cons.IH [OF _ wf1 rest]) auto
  from ext_trans [OF e1 e2] show ?case by simp
qed

lemma for_each_try_ext:
  assumes step: "\<And>x s s' r. x \<in> set xs \<Longrightarrow> \<forall>e \<in> set s. wf_acct e \<Longrightarrow> f x s = (s', r)
                  \<Longrightarrow> ext P (C x) s s'"
    and wf: "\<And>a. P a \<Longrightarrow> wf_acct a"
    and init: "\<forall>e \<in> set s. wf_acct e"
    and run: "for_each_try f xs s = (s', r)"
  shows "ext P (\<forall>x \<in> set xs. C x) s s'"
  using step init run
proof (induction xs arbitrary: s)
  case Nil
  then show ?case by (simp add: ext_refl)
next
  case (Cons x xs)
  obtain s1 r1 where s1: "f x s = (s1, r1)" by (cases "f x s") auto
  have e1: "ext P (C x) s s1" using Cons.prems(1) [OF _ Cons.prems(2) s1] by simp
  show ?case
  proof (cases r1)
    case None
    with Cons.prems(3) s1 have rest: "for_each_try f xs s1 = (s', r)" by simp
    have wf1: "\<forall>e \<in> set s1. wf_acct e" using ext_wf [OF e1 wf Cons.prems(2)] .
    have e2: "ext P (\<forall>x \<in> set xs. C x) s1 s'"
      using Cons.prems(1) by (intro Cons.IH [OF _ wf1 rest]) auto
    from ext_trans [OF e1 e2] show ?thesis by simp
  next
    case (Some e)
    with Cons.prems(3) s1 have "s' = s1" by simp
    with e1 show ?thesis by (auto intro: ext_mono)
  qed
qed

subsection \<open>The duplicate loops\<close>

lemma same_account3_wf:
  "wf_acct e \<Longrightarrow> same_account3 e n m b = Inr (acct_key e = (n, m, b))"
  by (auto simp: wf_acct_def same_account3_def acct_key_def inst_name_def py_eq_def py_get_def
      py_get_or_def bindE_def dget_def split: pyval.splits)

lemma same_account2_wf:
  "wf_acct e \<Longrightarrow> same_account2 e n m = Inr (fst (acct_key e) = n \<and> fst (snd (acct_key e)) = m)"
  by (auto simp: wf_acct_def same_account2_def acct_key_def inst_name_def py_eq_def py_get_def
      py_get_or_def bindE_def dget_def split: pyval.splits)

lemma is_duplicate_wf:
  assumes "\<forall>e \<in> set accs. cond e = Inr (Q e)"
  shows "is_duplicate cond accs = Inr (\<exists>e \<in> set accs. Q e)"
  using assms by (induction accs) (auto split: bool.splits)

lemma safe_number_result:
  "safe_number env v = Inr r \<Longrightarrow> is_number_or_null (Some r)"
  by (cases v) (auto simp: is_number_or_null_def split: option.splits if_splits)

lemma number_if_truthy_result:
  "number_if_truthy env v = Inr r \<Longrightarrow> is_number_or_null (Some r)"
  by (auto simp: number_if_truthy_def is_number_or_null_def split: if_splits dest: safe_number_result)

subsection \<open>Account records\<close>

lemma acct_full:
  assumes "is_number_or_null (Some bal)" "is_number_or_null (Some cl)" "is_number_or_null (Some hb)"
  shows "full_acct (acct env a1 a2 a3 a4 a5 a6 a7 a8 a9 a10 a11 a12 a13 a14 a15 a16 a17 a18 bal cl hb pa)"
  using assms
  by (simp add: full_acct_def wf_acct_def repeated_fields_def same_fields_def carries_def acct_def
      account_keys_def dget_or_def map_of_Cons_code del: map_of.simps)

lemma tradeline_acct_full:
  assumes "is_number_or_null (Some bal)" "is_number_or_null (Some cl)" "is_number_or_null (Some hb)"
  shows "full_acct (tradeline_acct env a1 a2 a3 a4 a5 a6 a7 a8 a9 a10 a11 bal cl hb)"
  using assms
  by (simp add: full_acct_def wf_acct_def repeated_fields_def same_fields_def carries_def
      tradeline_acct_def account_keys_def dget_or_def map_of_Cons_code del: map_of.simps)

lemma additional_acct_reduced:
  assumes "is_number_or_null (Some bal)" "is_number_or_null (Some cl)" "is_number_or_null (Some hb)"
  shows "reduced_acct (additional_acct env a1 a2 a3 a4 a5 a6 a7 a8 a9 a10 bal cl hb)"
  using assms
  by (simp add: reduced_acct_def wf_acct_def repeated_fields_def same_fields_def carries_def
      additional_acct_def bureau_account_keys_def dget_or_def map_of_Cons_code
      del: map_of.simps)

lemma acct_key_tradeline_acct:
  "acct_key (tradeline_acct env nm a2 a3 a4 a5 a6 n a8 b a10 a11 bal cl hb)
     = (safe_string env n, safe_string env nm, safe_string env b)"
  by (simp add: acct_key_def tradeline_acct_def dget_def dget_or_def map_of_Cons_code
      del: map_of.simps)

lemma acct_key_additional_acct:
  "acct_key (additional_acct env nm a2 a3 a4 a5 a6 n a8 b a10 bal cl hb)
     = (safe_string env n, safe_string env nm, safe_string env b)"
  by (simp add: acct_key_def additional_acct_def dget_def dget_or_def map_of_Cons_code
      del: map_of.simps)

subsection \<open>Stored values\<close>

lemma stored_PNone [simp]: "stored env PNone"
  by (simp add: stored_def safe_string_def)

lemma stored_py_or: "stored env a \<Longrightarrow> stored env b \<Longrightarrow> stored env (py_or env a b)"
  by (simp add: py_or_def)

lemma map_of_in_set: "map_of d k = Some v \<Longrightarrow> (k, v) \<in> set d"
  by (rule map_of_SomeD)

lemma clean_dget_or:
  "clean_doc env (PDict d) \<Longrightarrow> clean_doc env dflt \<Longrightarrow> clean_doc env (dget_or d k dflt)"
  by (auto simp: dget_or_def split: option.splits dest!: map_of_SomeD)

lemma clean_dget: "clean_doc env (PDict d) \<Longrightarrow> clean_doc env (dget d k)"
  by (simp add: dget_def clean_dget_or)

lemma stored_dget:
  "clean_doc env (PDict d) \<Longrightarrow> k \<in> set key_names \<Longrightarrow> stored env (dget d k)"
  by (auto simp: dget_def dget_or_def split: option.splits dest!: map_of_SomeD)

lemma clean_py_or: "clean_doc env a \<Longrightarrow> clean_doc env b \<Longrightarrow> clean_doc env (py_or env a b)"
  by (simp add: py_or_def)

lemma clean_wrap_dict: "clean_doc env v \<Longrightarrow> clean_doc env (wrap_dict v)"
  by (cases v) (simp_all add: wrap_dict_def)

lemma clean_py_iter:
  "py_iter v = Inr xs \<Longrightarrow> clean_doc env v \<Longrightarrow> \<forall>x \<in> set xs. clean_doc env x"
  by (cases v) (auto simp: py_iter_def)

lemma clean_py_get_or:
  "py_get_or v k dflt = Inr x \<Longrightarrow> clean_doc env v \<Longrightarrow> clean_doc env dflt \<Longrightarrow> clean_doc env x"
  by (cases v) (auto simp: py_get_or_def intro: clean_dget_or)

lemma stored_creditor_name:
  "clean_doc env (PDict t) \<Longrightarrow> stored env (creditor_name_of env t)"
  unfolding creditor_name_of_def
  by (intro stored_py_or stored_dget) (simp_all add: key_names_def)

lemma stored_account_number:
  "clean_doc env (PDict t) \<Longrightarrow> stored env (account_number_of env t)"
  unfolding account_number_of_def
  by (intro stored_py_or stored_dget) (simp_all add: key_names_def)

lemma stored_tradeline_symbol:
  assumes "tradeline_symbol t = Inr symb" and "clean_doc env (PDict t)"
  shows "stored env symb"
proof -
  from assms(1) obtain bi where bi: "py_get_or (dget_or t ''Source'' (PDict [])) ''Bureau'' (PDict []) = Inr bi"
    and symb: "py_get bi ''symbol'' = Inr symb"
    by (auto simp: tradeline_symbol_def bindE_Inr_iff)
  have "clean_doc env (dget_or t ''Source'' (PDict []))"
    using assms(2) by (intro clean_dget_or) simp_all
  with bi have "clean_doc env bi" by (auto intro: clean_py_get_or)
  with symb show ?thesis
    by (cases bi) (auto simp: py_get_def py_get_or_def key_names_def dget_def [symmetric]
        intro!: stored_dget)
qed

lemma is_duplicate3:
  assumes "\<forall>e \<in> set accs. wf_acct e"
  shows "is_duplicate (\<lambda>e. same_account3 e n m b) accs
           = Inr (\<exists>e \<in> set accs. acct_key e = (n, m, b))"
  by (rule is_duplicate_wf) (use assms in \<open>simp add: same_account3_wf\<close>)

lemma is_duplicate2:
  assumes "\<forall>e \<in> set accs. wf_acct e"
  shows "is_duplicate (\<lambda>e. same_account2 e n m) accs
           = Inr (\<exists>e \<in> set accs. fst (acct_key e) = n \<and> fst (snd (acct_key e)) = m)"
  by (rule is_duplicate_wf) (use assms in \<open>simp add: same_account2_wf\<close>)

subsection \<open>Pass 1 adds full records\<close>

lemma full_acct_wf: "full_acct a \<Longrightarrow> wf_acct a"
  by (simp add: full_acct_def)

lemma reduced_acct_wf: "reduced_acct a \<Longrightarrow> wf_acct a"
  by (simp add: reduced_acct_def)

lemma trade_account_full:
  assumes "trade_account env t = Inr a"
  shows "full_acct a"
  using assms
  by (cases t; simp add: trade_account_def bindE_Inr_iff Let_def)
     (auto intro!: acct_full dest: number_if_truthy_result)

lemma trade_step_ext:
  "trade_step env t s = Inr s' \<Longrightarrow> ext full_acct False s s'"
  by (auto simp: trade_step_def bindE_Inr_iff ext_def dest: trade_account_full)

lemma trade_accounts_full:
  assumes "trade_accounts env raw [] = Inr accs1"
  shows "\<forall>a \<in> set accs1. full_acct a"
proof -
  from assms obtain ts where run: "for_each (trade_step env) ts [] = Inr accs1"
    by (auto simp: trade_accounts_def bindE_Inr_iff)
  have "ext full_acct (\<forall>x \<in> set ts. False) [] accs1"
    by (rule for_each_ext [OF _ full_acct_wf _ run]) (auto dest: trade_step_ext)
  then show ?thesis by (auto simp: ext_def)
qed

subsection \<open>Pass 2 adds full records with fresh keys\<close>

lemma safe_string_account_number:
  "clean_doc env (PDict t) \<Longrightarrow> safe_string env (account_number_of env t) = account_number_of env t"
  using stored_account_number by (simp add: stored_def)

lemma safe_string_creditor_name:
  "clean_doc env (PDict t) \<Longrightarrow> safe_string env (creditor_name_of env t) = creditor_name_of env t"
  using stored_creditor_name by (simp add: stored_def)

lemma safe_string_tradeline_symbol:
  "tradeline_symbol t = Inr symb \<Longrightarrow> clean_doc env (PDict t) \<Longrightarrow> safe_string env symb = symb"
  using stored_tradeline_symbol by (simp add: stored_def)

lemma partition_tradeline_cases:
  assumes run: "partition_tradeline env item (PDict t) accs = Inr accs'"
    and wf: "\<forall>e \<in> set accs. wf_acct e"
  shows "accs' = accs \<or>
    (\<exists>symb a2 a3 a4 a5 a6 a8 a10 a11 bal cl hb.
       tradeline_symbol t = Inr symb \<and>
       is_number_or_null (Some bal) \<and> is_number_or_null (Some cl) \<and>
       is_number_or_null (Some hb) \<and>
       (\<forall>e \<in> set accs.
          acct_key e \<noteq> (account_number_of env t, creditor_name_of env t, symb)) \<and>
       accs' = accs @ [tradeline_acct env (creditor_name_of env t) a2 a3 a4 a5 a6
                         (account_number_of env t) a8 symb a10 a11 bal cl hb])"
  using run
  by (fastforce simp: partition_tradeline_def bindE_Inr_iff Let_def is_duplicate3 [OF wf]
      intro: number_if_truthy_result split: if_splits)

lemma partition_tradeline_ext:
  assumes run: "partition_tradeline env item tv accs = Inr accs'"
    and wf: "\<forall>e \<in> set accs. wf_acct e"
  shows "ext full_acct (clean_doc env tv) accs accs'"
proof (cases tv)
  case (PDict t)
  from partition_tradeline_cases [OF run [unfolded PDict] wf] show ?thesis
  proof
    assume "accs' = accs"
    then show ?thesis by (simp add: ext_refl)
  next
    assume "\<exists>symb a2 a3 a4 a5 a6 a8 a10 a11 bal cl hb.
       tradeline_symbol t = Inr symb \<and>
       is_number_or_null (Some bal) \<and> is_number_or_null (Some cl) \<and>
       is_number_or_null (Some hb) \<and>
       (\<forall>e \<in> set accs.
          acct_key e \<noteq> (account_number_of env t, creditor_name_of env t, symb)) \<and>
       accs' = accs @ [tradeline_acct env (creditor_name_of env t) a2 a3 a4 a5 a6
                         (account_number_of env t) a8 symb a10 a11 bal cl hb]"
    then obtain symb a2 a3 a4 a5 a6 a8 a10 a11 bal cl hb where
      symb: "tradeline_symbol t = Inr symb"
      and nums: "is_number_or_null (Some bal)" "is_number_or_null (Some cl)"
        "is_number_or_null (Some hb)"
      and nodup: "\<forall>e \<in> set accs.
          acct_key e \<noteq> (account_number_of env t, creditor_name_of env t, symb)"
      and new': "accs' = accs @ [tradeline_acct env (creditor_name_of env t) a2 a3 a4 a5 a6
                         (account_number_of env t) a8 symb a10 a11 bal cl hb]"
      by blast
    define a where "a = tradeline_acct env (creditor_name_of env t) a2 a3 a4 a5 a6
                         (account_number_of env t) a8 symb a10 a11 bal cl hb"
    have a: "full_acct a" unfolding a_def by (rule tradeline_acct_full) fact+
    have key: "acct_key a = (safe_string env (account_number_of env t),
                  safe_string env (creditor_name_of env t), safe_string env symb)"
      unfolding a_def by (rule acct_key_tradeline_acct)
    have new: "accs' = accs @ [a]" using new' by (simp add: a_def)
    have "clean_doc env tv \<Longrightarrow> acct_key a \<notin> set (map acct_key accs)"
    proof -
      assume "clean_doc env tv"
      with PDict have c: "clean_doc env (PDict t)" by simp
      from key have "acct_key a = (account_number_of env t, creditor_name_of env t, symb)"
        by (simp only: safe_string_account_number [OF c] safe_string_creditor_name [OF c]
            safe_string_tradeline_symbol [OF symb c])
      with nodup show ?thesis by auto
    qed
    with new a show ?thesis by (auto simp: ext_def)
  qed
qed (use run in \<open>simp_all add: partition_tradeline_def ext_refl\<close>)

lemma partition_step_ext:
  assumes run: "partition_step env item accs = Inr accs'"
    and wf: "\<forall>e \<in> set accs. wf_acct e"
  shows "ext full_acct (clean_doc env item) accs accs'"
proof (cases item)
  case (PDict d)
  define tls where "tls = (case dget_or d ''Tradeline'' (PDict []) of
                    PList xs \<Rightarrow> xs
                  | _ \<Rightarrow> if truthy env (dget_or d ''Tradeline'' (PDict []))
                         then [dget_or d ''Tradeline'' (PDict [])] else [])"
  from run PDict have loop: "for_each (partition_tradeline env d) tls accs = Inr accs'"
    unfolding partition_step_def Let_def tls_def by simp
  have e: "ext full_acct (\<forall>x \<in> set tls. clean_doc env x) accs accs'"
    by (rule for_each_ext [OF _ full_acct_wf wf loop]) (rule partition_tradeline_ext)
  have "clean_doc env item \<Longrightarrow> \<forall>x \<in> set tls. clean_doc env x"
  proof -
    assume "clean_doc env item"
    with PDict have "clean_doc env (dget_or d ''Tradeline'' (PDict []))"
      by (intro clean_dget_or) simp_all
    then show ?thesis
      by (cases "dget_or d ''Tradeline'' (PDict [])") (auto simp: tls_def)
  qed
  with e show ?thesis by (auto intro: ext_mono)
qed (use run in \<open>simp_all add: partition_step_def\<close>)

lemma partition_accounts_ext:
  assumes run: "partition_accounts env true_link accs = Inr accs'"
    and wf: "\<forall>e \<in> set accs. wf_acct e"
  shows "ext full_acct (clean_doc env true_link) accs accs'"
proof (cases "truthy env true_link")
  case True
  with run obtain tp items where tp: "py_get_or true_link ''TradeLinePartition'' (PList []) = Inr tp"
    and items: "py_iter (wrap_dict tp) = Inr items"
    and loop: "for_each (partition_step env) items accs = Inr accs'"
    by (auto simp: partition_accounts_def bindE_Inr_iff)
  have e: "ext full_acct (\<forall>x \<in> set items. clean_doc env x) accs accs'"
    by (rule for_each_ext [OF _ full_acct_wf wf loop]) (rule partition_step_ext)
  have "clean_doc env true_link \<Longrightarrow> \<forall>x \<in> set items. clean_doc env x"
  proof -
    assume "clean_doc env true_link"
    with tp have "clean_doc env tp" by (auto intro: clean_py_get_or)
    then have "clean_doc env (wrap_dict tp)" by (rule clean_wrap_dict)
    with items show ?thesis by (rule clean_py_iter)
  qed
  with e show ?thesis by (auto intro: ext_mono)
next
  case False
  with run show ?thesis by (simp add: partition_accounts_def ext_refl)
qed

subsection \<open>Pass 3 adds reduced records with fresh keys\<close>

lemma bureau_tradeline_cases:
  assumes run: "bureau_tradeline env sy (PDict t) accs = Inr accs'"
    and wf: "\<forall>e \<in> set accs. wf_acct e"
  shows "accs' = accs \<or>
    (\<exists>a2 a3 a4 a5 a6 a8 a10 bal cl hb.
       is_number_or_null (Some bal) \<and> is_number_or_null (Some cl) \<and>
       is_number_or_null (Some hb) \<and>
       (\<forall>e \<in> set accs.
          \<not> (fst (acct_key e) = account_number_of env t \<and>
             fst (snd (acct_key e)) = creditor_name_of env t)) \<and>
       accs' = accs @ [additional_acct env (creditor_name_of env t) a2 a3 a4 a5 a6
                         (account_number_of env t) a8 (PStr sy) a10 bal cl hb])"
  using run
  by (fastforce simp: bureau_tradeline_def bindE_Inr_iff Let_def is_duplicate2 [OF wf]
      intro: number_if_truthy_result split: if_splits)

lemma bureau_tradeline_ext:
  assumes run: "bureau_tradeline env sy tv accs = Inr accs'"
    and wf: "\<forall>e \<in> set accs. wf_acct e"
  shows "ext reduced_acct (clean_doc env tv) accs accs'"
proof (cases tv)
  case (PDict t)
  from bureau_tradeline_cases [OF run [unfolded PDict] wf] show ?thesis
  proof
    assume "accs' = accs"
    then show ?thesis by (simp add: ext_refl)
  next
    assume "\<exists>a2 a3 a4 a5 a6 a8 a10 bal cl hb.
       is_number_or_null (Some bal) \<and> is_number_or_null (Some cl) \<and>
       is_number_or_null (Some hb) \<and>
       (\<forall>e \<in> set accs.
          \<not> (fst (acct_key e) = account_number_of env t \<and>
             fst (snd (acct_key e)) = creditor_name_of env t)) \<and>
       accs' = accs @ [additional_acct env (creditor_name_of env t) a2 a3 a4 a5 a6
                         (account_number_of env t) a8 (PStr sy) a10 bal cl hb]"
    then obtain a2 a3 a4 a5 a6 a8 a10 bal cl hb where
      nums: "is_number_or_null (Some bal)" "is_number_or_null (Some cl)"
        "is_number_or_null (Some hb)"
      and nodup: "\<forall>e \<in> set accs.
          \<not> (fst (acct_key e) = account_number_of env t \<and>
             fst (snd (acct_key e)) = creditor_name_of env t)"
      and new': "accs' = accs @ [additional_acct env (creditor_name_of env t) a2 a3 a4 a5 a6
                         (account_number_of env t) a8 (PStr sy) a10 bal cl hb]"
      by blast
    define a where "a = additional_acct env (creditor_name_of env t) a2 a3 a4 a5 a6
                         (account_number_of env t) a8 (PStr sy) a10 bal cl hb"
    have a: "reduced_acct a" unfolding a_def by (rule additional_acct_reduced) fact+
    have key: "acct_key a = (safe_string env (account_number_of env t),
                  safe_string env (creditor_name_of env t), safe_string env (PStr sy))"
      unfolding a_def by (rule acct_key_additional_acct)
    have new: "accs' = accs @ [a]" using new' by (simp add: a_def)
    have "clean_doc env tv \<Longrightarrow> acct_key a \<notin> set (map acct_key accs)"
    proof -
      assume "clean_doc env tv"
      with PDict have c: "clean_doc env (PDict t)" by simp
      from key have "fst (acct_key a) = account_number_of env t"
        and "fst (snd (acct_key a)) = creditor_name_of env t"
        by (simp_all only: safe_string_account_number [OF c] safe_string_creditor_name [OF c]
            fst_conv snd_conv)
      with nodup show ?thesis by auto
    qed
    with new a show ?thesis by (auto simp: ext_def)
  qed
qed (use run in \<open>simp_all add: bureau_tradeline_def\<close>)

lemma keep_bureau_tradeline_ext:
  assumes "keep accs (bureau_tradeline env sy tv accs) = (accs', r)"
    and "\<forall>e \<in> set accs. wf_acct e"
  shows "ext reduced_acct (clean_doc env tv) accs accs'"
  using assms
  by (cases "bureau_tradeline env sy tv accs")
     (auto simp: keep_def ext_refl intro: bureau_tradeline_ext)

lemma bureau_comp_ext:
  assumes run: "bureau_comp env comp_v accs = (accs', r)"
    and wf: "\<forall>e \<in> set accs. wf_acct e"
  shows "ext reduced_acct (clean_doc env comp_v) accs accs'"
proof -
  have "accs' = accs \<or>
    (\<exists>component report_data sy tls.
       comp_v = PDict component \<and>
       dget_or component ''CreditReportType'' (PDict []) = PDict report_data \<and>
       py_iter (wrap_dict
          (py_or env (py_or env (dget_or report_data ''Tradeline'' (PList []))
                           (dget_or report_data ''Trade'' (PList [])))
                           (dget_or report_data ''Account'' (PList [])))) = Inr tls \<and>
       for_each_try (\<lambda>tradeline accs. keep accs (bureau_tradeline env sy tradeline accs))
         tls accs = (accs', r))"
    using run unfolding bureau_comp_def Let_def
    by (auto split: pyval.splits if_splits sum.splits)
  then show ?thesis
  proof
    assume "accs' = accs"
    then show ?thesis by (simp add: ext_refl)
  next
    assume "\<exists>component report_data sy tls.
       comp_v = PDict component \<and>
       dget_or component ''CreditReportType'' (PDict []) = PDict report_data \<and>
       py_iter (wrap_dict
          (py_or env (py_or env (dget_or report_data ''Tradeline'' (PList []))
                           (dget_or report_data ''Trade'' (PList [])))
                           (dget_or report_data ''Account'' (PList [])))) = Inr tls \<and>
       for_each_try (\<lambda>tradeline accs. keep accs (bureau_tradeline env sy tradeline accs))
         tls accs = (accs', r)"
    then obtain component report_data sy tls where
      comp: "comp_v = PDict component"
      and rd: "dget_or component ''CreditReportType'' (PDict []) = PDict report_data"
      and tls: "py_iter (wrap_dict
          (py_or env (py_or env (dget_or report_data ''Tradeline'' (PList []))
                           (dget_or report_data ''Trade'' (PList [])))
                           (dget_or report_data ''Account'' (PList [])))) = Inr tls"
      and loop: "for_each_try
         (\<lambda>tradeline accs. keep accs (bureau_tradeline env sy tradeline accs))
         tls accs = (accs', r)"
      by blast
    have e: "ext reduced_acct (\<forall>x \<in> set tls. clean_doc env x) accs accs'"
      by (rule for_each_try_ext [OF _ reduced_acct_wf wf loop])
         (rule keep_bureau_tradeline_ext)
    have "clean_doc env comp_v \<Longrightarrow> \<forall>x \<in> set tls. clean_doc env x"
    proof -
      assume "clean_doc env comp_v"
      with comp have "clean_doc env (dget_or component ''CreditReportType'' (PDict []))"
        by (intro clean_dget_or) simp_all
      with rd have c: "clean_doc env (PDict report_data)" by simp
      have "clean_doc env (wrap_dict
          (py_or env (py_or env (dget_or report_data ''Tradeline'' (PList []))
                           (dget_or report_data ''Trade'' (PList [])))
                           (dget_or report_data ''Account'' (PList []))))"
        by (intro clean_wrap_dict clean_py_or clean_dget_or c) simp_all
      with tls show ?thesis by (rule clean_py_iter)
    qed
    with e show ?thesis by (auto intro: ext_mono)
  qed
qed

lemma bureau_try_ext:
  assumes run: "bureau_try env raw_report_str accs = (accs', r)"
    and wf: "\<forall>e \<in> set accs. wf_acct e"
  shows "ext reduced_acct (\<forall>d. json_loads env raw_report_str = Inr d \<longrightarrow> clean_doc env d)
           accs accs'"
proof -
  have "accs' = accs \<or>
    (\<exists>doc bc comps.
       json_loads env raw_report_str = Inr doc \<and>
       py_get_or doc ''BundleComponents'' (PDict []) = Inr (PDict bc) \<and>
       py_iter (wrap_dict (dget_or bc ''BundleComponent'' (PList []))) = Inr comps \<and>
       for_each_try (bureau_comp env) comps accs = (accs', r))"
    using run unfolding bureau_try_def
    by (auto split: pyval.splits sum.splits)
  then show ?thesis
  proof
    assume "accs' = accs"
    then show ?thesis by (simp add: ext_refl)
  next
    assume "\<exists>doc bc comps.
       json_loads env raw_report_str = Inr doc \<and>
       py_get_or doc ''BundleComponents'' (PDict []) = Inr (PDict bc) \<and>
       py_iter (wrap_dict (dget_or bc ''BundleComponent'' (PList []))) = Inr comps \<and>
       for_each_try (bureau_comp env) comps accs = (accs', r)"
    then obtain doc bc comps where
      doc: "json_loads env raw_report_str = Inr doc"
      and bc: "py_get_or doc ''BundleComponents'' (PDict []) = Inr (PDict bc)"
      and comps: "py_iter (wrap_dict (dget_or bc ''BundleComponent'' (PList []))) = Inr comps"
      and loop: "for_each_try (bureau_comp env) comps accs = (accs', r)"
      by blast
    have e: "ext reduced_acct (\<forall>x \<in> set comps. clean_doc env x) accs accs'"
      by (rule for_each_try_ext [OF _ reduced_acct_wf wf loop]) (rule bureau_comp_ext)
    have "clean_doc env doc \<Longrightarrow> \<forall>x \<in> set comps. clean_doc env x"
    proof -
      assume cd: "clean_doc env doc"
      have c: "clean_doc env (PDict bc)" by (rule clean_py_get_or [OF bc cd]) simp
      have "clean_doc env (wrap_dict (dget_or bc ''BundleComponent'' (PList [])))"
        by (intro clean_wrap_dict clean_dget_or c) simp
      with comps show ?thesis by (rule clean_py_iter)
    qed
    with e doc show ?thesis by (auto intro: ext_mono)
  qed
qed

lemma bureau_accounts_ext:
  assumes run: "bureau_accounts env raw_report_str accs = (accs', log)"
    and wf: "\<forall>e \<in> set accs. wf_acct e"
  shows "ext reduced_acct (\<forall>d. json_loads env raw_report_str = Inr d \<longrightarrow> clean_doc env d)
           accs accs'"
proof (cases "truthy env raw_report_str")
  case True
  with run obtain r where "bureau_try env raw_report_str accs = (accs', r)"
    by (auto simp: bureau_accounts_def split: prod.splits)
  then show ?thesis using wf by (rule bureau_try_ext)
next
  case False
  with run show ?thesis by (simp add: bureau_accounts_def ext_refl)
qed

subsection \<open>The navigator hands on clean blocks\<close>

lemma find_merge_clean:
  assumes "\<forall>c \<in> set comps. clean_doc env c" and "clean_doc env (fst st)"
  shows "clean_doc env (fst (fst (find_merge comps st)))"
  using assms
proof (induction comps st rule: find_merge.induct)
  case (1 st)
  then show ?case by simp
next
  case (2 comp_v comps true_link borrower)
  show ?case
  proof (cases comp_v)
    case (PDict component)
    with "2.prems" have c: "clean_doc env (PDict component)" by simp
    have tl: "clean_doc env (dget_or component ''TrueLinkCreditReportType'' (PDict []))"
      by (rule clean_dget_or [OF c]) simp
    show ?thesis
    proof (cases "py_eq (dget component ''Type'') (PStr ''MergeCreditReports'')")
      case True
      with PDict tl show ?thesis by (simp add: Let_def split: sum.splits)
    next
      case False
      with PDict "2.IH" [OF PDict False] "2.prems" show ?thesis by simp
    qed
  qed (use "2.prems" in simp_all)
qed

lemma locate_borrower_clean:
  assumes "clean_doc env doc" and "clean_doc env (fst st)"
  shows "clean_doc env (fst (fst (locate_borrower doc st)))"
proof (cases "py_get_or doc ''BundleComponents'' (PDict [])")
  case (Inl e)
  with assms show ?thesis by (simp add: locate_borrower_def)
next
  case (Inr bundle_components)
  have cb: "clean_doc env bundle_components"
    by (rule clean_py_get_or [OF Inr assms(1)]) simp
  show ?thesis
  proof (cases bundle_components)
    case (PDict bc)
    show ?thesis
    proof (cases "py_iter (wrap_dict (dget_or bc ''BundleComponent'' (PList [])))")
      case (Inl e)
      with Inr PDict assms show ?thesis by (simp add: locate_borrower_def)
    next
      case comps: (Inr comps)
      have "clean_doc env (wrap_dict (dget_or bc ''BundleComponent'' (PList [])))"
        using cb PDict by (intro clean_wrap_dict clean_dget_or) simp_all
      with comps have "\<forall>c \<in> set comps. clean_doc env c" by (rule clean_py_iter)
      with Inr PDict comps assms(2) show ?thesis
        by (simp add: locate_borrower_def find_merge_clean)
    qed
  qed (use Inr assms in \<open>simp_all add: locate_borrower_def\<close>)
qed

lemma parse_raw_report_clean:
  assumes "parse_raw_report env raw_report_str = Inr (st, log)"
    and "\<forall>d. json_loads env raw_report_str = Inr d \<longrightarrow> clean_doc env d"
  shows "clean_doc env (fst st)"
proof (cases "truthy env raw_report_str")
  case True
  show ?thesis
  proof (cases "json_loads env raw_report_str")
    case (Inl e)
    with True assms(1) show ?thesis
      by (auto simp: parse_raw_report_def split: if_splits)
  next
    case (Inr d)
    with assms(2) have "clean_doc env d" by simp
    then have "clean_doc env (fst (fst (locate_borrower d (PNone, PNone))))"
      by (rule locate_borrower_clean) simp
    with True Inr assms(1) show ?thesis
      by (auto simp: parse_raw_report_def split: prod.splits option.splits if_splits)
  qed
next
  case False
  with assms(1) show ?thesis by (auto simp: parse_raw_report_def)
qed

lemma fallback_borrower_clean:
  assumes "fallback_borrower env cr_json st = Inr st'"
    and "clean_doc env (PDict cr_json)" and "clean_doc env (fst st)"
  shows "clean_doc env (fst st')"
proof (cases "truthy env (snd st)")
  case True
  with assms show ?thesis by (simp add: fallback_borrower_def)
next
  case False
  from locate_borrower_clean [OF assms(2,3)]
  have "clean_doc env (fst (fst (locate_borrower (PDict cr_json) st)))" .
  with False assms(1) show ?thesis
    by (auto simp: fallback_borrower_def split: prod.splits option.splits)
qed

lemma credit_report_sections_clean:
  assumes sec: "credit_report_sections env cr_json_v scores0
             = Inr (raw_report_str, true_link, borrower, pinfo, scores2, log12)"
    and clean: "clean_doc env cr_json_v"
    and doc: "\<forall>c d. cr_json_v = PDict c \<longrightarrow> json_loads env (dget c ''rawReport'') = Inr d
                \<longrightarrow> clean_doc env d"
  shows "clean_doc env true_link \<and>
         (\<forall>d. json_loads env raw_report_str = Inr d \<longrightarrow> truthy env raw_report_str
            \<longrightarrow> clean_doc env d)"
proof (cases cr_json_v)
  case (PDict cr_json)
  from credit_report_sections_InrD [OF sec [unfolded PDict]] obtain st0 log1 where
    rrs: "raw_report_str = dget cr_json ''rawReport''"
    and p: "parse_raw_report env raw_report_str = Inr (st0, log1)"
    and f: "fallback_borrower env cr_json st0 = Inr (true_link, borrower)"
    by auto
  from doc PDict rrs have d: "\<forall>d. json_loads env raw_report_str = Inr d \<longrightarrow> clean_doc env d"
    by simp
  from parse_raw_report_clean [OF p d] have "clean_doc env (fst st0)" .
  from fallback_borrower_clean [OF f clean [unfolded PDict] this] d show ?thesis by simp
qed (use sec in \<open>auto simp: credit_report_sections_def json_loads_def\<close>)

subsection \<open>The three passes together\<close>

lemma account_passes_ext:
  assumes run: "account_passes env raw true_link raw_report_str = Inr (accounts3, log3)"
  shows "\<exists>accounts1 new2 new3.
     trade_accounts env raw [] = Inr accounts1 \<and>
     accounts3 = accounts1 @ new2 @ new3 \<and>
     (\<forall>a \<in> set accounts1 \<union> set new2. full_acct a) \<and>
     (\<forall>a \<in> set new3. reduced_acct a) \<and>
     (clean_doc env true_link \<and>
      (\<forall>d. json_loads env raw_report_str = Inr d \<longrightarrow> truthy env raw_report_str
          \<longrightarrow> clean_doc env d)
      \<longrightarrow> fresh_from (map acct_key accounts1) (map acct_key (new2 @ new3)))"
proof -
  from run obtain accounts1 accounts2 where
    p1: "trade_accounts env raw [] = Inr accounts1"
    and p2: "partition_accounts env true_link accounts1 = Inr accounts2"
    and p3: "bureau_accounts env raw_report_str accounts2 = (accounts3, log3)"
    by (auto simp: account_passes_def bindE_Inr_iff)
  from trade_accounts_full [OF p1] have full1: "\<forall>a \<in> set accounts1. full_acct a" .
  then have wf1: "\<forall>e \<in> set accounts1. wf_acct e" by (auto dest: full_acct_wf)
  from partition_accounts_ext [OF p2 wf1] obtain new2 where
    a2: "accounts2 = accounts1 @ new2" and full2: "\<forall>a \<in> set new2. full_acct a"
    and fresh2: "clean_doc env true_link
                  \<Longrightarrow> fresh_from (map acct_key accounts1) (map acct_key new2)"
    by (auto simp: ext_def)
  from a2 full1 full2 have wf2: "\<forall>e \<in> set accounts2. wf_acct e" by (auto dest: full_acct_wf)
  have e3: "ext reduced_acct
      (\<forall>d. json_loads env raw_report_str = Inr d \<longrightarrow> truthy env raw_report_str
          \<longrightarrow> clean_doc env d) accounts2 accounts3"
  proof (cases "truthy env raw_report_str")
    case True
    with bureau_accounts_ext [OF p3 wf2] show ?thesis by simp
  next
    case False
    with p3 show ?thesis by (simp add: bureau_accounts_def ext_refl)
  qed
  then obtain new3 where
    a3: "accounts3 = accounts2 @ new3" and red3: "\<forall>a \<in> set new3. reduced_acct a"
    and fresh3: "(\<forall>d. json_loads env raw_report_str = Inr d \<longrightarrow> truthy env raw_report_str
          \<longrightarrow> clean_doc env d)
                  \<Longrightarrow> fresh_from (map acct_key accounts2) (map acct_key new3)"
    by (auto simp: ext_def)
  show ?thesis
    using p1 a2 a3 full1 full2 red3 fresh2 fresh3
    by (intro exI [of _ accounts1] exI [of _ new2] exI [of _ new3])
       (auto simp: fresh_from_append)
qed

lemma fresh_from_disjoint: "fresh_from seen ks \<Longrightarrow> set ks \<inter> set seen = {}"
proof (induction ks arbitrary: seen)
  case Nil
  then show ?case by simp
next
  case (Cons k ks)
  from Cons.prems have "k \<notin> set seen" and "fresh_from (seen @ [k]) ks" by simp_all
  with Cons.IH [of "seen @ [k]"] show ?case by auto
qed

lemma accounts_structure:
  assumes run: "normalize_report env raw scores0 = Inr (rep, log)"
  shows "\<exists>accounts1 new2 new3.
     trade_accounts env raw [] = Inr accounts1 \<and>
     accounts rep = accounts1 @ new2 @ new3 \<and>
     (\<forall>a \<in> set accounts1 \<union> set new2. full_acct a) \<and>
     (\<forall>a \<in> set new3. reduced_acct a) \<and>
     ((\<forall>d \<in> set (bundle_docs env raw). clean_doc env d)
        \<longrightarrow> fresh_from (map acct_key accounts1) (map acct_key (new2 @ new3)))"
proof -
  let ?cr = "dget_or raw ''credit_report_json'' (PDict [])"
  from normalize_report_InrD [OF run] obtain rrs tl bw pinfo sc2 log12 log3 where
    sec: "credit_report_sections env ?cr scores0 = Inr (rrs, tl, bw, pinfo, sc2, log12)"
    and acc: "account_passes env raw tl rrs = Inr (accounts rep, log3)"
    by auto
  have "(\<forall>d \<in> set (bundle_docs env raw). clean_doc env d) \<Longrightarrow>
        clean_doc env tl \<and>
        (\<forall>d. json_loads env rrs = Inr d \<longrightarrow> truthy env rrs \<longrightarrow> clean_doc env d)"
  proof -
    assume c: "\<forall>d \<in> set (bundle_docs env raw). clean_doc env d"
    then have c1: "clean_doc env ?cr" by (simp add: bundle_docs_def Let_def)
    from c have c2: "\<forall>c d. ?cr = PDict c \<longrightarrow> json_loads env (dget c ''rawReport'') = Inr d
                \<longrightarrow> clean_doc env d"
      by (auto simp: bundle_docs_def Let_def)
    from credit_report_sections_clean [OF sec c1 c2] show ?thesis .
  qed
  with account_passes_ext [OF acc] show ?thesis by blast
qed

text \<open>
  C2, as amended. The claim, that no two entries of the output share the full key,
  fails: the trades of the primary list are appended without any check. What the
  duplicate checks give is this. Let the key fields of the bundle documents be in
  stored form. Then, in every run that returns, an entry at a position behind the
  entries of the primary trade list, that is an entry of the tradeline partition or of
  a bureau report, has a key different from the key of every entry before it.
\<close>

theorem bundle_entries_have_fresh_keys:
  assumes run: "normalize_report env raw scores0 = Inr (rep, log)"
    and trades: "trade_accounts env raw [] = Inr accounts1"
    and clean: "\<forall>d \<in> set (bundle_docs env raw). clean_doc env d"
  shows "\<forall>i j. i < j \<and> j < length (accounts rep) \<and> length accounts1 \<le> j
           \<longrightarrow> acct_key (accounts rep ! i) \<noteq> acct_key (accounts rep ! j)"
proof (intro allI impI, elim conjE)
  fix i j
  assume ij: "i < j" and j: "j < length (accounts rep)" and lj: "length accounts1 \<le> j"
  from accounts_structure [OF run] trades clean obtain new where
    acc: "accounts rep = accounts1 @ new"
    and fresh: "fresh_from (map acct_key accounts1) (map acct_key new)"
    by auto
  define j' where "j' = j - length accounts1"
  from j lj acc have j': "j' < length new" and jn: "accounts rep ! j = new ! j'"
    by (auto simp: j'_def nth_append)
  from fresh_from_nth [OF fresh, of j'] j'
  have notin: "acct_key (new ! j') \<notin> set (map acct_key accounts1)
                 \<union> set (take j' (map acct_key new))"
    by simp
  have mem: "acct_key (accounts rep ! i) \<in> set (map acct_key accounts1)
                 \<union> set (take j' (map acct_key new))"
  proof (cases "i < length accounts1")
    case True
    with acc show ?thesis by (simp add: nth_append)
  next
    case False
    with ij have "i - length accounts1 < j'" by (simp add: j'_def)
    moreover from False acc have "accounts rep ! i = new ! (i - length accounts1)"
      by (simp add: nth_append)
    moreover have "new ! (i - length accounts1) \<in> set (take j' new)"
      if "i - length accounts1 < j'"
    proof -
      from that j' have "take j' new ! (i - length accounts1) = new ! (i - length accounts1)"
        and "i - length accounts1 < length (take j' new)"
        by simp_all
      then show ?thesis by (metis nth_mem)
    qed
    ultimately show ?thesis by (simp add: take_map)
  qed
  from mem notin have "acct_key (accounts rep ! i) \<noteq> acct_key (new ! j')" by metis
  with jn show "acct_key (accounts rep ! i) \<noteq> acct_key (accounts rep ! j)" by simp
qed

text \<open>
  C6, as amended. The claim, that a key held by a trade of the primary list and by a
  record of the tradeline partition has exactly one entry in the output, fails when
  the primary list itself holds the key twice. With the key fields of the bundle
  documents in stored form, every run that returns keeps the accounts of the primary
  trade list as the first entries of the output, unchanged, and the entries of the
  output with the key of such an account are exactly the entries of the primary trade
  list with that key: exactly one when the primary list holds one, and none of them
  from the bundle.
\<close>

theorem primary_trades_take_precedence:
  assumes run: "normalize_report env raw scores0 = Inr (rep, log)"
    and trades: "trade_accounts env raw [] = Inr accounts1"
    and clean: "\<forall>d \<in> set (bundle_docs env raw). clean_doc env d"
  shows "take (length accounts1) (accounts rep) = accounts1 \<and>
         (\<forall>a \<in> set accounts1.
            filter (\<lambda>e. acct_key e = acct_key a) (accounts rep)
              = filter (\<lambda>e. acct_key e = acct_key a) accounts1)"
proof -
  from accounts_structure [OF run] trades clean obtain new where
    acc: "accounts rep = accounts1 @ new"
    and fresh: "fresh_from (map acct_key accounts1) (map acct_key new)"
    by auto
  from fresh_from_disjoint [OF fresh]
  have "\<forall>a \<in> set accounts1. \<forall>e \<in> set new. acct_key e \<noteq> acct_key a" by auto
  then have "\<forall>a \<in> set accounts1. filter (\<lambda>e. acct_key e = acct_key a) new = []"
    by (auto simp: filter_empty_conv)
  with acc show ?thesis by simp
qed

subsection \<open>Runs that return\<close>

lemma returns_Inr: "returns m \<Longrightarrow> m = Inr (report_of m, warnings_of m)"
  by (cases m) (simp_all add: returns_def report_of_def warnings_of_def)

subsection \<open>The legacy numeric fields\<close>

lemma coerced_amountI:
  assumes "map_of a original = Some (safe_string env x)" and "map_of a snake = Some n"
    and "number_if_truthy env x = Inr n"
  shows "coerced_amount env a snake original"
  unfolding coerced_amount_def
  using assms number_if_truthy_result [OF assms(3)]
  by (intro exI [of _ x] exI [of _ n]) (auto simp: number_if_truthy_def)

lemma acct_lookups:
  "map_of (acct env nm ty st cb cl od an hc pa ph t30 t60 t90 bu lr aa cd mc bal cln hb pan)
      ''currentBalanceAmount'' = Some (safe_string env cb) \<and>
   map_of (acct env nm ty st cb cl od an hc pa ph t30 t60 t90 bu lr aa cd mc bal cln hb pan)
      ''balance'' = Some bal \<and>
   map_of (acct env nm ty st cb cl od an hc pa ph t30 t60 t90 bu lr aa cd mc bal cln hb pan)
      ''creditLimitAmount'' = Some (safe_string env cl) \<and>
   map_of (acct env nm ty st cb cl od an hc pa ph t30 t60 t90 bu lr aa cd mc bal cln hb pan)
      ''credit_limit'' = Some cln \<and>
   map_of (acct env nm ty st cb cl od an hc pa ph t30 t60 t90 bu lr aa cd mc bal cln hb pan)
      ''highCreditAmount'' = Some (safe_string env hc) \<and>
   map_of (acct env nm ty st cb cl od an hc pa ph t30 t60 t90 bu lr aa cd mc bal cln hb pan)
      ''high_balance'' = Some hb \<and>
   map_of (acct env nm ty st cb cl od an hc pa ph t30 t60 t90 bu lr aa cd mc bal cln hb pan)
      ''termsMonthlyPayment'' = Some (safe_string env pa) \<and>
   map_of (acct env nm ty st cb cl od an hc pa ph t30 t60 t90 bu lr aa cd mc bal cln hb pan)
      ''payment_amount'' = Some pan"
  by (simp add: acct_def map_of_Cons_code del: map_of.simps)

lemma acct_amounts:
  assumes "number_if_truthy env cb = Inr bal" and "number_if_truthy env cl = Inr cln"
    and "number_if_truthy env hc = Inr hb" and "number_if_truthy env pa = Inr pan"
  shows "full_amounts env (acct env nm ty st cb cl od an hc pa ph t30 t60 t90 bu lr aa cd mc
                             bal cln hb pan)"
  unfolding full_amounts_def amounts_def
  using acct_lookups [of env nm ty st cb cl od an hc pa ph t30 t60 t90 bu lr aa cd mc
                         bal cln hb pan] assms
  by (blast intro: coerced_amountI)

lemma tradeline_acct_lookups:
  "map_of (tradeline_acct env nm ty st cb cl od an hb sy lr cd bal cln hbn) ''currentBalanceAmount'' = Some (safe_string env cb) \<and>
   map_of (tradeline_acct env nm ty st cb cl od an hb sy lr cd bal cln hbn) ''balance'' = Some bal \<and>
   map_of (tradeline_acct env nm ty st cb cl od an hb sy lr cd bal cln hbn) ''creditLimitAmount'' = Some (safe_string env cl) \<and>
   map_of (tradeline_acct env nm ty st cb cl od an hb sy lr cd bal cln hbn) ''credit_limit'' = Some cln \<and>
   map_of (tradeline_acct env nm ty st cb cl od an hb sy lr cd bal cln hbn) ''highCreditAmount'' = Some (safe_string env hb) \<and>
   map_of (tradeline_acct env nm ty st cb cl od an hb sy lr cd bal cln hbn) ''high_balance'' = Some hbn \<and>
   map_of (tradeline_acct env nm ty st cb cl od an hb sy lr cd bal cln hbn) ''termsMonthlyPayment'' = Some PNone \<and>
   map_of (tradeline_acct env nm ty st cb cl od an hb sy lr cd bal cln hbn) ''payment_amount'' = Some PNone"
  by (simp add: tradeline_acct_def map_of_Cons_code del: map_of.simps)

lemma coerced_amount_null:
  "map_of a original = Some PNone \<Longrightarrow> map_of a snake = Some PNone
   \<Longrightarrow> coerced_amount env a snake original"
  by (rule coerced_amountI [where x = PNone])
     (simp_all add: safe_string_def number_if_truthy_def)

lemma tradeline_acct_amounts:
  assumes "number_if_truthy env cb = Inr bal" and "number_if_truthy env cl = Inr cln"
    and "number_if_truthy env hb = Inr hbn"
  shows "full_amounts env (tradeline_acct env nm ty st cb cl od an hb sy lr cd bal cln hbn)"
  unfolding full_amounts_def amounts_def
  using tradeline_acct_lookups [of env nm ty st cb cl od an hb sy lr cd bal cln hbn] assms
  by (blast intro: coerced_amountI coerced_amount_null)

lemma additional_acct_lookups:
  "map_of (additional_acct env nm ty st cb cl od an hb sy cd bal cln hbn) ''currentBalanceAmount'' = Some (safe_string env cb) \<and>
   map_of (additional_acct env nm ty st cb cl od an hb sy cd bal cln hbn) ''balance'' = Some bal \<and>
   map_of (additional_acct env nm ty st cb cl od an hb sy cd bal cln hbn) ''creditLimitAmount'' = Some (safe_string env cl) \<and>
   map_of (additional_acct env nm ty st cb cl od an hb sy cd bal cln hbn) ''credit_limit'' = Some cln \<and>
   map_of (additional_acct env nm ty st cb cl od an hb sy cd bal cln hbn) ''highCreditAmount'' = Some (safe_string env hb) \<and>
   map_of (additional_acct env nm ty st cb cl od an hb sy cd bal cln hbn) ''high_balance'' = Some hbn"
  by (simp add: additional_acct_def map_of_Cons_code del: map_of.simps)

lemma additional_acct_amounts:
  assumes "number_if_truthy env cb = Inr bal" and "number_if_truthy env cl = Inr cln"
    and "number_if_truthy env hb = Inr hbn"
  shows "amounts env (additional_acct env nm ty st cb cl od an hb sy cd bal cln hbn)"
  unfolding amounts_def
  using additional_acct_lookups [of env nm ty st cb cl od an hb sy cd bal cln hbn] assms
  by (blast intro: coerced_amountI)

subsection \<open>Every pass appends records with coerced amounts\<close>

lemma for_each_grow:
  assumes "\<And>x s s'. f x s = Inr s' \<Longrightarrow> ext P False s s'"
    and "for_each f xs s = Inr s'"
  shows "ext P False s s'"
  using assms(2)
proof (induction xs arbitrary: s)
  case Nil
  then show ?case by (simp add: ext_refl)
next
  case (Cons x xs)
  from Cons.prems obtain s1 where s1: "f x s = Inr s1" and rest: "for_each f xs s1 = Inr s'"
    unfolding for_each_Cons_Inr by blast
  from ext_trans [OF assms(1) [OF s1] Cons.IH [OF rest]] show ?case by simp
qed

lemma for_each_try_grow:
  assumes "\<And>x s s' r. f x s = (s', r) \<Longrightarrow> ext P False s s'"
    and "for_each_try f xs s = (s', r)"
  shows "ext P False s s'"
  using assms(2)
proof (induction xs arbitrary: s)
  case Nil
  then show ?case by (simp add: ext_refl)
next
  case (Cons x xs)
  obtain s1 r1 where s1: "f x s = (s1, r1)" by (cases "f x s") auto
  show ?case
  proof (cases r1)
    case None
    with Cons.prems s1 have rest: "for_each_try f xs s1 = (s', r)" by simp
    from ext_trans [OF assms(1) [OF s1] Cons.IH [OF rest]] show ?thesis by simp
  next
    case (Some e)
    with Cons.prems s1 have "s' = s1" by simp
    with assms(1) [OF s1] show ?thesis by simp
  qed
qed

lemma ext_single: "P a \<Longrightarrow> ext P False s (s @ [a])"
  by (simp add: ext_def)

lemma trade_step_grow:
  assumes "trade_step env t s = Inr s'"
  shows "ext (full_amounts env) False s s'"
proof (cases t)
  case (PDict trade)
  with assms show ?thesis
    unfolding trade_step_def trade_account_def
    by (auto simp: bindE_Inr_iff Let_def intro!: ext_single acct_amounts)
qed (use assms in \<open>simp_all add: trade_step_def trade_account_def bindE_def\<close>)

lemma trade_accounts_grow:
  assumes "trade_accounts env raw [] = Inr accs"
  shows "\<forall>a \<in> set accs. full_amounts env a"
proof -
  from assms obtain ts where "for_each (trade_step env) ts [] = Inr accs"
    by (auto simp: trade_accounts_def bindE_Inr_iff)
  from for_each_grow [OF trade_step_grow this] show ?thesis by (simp add: ext_def)
qed

lemma partition_tradeline_grow:
  assumes "partition_tradeline env item tv s = Inr s'"
  shows "ext (full_amounts env) False s s'"
proof (cases tv)
  case (PDict t)
  with assms show ?thesis
    unfolding partition_tradeline_def
    by (auto simp: bindE_Inr_iff Let_def ext_refl split: if_splits
          intro!: ext_single tradeline_acct_amounts)
qed (use assms in \<open>simp_all add: partition_tradeline_def ext_refl\<close>)

lemma partition_step_grow:
  assumes "partition_step env item s = Inr s'"
  shows "ext (full_amounts env) False s s'"
proof (cases item)
  case (PDict d)
  with assms show ?thesis
    unfolding partition_step_def Let_def
    by (auto intro: for_each_grow [OF partition_tradeline_grow])
qed (use assms in \<open>simp_all add: partition_step_def\<close>)

lemma partition_accounts_grow:
  assumes "partition_accounts env true_link s = Inr s'"
  shows "ext (full_amounts env) False s s'"
  using assms unfolding partition_accounts_def
  by (auto simp: bindE_Inr_iff ext_refl split: if_splits
        intro: for_each_grow [OF partition_step_grow])

lemma bureau_tradeline_grow:
  assumes "bureau_tradeline env b tv s = Inr s'"
  shows "ext (amounts env) False s s'"
proof (cases tv)
  case (PDict t)
  with assms show ?thesis
    unfolding bureau_tradeline_def
    by (auto simp: bindE_Inr_iff Let_def ext_refl split: if_splits
          intro!: ext_single additional_acct_amounts)
qed (use assms in \<open>simp_all add: bureau_tradeline_def\<close>)

lemma keep_grow:
  assumes "keep s m = (s', r)" and "\<And>s'. m = Inr s' \<Longrightarrow> ext P False s s'"
  shows "ext P False s s'"
  using assms by (cases m) (auto simp: keep_def ext_refl)

lemma bureau_comp_grow:
  assumes "bureau_comp env c s = (s', r)"
  shows "ext (amounts env) False s s'"
proof -
  have step: "ext (amounts env) False s1 s2"
    if "keep s1 (bureau_tradeline env b t s1) = (s2, r2)" for b t s1 s2 r2
    using that by (rule keep_grow) (rule bureau_tradeline_grow)
  from assms show ?thesis
    unfolding bureau_comp_def Let_def
    by (auto simp: ext_refl split: pyval.splits if_splits sum.splits
          intro: for_each_try_grow [where f = "\<lambda>t a. keep a (bureau_tradeline env b t a)" for b,
                   OF step])
qed

lemma bureau_accounts_grow:
  assumes "bureau_accounts env r s = (s', log)"
  shows "ext (amounts env) False s s'"
  using assms unfolding bureau_accounts_def bureau_try_def
  by (auto simp: ext_refl split: if_splits prod.splits sum.splits pyval.splits
        intro: for_each_try_grow [OF bureau_comp_grow])


subsection \<open>The dual convention\<close>

lemma repeated_dual: "repeated_fields a \<Longrightarrow> amounts env a \<Longrightarrow> dual_fields env a"
  by (auto simp: repeated_fields_def dual_fields_def carries_def same_fields_def text_pairs_def)

lemma full_fieldsI: "full_acct a \<Longrightarrow> full_amounts env a \<Longrightarrow> full_fields env a"
  by (auto simp: full_acct_def full_fields_def full_amounts_def same_fields_def
        repeated_fields_def intro!: repeated_dual)

text \<open>
  C8, as amended. The claim, that each snake-case field holds the same value as its
  counterpart under the provider's name, fails for the amounts: \<^verbatim>\<open>balance\<close>,
  \<^verbatim>\<open>credit_limit\<close>, \<^verbatim>\<open>high_balance\<close> and \<^verbatim>\<open>payment_amount\<close> hold the number
  coerced from the source amount, where the provider's field holds its text. In every
  run that returns, every account record, from every pass, carries \<^verbatim>\<open>account_type\<close>,
  \<^verbatim>\<open>status\<close>, \<^verbatim>\<open>open_date\<close>, \<^verbatim>\<open>closed_date\<close>, \<^verbatim>\<open>account_number\<close> and
  \<^verbatim>\<open>bureau\<close> with the value of \<^verbatim>\<open>accountType\<close>, \<^verbatim>\<open>accountStatus\<close> and
  \<^verbatim>\<open>currentAccountRatingDisplay\<close>, \<^verbatim>\<open>openDateFormatted\<close>, \<^verbatim>\<open>dateClosed\<close>,
  \<^verbatim>\<open>maskedAccountNumber\<close> and \<^verbatim>\<open>creditorContactSource\<close>, and carries
  \<^verbatim>\<open>balance\<close>, \<^verbatim>\<open>credit_limit\<close> and \<^verbatim>\<open>high_balance\<close> as a float or null, for a
  truthy source amount the \<^verbatim>\<open>safe_number\<close> of the amount whose \<^verbatim>\<open>safe_string\<close>
  is under \<^verbatim>\<open>currentBalanceAmount\<close>, \<^verbatim>\<open>creditLimitAmount\<close> and
  \<^verbatim>\<open>highCreditAmount\<close>. The records of the primary trade list and of the tradeline
  partition, which are the first of the output, carry the full list of 32 fields, with
  \<^verbatim>\<open>last_reported\<close> equal to \<^verbatim>\<open>lastReported\<close>, \<^verbatim>\<open>account_age\<close> equal to
  \<^verbatim>\<open>accountAge\<close> and \<^verbatim>\<open>payment_amount\<close> coerced from the amount behind
  \<^verbatim>\<open>termsMonthlyPayment\<close>.
\<close>

theorem account_records_dual_fields:
  assumes run: "normalize_report env raw scores0 = Inr (rep, log)"
  shows "(\<forall>a \<in> set (accounts rep). dual_fields env a) \<and>
         (\<exists>raw_report_str true_link borrower pinfo scores2 log12 accounts1 accounts2.
            credit_report_sections env (dget_or raw ''credit_report_json'' (PDict [])) scores0
              = Inr (raw_report_str, true_link, borrower, pinfo, scores2, log12) \<and>
            trade_accounts env raw [] = Inr accounts1 \<and>
            partition_accounts env true_link accounts1 = Inr accounts2 \<and>
            take (length accounts2) (accounts rep) = accounts2 \<and>
            (\<forall>a \<in> set accounts2. full_fields env a))"
proof -
  let ?cr = "dget_or raw ''credit_report_json'' (PDict [])"
  from normalize_report_InrD [OF run] obtain rrs tlk bw pinfo sc2 log12 log3 where
    sec: "credit_report_sections env ?cr scores0 = Inr (rrs, tlk, bw, pinfo, sc2, log12)"
    and acc: "account_passes env raw tlk rrs = Inr (accounts rep, log3)"
    by auto
  from acc obtain accounts1 accounts2 where
    p1: "trade_accounts env raw [] = Inr accounts1"
    and p2: "partition_accounts env tlk accounts1 = Inr accounts2"
    and p3: "bureau_accounts env rrs accounts2 = (accounts rep, log3)"
    by (auto simp: account_passes_def bindE_Inr_iff)
  from trade_accounts_full [OF p1] have full1: "\<forall>a \<in> set accounts1. full_acct a" .
  then have wf1: "\<forall>e \<in> set accounts1. wf_acct e" by (auto dest: full_acct_wf)
  from partition_accounts_ext [OF p2 wf1] full1
  have full2: "\<forall>a \<in> set accounts2. full_acct a" by (auto simp: ext_def)
  then have wf2: "\<forall>e \<in> set accounts2. wf_acct e" by (auto dest: full_acct_wf)
  have "\<exists>F. ext reduced_acct F accounts2 (accounts rep)"
  proof (cases "truthy env rrs")
    case True
    with bureau_accounts_ext [OF p3 wf2] show ?thesis by blast
  next
    case False
    with p3 show ?thesis by (auto simp: bureau_accounts_def ext_refl)
  qed
  then obtain new3 where a3: "accounts rep = accounts2 @ new3"
    and red3: "\<forall>a \<in> set new3. reduced_acct a"
    by (auto simp: ext_def)
  from trade_accounts_grow [OF p1] partition_accounts_grow [OF p2]
  have am2: "\<forall>a \<in> set accounts2. full_amounts env a" by (auto simp: ext_def)
  from bureau_accounts_grow [OF p3] a3
  have am3: "\<forall>a \<in> set new3. amounts env a" by (auto simp: ext_def)
  have "\<forall>a \<in> set (accounts rep). dual_fields env a"
    using a3 full2 red3 am2 am3
    by (auto simp: full_acct_def reduced_acct_def full_amounts_def intro!: repeated_dual)
  moreover have "\<forall>a \<in> set accounts2. full_fields env a"
    using full2 am2 by (auto intro: full_fieldsI)
  moreover from a3 have "take (length accounts2) (accounts rep) = accounts2" by simp
  ultimately show ?thesis using sec p1 p2 by blast
qed

subsection \<open>Shape tolerance\<close>

subsection \<open>Lookups in coerced dictionaries\<close>

lemma wrap_dict_idem [simp]: "wrap_dict (wrap_dict v) = wrap_dict v"
  by (cases v) (simp_all add: wrap_dict_def)

lemma map_of_wrap_at:
  "map_of (wrap_at ks d) k = map_option (\<lambda>v. if k \<in> set ks then wrap_dict v else v) (map_of d k)"
  by (induction d) (auto simp: wrap_at_def)

lemma map_of_on_key:
  "map_of (on_key k f d) k' = map_option (\<lambda>v. if k' = k then f v else v) (map_of d k')"
  by (induction d) (auto simp: on_key_def)

lemma dget_or_wrap_at_other:
  "k \<notin> set ks \<Longrightarrow> dget_or (wrap_at ks d) k dflt = dget_or d k dflt"
  by (simp add: dget_or_def map_of_wrap_at split: option.splits)

lemma dget_wrap_at_other: "k \<notin> set ks \<Longrightarrow> dget (wrap_at ks d) k = dget d k"
  by (simp add: dget_def dget_or_wrap_at_other)

lemma dget_or_wrap_at_list:
  "wrap_dict (dget_or (wrap_at ks d) k (PList [])) = wrap_dict (dget_or d k (PList []))"
  by (auto simp: dget_or_def map_of_wrap_at wrap_dict_def split: option.splits pyval.splits)

lemma dget_or_on_key_other:
  "k' \<noteq> k \<Longrightarrow> dget_or (on_key k f d) k' dflt = dget_or d k' dflt"
  by (simp add: dget_or_def map_of_on_key split: option.splits)

lemma dget_on_key_other: "k' \<noteq> k \<Longrightarrow> dget (on_key k f d) k' = dget d k'"
  by (simp add: dget_def dget_or_on_key_other)

lemma dget_or_on_key_same:
  "f dflt = dflt \<Longrightarrow> dget_or (on_key k f d) k dflt = f (dget_or d k dflt)"
  by (simp add: dget_or_def map_of_on_key split: option.splits)

lemma wrap_at_Nil [simp]: "wrap_at ks d = [] \<longleftrightarrow> d = []"
  by (simp add: wrap_at_def)

lemma on_key_Nil [simp]: "on_key k f d = [] \<longleftrightarrow> d = []"
  by (simp add: on_key_def)

lemma truthy_in_dict:
  "(\<And>d. g d = [] \<longleftrightarrow> d = []) \<Longrightarrow> truthy env (in_dict g v) = truthy env v"
  by (cases v) (simp_all add: in_dict_def)

lemma truthy_coerce_borrower [simp]: "truthy env (coerce_borrower b) = truthy env b"
  by (simp add: coerce_borrower_def truthy_in_dict)

lemma truthy_coerce_true_link [simp]: "truthy env (coerce_true_link t) = truthy env t"
  by (simp add: coerce_true_link_def truthy_in_dict)

subsection \<open>The borrower block\<close>

lemma borrower_other_keys:
  "dget (wrap_at borrower_lists d) ''BorrowerName'' = dget d ''BorrowerName''"
  "dget (wrap_at borrower_lists d) ''firstName'' = dget d ''firstName''"
  "dget (wrap_at borrower_lists d) ''FirstName'' = dget d ''FirstName''"
  "dget (wrap_at borrower_lists d) ''lastName'' = dget d ''lastName''"
  "dget (wrap_at borrower_lists d) ''LastName'' = dget d ''LastName''"
  "dget (wrap_at borrower_lists d) ''SocialSecurityNumber'' = dget d ''SocialSecurityNumber''"
  "dget (wrap_at borrower_lists d) ''ssn'' = dget d ''ssn''"
  "dget (wrap_at borrower_lists d) ''SocialPartition'' = dget d ''SocialPartition''"
  "dget_or (wrap_at borrower_lists d) ''Name'' dflt = dget_or d ''Name'' dflt"
  "dget_or (wrap_at borrower_lists d) ''Birth'' dflt = dget_or d ''Birth'' dflt"
  "dget_or (wrap_at borrower_lists d) ''CreditScore'' dflt = dget_or d ''CreditScore'' dflt"
  by (simp_all add: borrower_lists_def dget_wrap_at_other dget_or_wrap_at_other)

lemma borrower_name_coerce: "borrower_name env (wrap_at borrower_lists d) = borrower_name env d"
  unfolding borrower_name_def borrower_other_keys ..

lemma borrower_ssn_coerce: "borrower_ssn env (wrap_at borrower_lists d) = borrower_ssn env d"
  unfolding borrower_ssn_def borrower_other_keys ..

lemma borrower_address_coerce:
  "borrower_address env (wrap_at borrower_lists d) = borrower_address env d"
  unfolding borrower_address_def dget_or_wrap_at_list ..

lemma borrower_birth_date_coerce:
  "borrower_birth_date env (wrap_at borrower_lists d) = borrower_birth_date env d"
  unfolding borrower_birth_date_def borrower_other_keys ..

lemma borrower_info_coerce: "borrower_info env (coerce_borrower b) = borrower_info env b"
proof (cases b)
  case (PDict d)
  show ?thesis
    unfolding PDict coerce_borrower_def in_dict_def pyval.case borrower_info_def
      borrower_name_coerce borrower_ssn_coerce borrower_address_coerce
      borrower_birth_date_coerce dget_or_wrap_at_list ..
qed (simp_all add: coerce_borrower_def in_dict_def)

lemma personal_info_of_coerce:
  "personal_info_of env (coerce_borrower b) = personal_info_of env b"
  by (simp add: personal_info_of_def borrower_info_coerce)

lemma py_get_or_coerce_borrower_list:
  "bindE (py_get_or (coerce_borrower b) k (PList [])) (\<lambda>v. f (wrap_dict v))
     = bindE (py_get_or b k (PList [])) (\<lambda>v. f (wrap_dict v))"
  by (cases b)
     (simp_all add: coerce_borrower_def in_dict_def py_get_or_def bindE_def
        dget_or_wrap_at_list)

lemma credit_score_try_coerce:
  "credit_score_try env (coerce_borrower b) sc = credit_score_try env b sc"
  by (cases b)
     (simp_all add: coerce_borrower_def in_dict_def credit_score_try_def py_get_or_def
        borrower_other_keys)

lemma borrower_scores_coerce:
  "borrower_scores env rrs (coerce_borrower b) sc = borrower_scores env rrs b sc"
  by (simp add: borrower_scores_def credit_score_try_coerce)

lemma borrower_inquiries_coerce:
  "borrower_inquiries env (coerce_borrower b) xs = borrower_inquiries env b xs"
  by (simp add: borrower_inquiries_def
        py_get_or_coerce_borrower_list [where f = "\<lambda>v. bindE (py_iter v) g" for g])

lemma borrower_employers_coerce:
  "borrower_employers env (coerce_borrower b) xs = borrower_employers env b xs"
  by (simp add: borrower_employers_def
        py_get_or_coerce_borrower_list [where f = "\<lambda>v. bindE (py_iter v) g" for g])


subsection \<open>The merged report\<close>

lemma in_dict_simps [simp]:
  "in_dict g (PDict d) = PDict (g d)"
  "in_dict g PNone = PNone"
  "in_dict g (PBool b) = PBool b"
  "in_dict g (PInt i) = PInt i"
  "in_dict g (PFloat x) = PFloat x"
  "in_dict g (PStr s) = PStr s"
  "in_dict g (PList xs) = PList xs"
  by (simp_all add: in_dict_def)

lemma wrap_at_Nil_eq [simp]: "wrap_at ks [] = []"
  by (simp add: wrap_at_def)

lemma on_key_Nil_eq [simp]: "on_key k f [] = []"
  by (simp add: on_key_def)

lemma coerce_borrower_empty [simp]: "coerce_borrower (PDict []) = PDict []"
  by (simp add: coerce_borrower_def)

lemma coerce_true_link_empty [simp]: "coerce_true_link (PDict []) = PDict []"
  by (simp add: coerce_true_link_def)

lemma coerce_none [simp]:
  "coerce_borrower PNone = PNone" "coerce_true_link PNone = PNone"
  by (simp_all add: coerce_borrower_def coerce_true_link_def)

lemma true_link_list:
  "k \<noteq> ''Borrower'' \<Longrightarrow>
   bindE (py_get_or (coerce_true_link t) k (PList [])) (\<lambda>v. f (wrap_dict v))
     = bindE (py_get_or t k (PList [])) (\<lambda>v. f (wrap_dict v))"
  by (cases t)
     (simp_all add: coerce_true_link_def py_get_or_def bindE_def dget_or_on_key_other
        dget_or_wrap_at_list)

lemma partition_accounts_coerce:
  "partition_accounts env (coerce_true_link t) accs = partition_accounts env t accs"
  by (simp add: partition_accounts_def
        true_link_list [where f = "\<lambda>v. bindE (py_iter v) g" for g])

lemma partition_inquiries_coerce:
  "partition_inquiries env (coerce_true_link t) xs = partition_inquiries env t xs"
  by (simp add: partition_inquiries_def
        true_link_list [where f = "\<lambda>v. bindE (py_iter v) g" for g])

lemma true_link_borrower:
  "py_get_or (coerce_true_link t) ''Borrower'' (PDict [])
     = map_sum id coerce_borrower (py_get_or t ''Borrower'' (PDict []))"
  by (cases t)
     (simp_all add: coerce_true_link_def py_get_or_def dget_or_on_key_same
        dget_or_wrap_at_other)

subsection \<open>The bundle components\<close>

lemma component_keys:
  "dget (on_key ''TrueLinkCreditReportType'' f m) ''Type'' = dget m ''Type''"
  "dget (on_key ''TrueLinkCreditReportType'' f m) ''CreditScoreType'' = dget m ''CreditScoreType''"
  "dget_or (on_key ''TrueLinkCreditReportType'' f m) ''CreditReportType'' dflt
     = dget_or m ''CreditReportType'' dflt"
  by (simp_all add: dget_on_key_other dget_or_on_key_other)

lemma score_target_coerce: "score_target env (coerce_component c) = score_target env c"
proof (cases c)
  case (PDict m)
  show ?thesis
    unfolding PDict coerce_component_def in_dict_simps score_target_def pyval.case
      component_keys ..
qed (simp_all add: coerce_component_def)

lemma score_step_coerce: "score_step env (coerce_component c) = score_step env c"
  by (simp add: score_step_def score_target_coerce fun_eq_iff)

lemma bureau_comp_coerce: "bureau_comp env (coerce_component c) = bureau_comp env c"
proof (cases c)
  case (PDict m)
  show ?thesis
    unfolding PDict coerce_component_def in_dict_simps bureau_comp_def pyval.case
      component_keys ..
qed (simp_all add: coerce_component_def)

lemma find_merge_coerce:
  "find_merge (map coerce_component comps) (coerce_state st)
     = apfst coerce_state (find_merge comps st)"
proof (induction comps st rule: find_merge.induct)
  case (1 st)
  show ?case by simp
next
  case (2 comp_v comps t b)
  show ?case
  proof (cases comp_v)
    case (PDict m)
    show ?thesis
    proof (cases "py_eq (dget m ''Type'') (PStr ''MergeCreditReports'')")
      case True
      then show ?thesis
        by (cases "py_get_or (dget_or m ''TrueLinkCreditReportType'' (PDict [])) ''Borrower''
                     (PDict [])")
           (simp_all add: PDict coerce_component_def coerce_state_def component_keys
              dget_or_on_key_same true_link_borrower Let_def)
    next
      case False
      with 2 [OF PDict False] show ?thesis
        by (simp add: PDict coerce_component_def coerce_state_def component_keys)
    qed
  qed (simp_all add: coerce_component_def coerce_state_def)
qed

lemma coerce_components_iter:
  "py_iter (wrap_dict (coerce_components v))
     = map_sum id (map coerce_component) (py_iter (wrap_dict v))"
  by (cases v)
     (simp_all add: coerce_components_def wrap_dict_def py_iter_def coerce_component_def
        comp_def)

lemma coerce_components_empty [simp]: "coerce_components (PList []) = PList []"
  by (simp add: coerce_components_def wrap_dict_def)

lemma for_each_map:
  "(\<And>x. f (g x) = f x) \<Longrightarrow> for_each f (map g xs) s = for_each f xs s"
  by (induction xs arbitrary: s) (simp_all add: bindE_def split: sum.splits)

lemma for_each_try_map:
  "(\<And>x. f (g x) = f x) \<Longrightarrow> for_each_try f (map g xs) s = for_each_try f xs s"
  by (induction xs arbitrary: s) (simp_all split: prod.splits option.splits)

subsection \<open>A document with its components\<close>

lemma bundle_components_of:
  "dget_or (coerce_bundle_dict d) ''BundleComponents'' (PDict [])
     = in_dict (on_key ''BundleComponent'' coerce_components)
         (dget_or d ''BundleComponents'' (PDict []))"
  by (simp add: coerce_bundle_dict_def dget_or_on_key_same)

lemma bundle_component_of:
  "dget_or (on_key ''BundleComponent'' coerce_components bc) ''BundleComponent'' (PList [])
     = coerce_components (dget_or bc ''BundleComponent'' (PList []))"
  by (simp add: dget_or_on_key_same)

lemma locate_borrower_coerce:
  "locate_borrower (coerce_bundle doc) (coerce_state st)
     = apfst coerce_state (locate_borrower doc st)"
proof (cases doc)
  case (PDict d)
  show ?thesis
  proof (cases "dget_or d ''BundleComponents'' (PDict [])")
    case bc: (PDict bc)
    show ?thesis
      by (cases "py_iter (wrap_dict (dget_or bc ''BundleComponent'' (PList [])))")
         (simp_all add: PDict coerce_bundle_def locate_borrower_def py_get_or_def
            bundle_components_of bc bundle_component_of coerce_components_iter
            find_merge_coerce)
  qed (simp_all add: PDict coerce_bundle_def locate_borrower_def py_get_or_def
         bundle_components_of)
qed (simp_all add: coerce_bundle_def locate_borrower_def py_get_or_def)

lemma coerce_state_none [simp]: "coerce_state (PNone, PNone) = (PNone, PNone)"
  by (simp add: coerce_state_def)

lemma parse_loaded_coerce:
  "parse_loaded present (map_sum id coerce_bundle loaded)
     = map_sum id (apfst coerce_state) (parse_loaded present loaded)"
proof (cases loaded)
  case (Inl e)
  then show ?thesis by (simp add: parse_loaded_def)
next
  case (Inr doc)
  have "locate_borrower (coerce_bundle doc) (PNone, PNone)
          = apfst coerce_state (locate_borrower doc (PNone, PNone))"
    using locate_borrower_coerce [of doc "(PNone, PNone)"] by simp
  then show ?thesis
    by (cases "locate_borrower doc (PNone, PNone)")
       (simp add: parse_loaded_def Inr split: option.splits)
qed

lemma parse_raw_report_loaded:
  "parse_raw_report env r = parse_loaded (truthy env r) (json_loads env r)"
  by (simp add: parse_raw_report_def parse_loaded_def)

lemma bureau_accounts_loaded:
  "bureau_accounts env r accs = bureau_loaded env (truthy env r) (json_loads env r) accs"
  by (simp add: bureau_accounts_def bureau_try_def bureau_loaded_def)

lemma bureau_loaded_coerce:
  "bureau_loaded env present (map_sum id coerce_bundle loaded) accs
     = bureau_loaded env present loaded accs"
proof (cases loaded)
  case (Inl e)
  then show ?thesis by (simp add: bureau_loaded_def)
next
  case (Inr doc)
  show ?thesis
  proof (cases doc)
    case (PDict d)
    show ?thesis
    proof (cases "dget_or d ''BundleComponents'' (PDict [])")
      case bc: (PDict bc)
      show ?thesis
        by (cases "py_iter (wrap_dict (dget_or bc ''BundleComponent'' (PList [])))")
           (simp_all add: Inr PDict coerce_bundle_def bureau_loaded_def py_get_or_def
              bundle_components_of bc bundle_component_of coerce_components_iter
              for_each_try_map bureau_comp_coerce)
    qed (simp_all add: Inr PDict coerce_bundle_def bureau_loaded_def py_get_or_def
           bundle_components_of)
  qed (simp_all add: Inr coerce_bundle_def bureau_loaded_def py_get_or_def)
qed

subsection \<open>The outer document\<close>

lemma truthy_wrapped [simp]: "truthy env (in_dict (wrap_at ks) v) = truthy env v"
  by (simp add: truthy_in_dict)

lemma py_or_in_dict:
  "(\<And>d. g d = [] \<longleftrightarrow> d = []) \<Longrightarrow>
   py_or env (in_dict g v) (PDict []) = in_dict g (py_or env v (PDict []))"
proof -
  assume g: "\<And>d. g d = [] \<longleftrightarrow> d = []"
  from g [of "[]"] have "in_dict g (PDict []) = PDict []" by simp
  then show ?thesis by (simp add: py_or_def truthy_in_dict [OF g])
qed

lemma wrapped_list:
  "bindE (py_get_or (in_dict (wrap_at ks) b) k (PList [])) (\<lambda>v. f (wrap_dict v))
     = bindE (py_get_or b k (PList [])) (\<lambda>v. f (wrap_dict v))"
  by (cases b) (simp_all add: py_get_or_def bindE_def dget_or_wrap_at_list)

lemma cr_bundle_components:
  "dget_or (coerce_cr_dict cr) ''BundleComponents'' dflt
     = dget_or (coerce_bundle_dict cr) ''BundleComponents'' dflt"
  by (simp add: coerce_cr_dict_def dget_or_def delete_conv map_of_on_key
        split: option.splits)

lemma locate_borrower_key:
  "dget_or d1 ''BundleComponents'' (PDict []) = dget_or d2 ''BundleComponents'' (PDict [])
   \<Longrightarrow> locate_borrower (PDict d1) st = locate_borrower (PDict d2) st"
  by (simp add: locate_borrower_def py_get_or_def)

lemma locate_borrower_cr:
  "locate_borrower (PDict (coerce_cr_dict cr)) (coerce_state st)
     = apfst coerce_state (locate_borrower (PDict cr) st)"
proof -
  have "locate_borrower (PDict (coerce_cr_dict cr)) (coerce_state st)
          = locate_borrower (PDict (coerce_bundle_dict cr)) (coerce_state st)"
    by (rule locate_borrower_key) (rule cr_bundle_components)
  with locate_borrower_coerce [of "PDict cr" st] show ?thesis
    by (simp add: coerce_bundle_def)
qed

lemma snd_coerce_state [simp]: "snd (coerce_state st) = coerce_borrower (snd st)"
  by (simp add: coerce_state_def)

lemma fst_coerce_state [simp]: "fst (coerce_state st) = coerce_true_link (fst st)"
  by (simp add: coerce_state_def)

lemma fallback_borrower_coerce:
  "fallback_borrower env (coerce_cr_dict cr) (coerce_state st)
     = map_sum id coerce_state (fallback_borrower env cr st)"
  by (cases "locate_borrower (PDict cr) st")
     (simp add: fallback_borrower_def locate_borrower_cr split: option.splits)

lemma cr_bundle:
  "dget (coerce_cr_dict cr) ''BundleComponents''
     = in_dict (on_key ''BundleComponent'' coerce_components) (dget cr ''BundleComponents'')"
  by (simp add: dget_def cr_bundle_components coerce_bundle_dict_def dget_or_on_key_same)

lemma bundle_scores_coerce: "bundle_scores env (coerce_cr_dict cr) sc = bundle_scores env cr sc"
proof (cases "py_or env (dget cr ''BundleComponents'') (PDict [])")
  case (PDict bc)
  show ?thesis
    by (cases "py_iter (wrap_dict (dget_or bc ''BundleComponent'' (PList [])))")
       (simp_all add: bundle_scores_def cr_bundle py_or_in_dict PDict py_get_or_def
          dget_or_on_key_same coerce_components_iter bindE_def for_each_map
          score_step_coerce)
qed (simp_all add: bundle_scores_def cr_bundle py_or_in_dict py_get_or_def bindE_def)

lemma cr_borrower:
  "dget (coerce_cr_dict cr) ''Borrower'' = in_dict (wrap_at [''Employer'']) (dget cr ''Borrower'')"
  by (simp add: coerce_cr_dict_def coerce_bundle_dict_def dget_def dget_or_def delete_conv
        map_of_on_key split: option.splits)

lemma fallback_employers_coerce:
  "fallback_employers env (coerce_cr v) xs = fallback_employers env v xs"
proof (cases v)
  case (PDict cr)
  show ?thesis
    by (cases "py_or env (dget cr ''Borrower'') (PDict [])")
       (simp_all add: PDict coerce_cr_def fallback_employers_def py_get_def py_get_or_def
          cr_borrower dget_def [symmetric] bindE_def py_or_in_dict
          dget_or_wrap_at_list)
qed (simp_all add: coerce_cr_def)

lemma coerce_cr_empty [simp]: "coerce_cr (PDict []) = PDict []"
  by (simp add: coerce_cr_def coerce_cr_dict_def coerce_bundle_dict_def)

lemma raw_cr:
  "dget_or (coerce_raw raw) ''credit_report_json'' (PDict [])
     = coerce_cr (dget_or raw ''credit_report_json'' (PDict []))"
  by (simp add: coerce_raw_def dget_or_on_key_same dget_or_on_key_other)

lemma raw_keys:
  "dget (coerce_raw raw) ''trades'' = in_dict (wrap_at [''trades'']) (dget raw ''trades'')"
  "dget (coerce_raw raw) ''search_results''
     = in_dict (wrap_at [''inquiries'', ''publicRecords'']) (dget raw ''search_results'')"
  by (simp_all add: coerce_raw_def dget_def dget_or_on_key_same dget_or_on_key_other)

lemma trades_of_coerce: "trades_of env (coerce_raw raw) = trades_of env raw"
  by (simp add: trades_of_def raw_keys py_or_in_dict
        wrapped_list [where f = py_iter])

lemma trade_accounts_coerce:
  "trade_accounts env (coerce_raw raw) accs = trade_accounts env raw accs"
  by (simp add: trade_accounts_def trades_of_coerce)

lemma search_results_list_coerce:
  "search_results_list env (coerce_raw raw) k = search_results_list env raw k"
  by (simp add: search_results_list_def raw_keys py_or_in_dict
        wrapped_list [where f = py_iter])

lemma public_record_pass_coerce:
  "public_record_pass env (coerce_raw raw) = public_record_pass env raw"
  by (simp add: public_record_pass_def search_results_list_coerce)

subsection \<open>Two inputs with the same coerced form\<close>

lemma bindE_Inr: "bindE (Inr x) f = f x"
  by (simp add: bindE_def)

lemma map_sum_eqD:
  "map_sum id f x = map_sum id g y \<Longrightarrow>
   (\<exists>e. x = Inl e \<and> y = Inl e) \<or> (\<exists>a b. x = Inr a \<and> y = Inr b \<and> f a = g b)"
  by (cases x; cases y) simp_all

lemma coerce_cr_eq_dict:
  "coerce_cr (PDict c1) = coerce_cr v2 \<Longrightarrow> \<exists>c2. v2 = PDict c2 \<and> coerce_cr_dict c1 = coerce_cr_dict c2"
  by (cases v2) (simp_all add: coerce_cr_def)

lemma coerce_cr_eq_other:
  "coerce_cr v1 = coerce_cr v2 \<Longrightarrow> \<forall>c. v1 \<noteq> PDict c \<Longrightarrow> v2 = v1"
  by (cases v1; cases v2) (simp_all add: coerce_cr_def)

lemma credit_report_sections_coerce:
  assumes cr: "coerce_cr v1 = coerce_cr v2"
    and present: "truthy env (raw_report_in v1) = truthy env (raw_report_in v2)"
    and loaded: "map_sum id coerce_bundle (json_loads env (raw_report_in v1))
                   = map_sum id coerce_bundle (json_loads env (raw_report_in v2))"
  shows "(\<exists>e. credit_report_sections env v1 sc = Inl e
              \<and> credit_report_sections env v2 sc = Inl e)
       \<or> (\<exists>t1 b1 t2 b2 p s l.
              credit_report_sections env v1 sc = Inr (raw_report_in v1, t1, b1, p, s, l)
            \<and> credit_report_sections env v2 sc = Inr (raw_report_in v2, t2, b2, p, s, l)
            \<and> coerce_true_link t1 = coerce_true_link t2
            \<and> coerce_borrower b1 = coerce_borrower b2)"
proof (cases "\<exists>c. v1 = PDict c")
  case False
  with cr have "v2 = v1" by (auto dest: coerce_cr_eq_other)
  with False show ?thesis
    by (cases v1) (simp_all add: credit_report_sections_def raw_report_in_def)
next
  case True
  then obtain c1 where v1: "v1 = PDict c1" by blast
  with cr obtain c2 where v2: "v2 = PDict c2" and cc: "coerce_cr_dict c1 = coerce_cr_dict c2"
    by (auto dest: coerce_cr_eq_dict)
  define r1 where "r1 = dget c1 ''rawReport''"
  define r2 where "r2 = dget c2 ''rawReport''"
  have rr: "raw_report_in v1 = r1" "raw_report_in v2 = r2"
    by (simp_all add: v1 v2 r1_def r2_def raw_report_in_def)
  have "map_sum id (apfst coerce_state) (parse_raw_report env r1)
          = map_sum id (apfst coerce_state) (parse_raw_report env r2)"
    using present loaded
    by (simp add: rr parse_raw_report_loaded parse_loaded_coerce [symmetric])
  then consider
    (raises) e where "parse_raw_report env r1 = Inl e" "parse_raw_report env r2 = Inl e"
  | (parsed) st1 st2 log1 where "parse_raw_report env r1 = Inr (st1, log1)"
      "parse_raw_report env r2 = Inr (st2, log1)" "coerce_state st1 = coerce_state st2"
    by (auto dest!: map_sum_eqD)
  then show ?thesis
  proof cases
    case raises
    then show ?thesis
      by (simp add: v1 v2 credit_report_sections_def r1_def r2_def bindE_def)
  next
    case parsed
    have "map_sum id coerce_state (fallback_borrower env c1 st1)
            = map_sum id coerce_state (fallback_borrower env c2 st2)"
      using cc parsed(3) by (simp add: fallback_borrower_coerce [symmetric])
    then consider
      (raises) e where "fallback_borrower env c1 st1 = Inl e"
        "fallback_borrower env c2 st2 = Inl e"
    | (found) t1 b1 t2 b2 where "fallback_borrower env c1 st1 = Inr (t1, b1)"
        "fallback_borrower env c2 st2 = Inr (t2, b2)"
        "coerce_true_link t1 = coerce_true_link t2" "coerce_borrower b1 = coerce_borrower b2"
      by (auto dest!: map_sum_eqD simp: coerce_state_def)
    then show ?thesis
    proof cases
      case raises
      with parsed show ?thesis
        by (simp add: v1 v2 credit_report_sections_def r1_def r2_def bindE_def)
    next
      case found
      have pinfo: "personal_info_of env b1 = personal_info_of env b2"
        using found(4) personal_info_of_coerce [of env b1] personal_info_of_coerce [of env b2]
        by simp
      have bs: "bundle_scores env c1 sc = bundle_scores env c2 sc"
        using cc bundle_scores_coerce [of env c1 sc] bundle_scores_coerce [of env c2 sc]
        by simp
      have tb: "truthy env b1 = truthy env b2"
        using found(4) truthy_coerce_borrower [of env b1] truthy_coerce_borrower [of env b2]
        by simp
      have cst: "credit_score_try env b1 s = credit_score_try env b2 s" for s
        using found(4) credit_score_try_coerce [of env b1 s]
          credit_score_try_coerce [of env b2 s]
        by simp
      have sc2: "borrower_scores env r1 b1 s = borrower_scores env r2 b2 s" for s
        using present by (simp add: borrower_scores_def rr tb cst)
      show ?thesis
      proof (cases "personal_info_of env b1")
        case (Inl e)
        with pinfo have "personal_info_of env b2 = Inl e" by simp
        with parsed found Inl show ?thesis
          by (simp add: v1 v2 credit_report_sections_def r1_def [symmetric]
                r2_def [symmetric] bindE_def)
      next
        case p: (Inr p)
        show ?thesis
        proof (cases "bundle_scores env c1 sc")
          case (Inl e)
          from p pinfo have p2: "personal_info_of env b2 = Inr p" by simp
          from Inl bs have s2: "bundle_scores env c2 sc = Inl e" by simp
          from parsed found p p2 Inl s2 show ?thesis
            by (simp add: v1 v2 credit_report_sections_def r1_def [symmetric]
                  r2_def [symmetric] bindE_def)
        next
          case s: (Inr s)
          from p pinfo have p2: "personal_info_of env b2 = Inr p" by simp
          from s bs have s2: "bundle_scores env c2 sc = Inr s" by simp
          have rr': "raw_report_in (PDict c1) = r1" "raw_report_in (PDict c2) = r2"
            using rr by (simp_all add: v1 v2)
          from parsed found p p2 s s2 sc2 [of s] show ?thesis
            by (simp add: v1 v2 credit_report_sections_def r1_def [symmetric]
                  r2_def [symmetric] bindE_def rr' Let_def)
        qed
      qed
    qed
  qed
qed

lemma same_coerced_form_same_report:
  assumes raw: "coerce_raw raw1 = coerce_raw raw2"
    and present: "truthy env (raw_report_of raw1) = truthy env (raw_report_of raw2)"
    and loaded: "map_sum id coerce_bundle (json_loads env (raw_report_of raw1))
                   = map_sum id coerce_bundle (json_loads env (raw_report_of raw2))"
  shows "normalize_report env raw1 sc = normalize_report env raw2 sc"
proof -
  define v1 where "v1 = dget_or raw1 ''credit_report_json'' (PDict [])"
  define v2 where "v2 = dget_or raw2 ''credit_report_json'' (PDict [])"
  have cr: "coerce_cr v1 = coerce_cr v2"
    using raw raw_cr [of raw1] raw_cr [of raw2] by (simp add: v1_def v2_def)
  have rr: "raw_report_of raw1 = raw_report_in v1" "raw_report_of raw2 = raw_report_in v2"
    by (simp_all add: raw_report_of_def v1_def v2_def)
  have trades: "trade_accounts env raw1 accs = trade_accounts env raw2 accs" for accs
    using raw trade_accounts_coerce [of env raw1 accs] trade_accounts_coerce [of env raw2 accs]
    by simp
  have srl: "search_results_list env raw1 k = search_results_list env raw2 k" for k
    using raw search_results_list_coerce [of env raw1 k]
      search_results_list_coerce [of env raw2 k]
    by simp
  have fe: "fallback_employers env v1 xs = fallback_employers env v2 xs" for xs
    using cr fallback_employers_coerce [of env v1 xs] fallback_employers_coerce [of env v2 xs]
    by simp
  have ba: "bureau_accounts env (raw_report_in v1) accs
              = bureau_accounts env (raw_report_in v2) accs" for accs
    using present loaded bureau_loaded_coerce [of env _ "json_loads env (raw_report_in v1)" accs]
      bureau_loaded_coerce [of env _ "json_loads env (raw_report_in v2)" accs]
    by (simp add: bureau_accounts_loaded rr)
  from credit_report_sections_coerce [OF cr present [unfolded rr] loaded [unfolded rr], of sc]
  consider
    (raises) e where "credit_report_sections env v1 sc = Inl e"
      "credit_report_sections env v2 sc = Inl e"
  | (returns) t1 b1 t2 b2 p s l where
      "credit_report_sections env v1 sc = Inr (raw_report_in v1, t1, b1, p, s, l)"
      "credit_report_sections env v2 sc = Inr (raw_report_in v2, t2, b2, p, s, l)"
      "coerce_true_link t1 = coerce_true_link t2" "coerce_borrower b1 = coerce_borrower b2"
    by blast
  then show ?thesis
  proof cases
    case raises
    then show ?thesis
      by (simp add: normalize_report_def v1_def [symmetric] v2_def [symmetric] bindE_def)
  next
    case returns
    have pa: "partition_accounts env t1 accs = partition_accounts env t2 accs" for accs
      using returns(3) partition_accounts_coerce [of env t1 accs]
        partition_accounts_coerce [of env t2 accs]
      by simp
    have pq: "partition_inquiries env t1 xs = partition_inquiries env t2 xs" for xs
      using returns(3) partition_inquiries_coerce [of env t1 xs]
        partition_inquiries_coerce [of env t2 xs]
      by simp
    have bi: "borrower_inquiries env b1 xs = borrower_inquiries env b2 xs" for xs
      using returns(4) borrower_inquiries_coerce [of env b1 xs]
        borrower_inquiries_coerce [of env b2 xs]
      by simp
    have be: "borrower_employers env b1 xs = borrower_employers env b2 xs" for xs
      using returns(4) borrower_employers_coerce [of env b1 xs]
        borrower_employers_coerce [of env b2 xs]
      by simp
    have acc: "account_passes env raw1 t1 (raw_report_in v1)
                 = account_passes env raw2 t2 (raw_report_in v2)"
      by (simp add: account_passes_def trades pa ba)
    have inq: "inquiry_passes env raw1 t1 b1 = inquiry_passes env raw2 t2 b2"
      by (simp add: inquiry_passes_def srl pq bi)
    have pub: "public_record_pass env raw1 = public_record_pass env raw2"
      by (simp add: public_record_pass_def srl)
    have emp: "employer_passes env v1 b1 = employer_passes env v2 b2"
      by (simp add: employer_passes_def be fe)
    show ?thesis
      by (simp add: normalize_report_def v1_def [symmetric] v2_def [symmetric] returns(1,2)
            acc inq pub emp bindE_Inr)
  qed
qed

subsection \<open>Coercion and the value at a position\<close>

lemma wrap_at_update:
  "wrap_at ks (AList.update k v d)
     = AList.update k (if k \<in> set ks then wrap_dict v else v) (wrap_at ks d)"
  by (induction d) (auto simp: wrap_at_def)

lemma on_key_update:
  "on_key k' f (AList.update k v d) = AList.update k (if k = k' then f v else v) (on_key k' f d)"
  by (induction d) (auto simp: on_key_def)

lemma same_at_Key:
  assumes "same_at c p x y"
    and "\<And>v d. g (AList.update k v d) = AList.update k (c v) (g d)"
  shows "same_at (in_dict g) (Key k # p) x y"
  unfolding same_at_def
proof
  fix v
  from assms(1) have "c (put p x w) = c (put p y w)" for w by (simp add: same_at_def)
  then show "in_dict g (put (Key k # p) x v) = in_dict g (put (Key k # p) y v)"
    by (cases v) (simp_all add: assms(2))
qed

lemma same_at_wrap: "same_at wrap_dict [] (PDict obj) (PList [PDict obj])"
  by (simp add: same_at_def wrap_dict_def)

lemma same_at_borrower:
  assumes "p \<in> set borrower_positions"
  shows "same_at coerce_borrower p (PDict obj) (PList [PDict obj])"
proof -
  from assms obtain k where p: "p = [Key k]" and k: "k \<in> set borrower_lists"
    by (auto simp: borrower_positions_def)
  show ?thesis unfolding p coerce_borrower_def
    by (rule same_at_Key [OF same_at_wrap]) (simp add: wrap_at_update k)
qed

lemma same_at_true_link:
  assumes "p \<in> set true_link_positions"
  shows "same_at coerce_true_link p (PDict obj) (PList [PDict obj])"
proof -
  from assms consider
    (list) k where "p = [Key k]" "k \<in> set [''TradeLinePartition'', ''InquiryPartition'']"
  | (borrower) q where "p = Key ''Borrower'' # q" "q \<in> set borrower_positions"
    by (auto simp: true_link_positions_def)
  then show ?thesis
  proof cases
    case list
    show ?thesis unfolding list(1) coerce_true_link_def
      by (rule same_at_Key [OF same_at_wrap]) (use list(2) in \<open>auto simp: wrap_at_update on_key_update\<close>)
  next
    case borrower
    show ?thesis unfolding borrower(1) coerce_true_link_def
      by (rule same_at_Key [OF same_at_borrower [OF borrower(2)]])
         (simp add: wrap_at_update on_key_update)
  qed
qed

lemma same_at_component:
  assumes "p \<in> set component_positions"
  shows "same_at coerce_component p (PDict obj) (PList [PDict obj])"
proof -
  from assms obtain q where p: "p = Key ''TrueLinkCreditReportType'' # q"
    and q: "q \<in> set true_link_positions"
    by (auto simp: component_positions_def)
  show ?thesis unfolding p coerce_component_def
    by (rule same_at_Key [OF same_at_true_link [OF q]]) (simp add: on_key_update)
qed

lemma coerce_components_dict:
  "coerce_components (PDict m) = PList [coerce_component (PDict m)]"
  by (simp add: coerce_components_def wrap_dict_def)

lemma coerce_components_list: "coerce_components (PList xs) = PList (map coerce_component xs)"
  by (simp add: coerce_components_def wrap_dict_def)

lemma same_at_component_list:
  assumes "p \<in> set (component_list_positions i)"
  shows "same_at coerce_components p (PDict obj) (PList [PDict obj])"
proof -
  from assms consider (whole) "p = []"
    | (element) q where "p = Idx i # q" "q \<in> set component_positions"
    | (bare) "p \<in> set component_positions"
    by (auto simp: component_list_positions_def)
  then show ?thesis
  proof cases
    case whole
    show ?thesis
      by (simp add: whole same_at_def coerce_components_dict coerce_components_list
            coerce_component_def)
  next
    case element
    from same_at_component [OF element(2), of obj]
    have eq: "coerce_component (put q (PDict obj) w) = coerce_component (put q (PList [PDict obj]) w)"
      for w by (simp add: same_at_def)
    show ?thesis unfolding same_at_def element(1)
    proof
      fix v show "coerce_components (put (Idx i # q) (PDict obj) v)
                    = coerce_components (put (Idx i # q) (PList [PDict obj]) v)"
        by (cases v) (simp_all add: coerce_components_list map_update eq)
    qed
  next
    case bare
    then obtain q where p: "p = Key ''TrueLinkCreditReportType'' # q"
      by (auto simp: component_positions_def)
    from same_at_component [OF bare, of obj]
    have eq: "coerce_component (put p (PDict obj) w) = coerce_component (put p (PList [PDict obj]) w)"
      for w by (simp add: same_at_def)
    show ?thesis unfolding same_at_def
    proof
      fix v show "coerce_components (put p (PDict obj) v)
                    = coerce_components (put p (PList [PDict obj]) v)"
        using eq [of v] by (cases v) (simp_all add: p coerce_components_dict)
    qed
  qed
qed

lemma same_at_bundle_dict:
  assumes "same_at coerce_components p x y"
  shows "same_at (in_dict coerce_bundle_dict)
           (Key ''BundleComponents'' # Key ''BundleComponent'' # p) x y"
  unfolding coerce_bundle_dict_def
  by (rule same_at_Key [OF same_at_Key [OF assms]]) (simp_all add: on_key_update)

lemma same_at_document:
  assumes "p \<in> set (document_positions i)"
  shows "same_at coerce_bundle p (PDict obj) (PList [PDict obj])"
proof -
  from assms obtain q where p: "p = Key ''BundleComponents'' # Key ''BundleComponent'' # q"
    and q: "q \<in> set (component_list_positions i)"
    by (auto simp: document_positions_def)
  show ?thesis unfolding p coerce_bundle_def
    by (rule same_at_bundle_dict [OF same_at_component_list [OF q]])
qed


lemma dget_or_update:
  "dget_or (AList.update k' v d) k dflt = (if k = k' then v else dget_or d k dflt)"
  by (simp add: dget_or_def update_conv')

lemma delete_update_other:
  "k \<noteq> k' \<Longrightarrow> AList.delete k' (AList.update k v d) = AList.update k v (AList.delete k' d)"
  by (induction d) auto

lemma delete_update_same: "AList.delete k (AList.update k v d) = AList.delete k d"
  by (induction d) auto

lemma coerce_cr_dict_update:
  "coerce_cr_dict (AList.update ''BundleComponents'' v d)
     = AList.update ''BundleComponents'' (in_dict (on_key ''BundleComponent'' coerce_components) v)
         (coerce_cr_dict d)"
  "coerce_cr_dict (AList.update ''Borrower'' v d)
     = AList.update ''Borrower'' (in_dict (wrap_at [''Employer'']) v) (coerce_cr_dict d)"
  "coerce_cr_dict (AList.update ''rawReport'' v d) = coerce_cr_dict d"
  by (simp_all add: coerce_cr_dict_def coerce_bundle_dict_def on_key_update delete_update_other
        delete_update_same)

lemma same_at_cr:
  assumes "p = [Key ''Borrower'', Key ''Employer''] \<or> p \<in> set (document_positions i)"
  shows "same_at coerce_cr p (PDict obj) (PList [PDict obj])"
  using assms
proof
  assume p: "p = [Key ''Borrower'', Key ''Employer'']"
  have "same_at (in_dict (wrap_at [''Employer''])) [Key ''Employer''] (PDict obj)
          (PList [PDict obj])"
    by (rule same_at_Key [OF same_at_wrap]) (simp add: wrap_at_update)
  then show ?thesis unfolding p coerce_cr_def
    by (rule same_at_Key) (rule coerce_cr_dict_update)
next
  assume "p \<in> set (document_positions i)"
  then obtain q where p: "p = Key ''BundleComponents'' # Key ''BundleComponent'' # q"
    and q: "q \<in> set (component_list_positions i)"
    by (auto simp: document_positions_def)
  have "same_at (in_dict (on_key ''BundleComponent'' coerce_components))
          (Key ''BundleComponent'' # q) (PDict obj) (PList [PDict obj])"
    by (rule same_at_Key [OF same_at_component_list [OF q]]) (simp add: on_key_update)
  then show ?thesis unfolding p coerce_cr_def
    by (rule same_at_Key) (rule coerce_cr_dict_update)
qed

lemma coerce_raw_update:
  "coerce_raw (AList.update ''credit_report_json'' v d)
     = AList.update ''credit_report_json'' (coerce_cr v) (coerce_raw d)"
  "coerce_raw (AList.update ''trades'' v d)
     = AList.update ''trades'' (in_dict (wrap_at [''trades'']) v) (coerce_raw d)"
  "coerce_raw (AList.update ''search_results'' v d)
     = AList.update ''search_results'' (in_dict (wrap_at [''inquiries'', ''publicRecords'']) v)
         (coerce_raw d)"
  by (simp_all add: coerce_raw_def on_key_update)

lemma same_at_raw:
  assumes "p \<in> set (positions i)"
  shows "same_at (in_dict coerce_raw) p (PDict obj) (PList [PDict obj])"
proof -
  from assms consider
    (trades) "p = [Key ''trades'', Key ''trades'']"
  | (search) k where "p = [Key ''search_results'', Key k]"
      "k \<in> set [''inquiries'', ''publicRecords'']"
  | (cr) q where "p = Key ''credit_report_json'' # q"
      "q = [Key ''Borrower'', Key ''Employer''] \<or> q \<in> set (document_positions i)"
    by (auto simp: positions_def)
  then show ?thesis
  proof cases
    case trades
    have "same_at (in_dict (wrap_at [''trades''])) [Key ''trades''] (PDict obj)
            (PList [PDict obj])"
      by (rule same_at_Key [OF same_at_wrap]) (simp add: wrap_at_update)
    then show ?thesis unfolding trades
      by (rule same_at_Key) (rule coerce_raw_update)
  next
    case search
    have "same_at (in_dict (wrap_at [''inquiries'', ''publicRecords''])) [Key k] (PDict obj)
            (PList [PDict obj])"
      by (rule same_at_Key [OF same_at_wrap]) (use search(2) in \<open>auto simp: wrap_at_update\<close>)
    then show ?thesis unfolding search(1)
      by (rule same_at_Key) (rule coerce_raw_update)
  next
    case cr
    from same_at_cr [OF cr(2)] show ?thesis unfolding cr(1)
      by (rule same_at_Key) (rule coerce_raw_update)
  qed
qed

lemma put_raw_Key:
  "put_raw (Key k # p) x raw = AList.update k (put p x (dget_or raw k (PDict []))) raw"
  by (simp add: put_raw_def)

lemma coerce_raw_put:
  assumes "p \<in> set (positions i)"
  shows "coerce_raw (put_raw p (PDict obj) raw) = coerce_raw (put_raw p (PList [PDict obj]) raw)"
proof -
  from assms obtain k q where p: "p = Key k # q" by (auto simp: positions_def)
  from same_at_raw [OF assms, of obj]
  have "in_dict coerce_raw (put p (PDict obj) (PDict raw))
          = in_dict coerce_raw (put p (PList [PDict obj]) (PDict raw))"
    by (simp add: same_at_def)
  then show ?thesis by (simp add: p put_raw_Key)
qed

lemma raw_report_in_put:
  assumes "k \<noteq> ''rawReport''"
  shows "raw_report_in (put (Key k # q) x v) = raw_report_in v"
  using assms by (cases v) (simp_all add: raw_report_in_def dget_def dget_or_update)

lemma raw_report_of_put:
  assumes "p \<in> set (positions i)"
  shows "raw_report_of (put_raw p x raw) = raw_report_of raw"
proof -
  from assms consider
    (other) k q where "p = Key k # q" "k \<noteq> ''credit_report_json''"
  | (cr) k q where "p = Key ''credit_report_json'' # Key k # q" "k \<noteq> ''rawReport''"
    by (auto simp: positions_def document_positions_def)
  then show ?thesis
  proof cases
    case other
    then show ?thesis by (simp add: raw_report_of_def put_raw_Key dget_or_update)
  next
    case cr
    then show ?thesis
      by (simp add: raw_report_of_def put_raw_Key dget_or_update raw_report_in_put
            del: put.simps)
  qed
qed

lemma coerce_raw_put_raw_report:
  "coerce_raw (put_raw [Key ''credit_report_json'', Key ''rawReport''] x raw)
     = coerce_raw (put_raw [Key ''credit_report_json'', Key ''rawReport''] y raw)"
  by (cases "dget_or raw ''credit_report_json'' (PDict [])")
     (simp_all add: put_raw_Key coerce_raw_update coerce_cr_def coerce_cr_dict_update)

lemma raw_report_of_put_raw_report:
  "raw_report_of (put_raw [Key ''credit_report_json'', Key ''rawReport''] x raw)
     = (case dget_or raw ''credit_report_json'' (PDict []) of
          PDict d \<Rightarrow> x | _ \<Rightarrow> raw_report_of raw)"
  by (cases "dget_or raw ''credit_report_json'' (PDict [])")
     (simp_all add: put_raw_Key raw_report_of_def raw_report_in_def dget_or_update dget_def)


section \<open>Runs on concrete documents\<close>

subsection \<open>Runs that raise\<close>

text \<open>
  C4. The claim: for every JSON-shaped input \<^verbatim>\<open>normalize_report\<close> returns a report and
  never raises. The first pass over the trades has none of the guards of the later
  passes: when the trades endpoint holds a JSON array instead of an object
  (\<^verbatim>\<open>{"trades": [{}]}\<close>), \<^verbatim>\<open>(raw.get("trades") or {}).get\<close> is called on a list, and
  when the trade list holds something that is not an object
  (\<^verbatim>\<open>{"trades": {"trades": [1]}}\<close>), \<^verbatim>\<open>trade.get\<close> is called on it. Both runs end in
  \<^verbatim>\<open>AttributeError\<close>, whatever the builtins and the scores are.
\<close>

theorem trades_array_raises:
  "normalize_report env [(''trades'', PList [PDict []])] scores0 = Inl AttributeError \<and>
   normalize_report env [(''trades'', PDict [(''trades'', PList [PInt 1])])] scores0
     = Inl AttributeError"
  by (simp add: normalize_report_def credit_report_sections_def parse_raw_report_def
      fallback_borrower_def locate_borrower_def personal_info_of_def bundle_scores_def
      borrower_scores_def account_passes_def trade_accounts_def trades_of_def trade_step_def
      trade_account_def prim_defs)

subsection \<open>Numeric fields of the primary trade list\<close>

text \<open>
  C7. The claim: each legacy numeric field of a trade equals the float of the source
  amount whenever the amount parses as a number, a zero amount included, and is null
  only when the amount is absent, empty or not a number. The fields are computed as
  \<^verbatim>\<open>safe_number(x) if x else None\<close>, and the number \<^verbatim>\<open>0\<close> is falsy: for the trade
  \<^verbatim>\<open>{"currentBalanceAmount": 0}\<close> the run returns, the original-name field holds
  \<^verbatim>\<open>"0"\<close> and \<^verbatim>\<open>balance\<close> is null, although \<^verbatim>\<open>safe_number(0)\<close> is \<^verbatim>\<open>0.0\<close>. The
  string \<^verbatim>\<open>"0"\<close> does give \<^verbatim>\<open>0.0\<close>.
\<close>

theorem zero_balance_is_null:
  "returns (normalize_report fixture_env [one_trade [(''currentBalanceAmount'', PInt 0)]] []) \<and>
   map (\<lambda>a. (dget a ''currentBalanceAmount'', dget a ''balance''))
     (accounts (report_of
        (normalize_report fixture_env [one_trade [(''currentBalanceAmount'', PInt 0)]] [])))
     = [(PStr ''0'', PNone)] \<and>
   safe_number fixture_env (PInt 0) = Inr (PFloat 0) \<and>
   map (\<lambda>a. (dget a ''currentBalanceAmount'', dget a ''balance''))
     (accounts (report_of
        (normalize_report fixture_env [one_trade [(''currentBalanceAmount'', PStr ''0'')]] [])))
     = [(PStr ''0'', PFloat 0)]"
  by code_simp

subsection \<open>The bundle-derived passes on concrete documents\<close>

text \<open>
  C5. The claim: a record with neither a creditor name nor an account number is
  excluded by both bundle-derived passes. The third pass appends on
  \<^verbatim>\<open>if not is_duplicate\<close> alone: from a \<^verbatim>\<open>TUCReportV6\<close> component whose only
  tradeline is \<^verbatim>\<open>{"accountType": "Revolving"}\<close> the output holds one account, with a
  null number and a null institution name. The same tradeline in the tradeline
  partition of the merged report is excluded by the second pass.
\<close>

theorem bureau_pass_keeps_nameless_record:
  "returns (normalize_report fixture_env (raw_report_only (fst (fixture_docs ! 0))) []) \<and>
   map acct_key (accounts (report_of
      (normalize_report fixture_env (raw_report_only (fst (fixture_docs ! 0))) [])))
     = [(PNone, PNone, PStr ''TUC'')] \<and>
   accounts (report_of
      (normalize_report fixture_env
         [(''credit_report_json'', partition_doc [(''accountType'', PStr ''Revolving'')])] []))
     = []"
  by code_simp

text \<open>
  C3. The claim: the third pass applies the dedup check of the second, on masked
  account number, institution name and bureau. Its loop compares the number and the
  name only. With the trade (\<^verbatim>\<open>"1"\<close>, \<^verbatim>\<open>"A"\<close>, \<^verbatim>\<open>TUC\<close>) in the primary list, the
  tradeline (\<^verbatim>\<open>"1"\<close>, \<^verbatim>\<open>"A"\<close>) of an \<^verbatim>\<open>EQFReportV6\<close> component is dropped as a
  duplicate, although no entry has the key (\<^verbatim>\<open>"1"\<close>, \<^verbatim>\<open>"A"\<close>, \<^verbatim>\<open>EQF\<close>); the
  second pass appends the same tradeline when it comes with the symbol \<^verbatim>\<open>EQF\<close> in the
  tradeline partition.
\<close>

theorem bureau_pass_ignores_bureau:
  "map acct_key (accounts (report_of
      (normalize_report fixture_env
         (one_trade trade_A1 # raw_report_only (fst (fixture_docs ! 1))) [])))
     = [(PStr ''1'', PStr ''A'', PStr ''TUC'')] \<and>
   map acct_key (accounts (report_of
      (normalize_report fixture_env
         [one_trade trade_A1,
          (''credit_report_json'',
           partition_doc
             [(''creditorName'', PStr ''A''), (''accountNumber'', PStr ''1''),
              (''Source'', PDict [(''Bureau'', PDict [(''symbol'', PStr ''EQF'')])])])] [])))
     = [(PStr ''1'', PStr ''A'', PStr ''TUC''), (PStr ''1'', PStr ''A'', PStr ''EQF'')]"
  by code_simp

subsection \<open>Scores on a concrete document\<close>

text \<open>
  C1. The claim: when a structured bundle score and an entry of the score argument are
  supplied for the same bureau, the report holds the value of the argument. Here the
  bundle holds a TransUnion component with the score 700 and the score argument says
  \<^verbatim>\<open>"640"\<close> for TransUnion: the report says 700, because the loop over the
  bundle components writes after \<^verbatim>\<open>normalized["scores"]\<close> was set to the argument.
\<close>

theorem override_is_overwritten:
  "returns (normalize_report fixture_env score_raw score_override) \<and>
   map_of score_override ''TransUnion'' = Some (PStr ''640'') \<and>
   map_of (scores (report_of (normalize_report fixture_env score_raw score_override)))
     ''TransUnion'' = Some (PInt 700)"
  by code_simp

subsection \<open>The account passes on concrete documents\<close>

text \<open>
  Against C2 as stated: the primary trade list holds the same trade twice, and the
  output holds two entries with the same full key.
\<close>

theorem duplicate_trades_both_kept:
  "returns (normalize_report fixture_env [two_trades] []) \<and>
   map acct_key (accounts (report_of (normalize_report fixture_env [two_trades] [])))
     = [(PStr ''1'', PStr ''A'', PStr ''TUC''), (PStr ''1'', PStr ''A'', PStr ''TUC'')]"
  by code_simp

text \<open>
  The amended C2 on an input with an entry from each pass: the entries of the second
  and third pass differ in key from every entry before them.
\<close>

theorem bundle_entries_have_fresh_keys_witness:
  "normalize_report fixture_env three_pass_raw []
     = Inr (report_of three_pass_run, warnings_of three_pass_run) \<and>
   trade_accounts fixture_env three_pass_raw [] = Inr (take 1 (accounts (report_of three_pass_run))) \<and>
   list_all (clean_doc fixture_env) (bundle_docs fixture_env three_pass_raw) \<and>
   map acct_key (accounts (report_of three_pass_run))
     = [(PStr ''1'', PStr ''A'', PStr ''TUC''), (PStr ''2'', PStr ''B'', PStr ''EQF''),
        (PStr ''3'', PStr ''C'', PStr ''EXP'')] \<and>
   acct_key (accounts (report_of three_pass_run) ! 0)
     \<noteq> acct_key (accounts (report_of three_pass_run) ! 1) \<and>
   acct_key (accounts (report_of three_pass_run) ! 0)
     \<noteq> acct_key (accounts (report_of three_pass_run) ! 2) \<and>
   acct_key (accounts (report_of three_pass_run) ! 1)
     \<noteq> acct_key (accounts (report_of three_pass_run) ! 2)"
proof -
  have "returns three_pass_run" by code_simp
  then have run: "normalize_report fixture_env three_pass_raw []
     = Inr (report_of three_pass_run, warnings_of three_pass_run)"
    unfolding three_pass_run_def by (rule returns_Inr)
  have tr: "trade_accounts fixture_env three_pass_raw []
              = Inr (take 1 (accounts (report_of three_pass_run)))"
    by code_simp
  have cl: "list_all (clean_doc fixture_env) (bundle_docs fixture_env three_pass_raw)"
    by code_simp
  have keys: "map acct_key (accounts (report_of three_pass_run))
     = [(PStr ''1'', PStr ''A'', PStr ''TUC''), (PStr ''2'', PStr ''B'', PStr ''EQF''),
        (PStr ''3'', PStr ''C'', PStr ''EXP'')]"
    by code_simp
  from keys have len: "length (accounts (report_of three_pass_run)) = 3"
    by (metis length_map length_Cons list.size(3) numeral_3_eq_3)
  from len have len1: "length (take 1 (accounts (report_of three_pass_run))) = 1" by simp
  note fresh = bundle_entries_have_fresh_keys [OF run tr cl [unfolded list_all_iff],
      unfolded len len1]
  from fresh have "acct_key (accounts (report_of three_pass_run) ! 0)
     \<noteq> acct_key (accounts (report_of three_pass_run) ! 1)"
    by simp
  moreover from fresh have "acct_key (accounts (report_of three_pass_run) ! 0)
     \<noteq> acct_key (accounts (report_of three_pass_run) ! 2)"
    by simp
  moreover from fresh have "acct_key (accounts (report_of three_pass_run) ! 1)
     \<noteq> acct_key (accounts (report_of three_pass_run) ! 2)"
    by simp
  ultimately show ?thesis using run tr cl keys by simp
qed

text \<open>
  Against C6 as stated: the primary list holds the trade (\<^verbatim>\<open>"1"\<close>, \<^verbatim>\<open>"A"\<close>,
  \<^verbatim>\<open>TUC\<close>) twice and the partition holds a tradeline with the same key; the output
  holds two entries for the key, not one.
\<close>

theorem duplicate_trades_outlive_partition:
  "returns (normalize_report fixture_env
      [two_trades, (''credit_report_json'', partition_doc tradeline_A1_TUC)] []) \<and>
   map acct_key (accounts (report_of (normalize_report fixture_env
      [two_trades, (''credit_report_json'', partition_doc tradeline_A1_TUC)] [])))
     = [(PStr ''1'', PStr ''A'', PStr ''TUC''), (PStr ''1'', PStr ''A'', PStr ''TUC'')]"
  by code_simp

text \<open>
  The amended C6 on the scenario of the claim: the account is in the primary list and
  in the partition, and the output is the list of the first pass, one entry.
\<close>

theorem primary_trades_take_precedence_witness:
  "normalize_report fixture_env both_paths_raw []
     = Inr (report_of both_paths_run, warnings_of both_paths_run) \<and>
   trade_accounts fixture_env both_paths_raw [] = Inr (accounts (report_of both_paths_run)) \<and>
   list_all (clean_doc fixture_env) (bundle_docs fixture_env both_paths_raw) \<and>
   map acct_key (accounts (report_of both_paths_run)) = [(PStr ''1'', PStr ''A'', PStr ''TUC'')] \<and>
   take (length (accounts (report_of both_paths_run))) (accounts (report_of both_paths_run))
     = accounts (report_of both_paths_run) \<and>
   list_all
     (\<lambda>a. filter (\<lambda>e. acct_key e = acct_key a) (accounts (report_of both_paths_run))
            = filter (\<lambda>e. acct_key e = acct_key a) (accounts (report_of both_paths_run)))
     (accounts (report_of both_paths_run))"
proof -
  have "returns both_paths_run" by code_simp
  then have run: "normalize_report fixture_env both_paths_raw []
     = Inr (report_of both_paths_run, warnings_of both_paths_run)"
    unfolding both_paths_run_def by (rule returns_Inr)
  have tr: "trade_accounts fixture_env both_paths_raw []
              = Inr (accounts (report_of both_paths_run))"
    by code_simp
  have cl: "list_all (clean_doc fixture_env) (bundle_docs fixture_env both_paths_raw)"
    by code_simp
  have keys: "map acct_key (accounts (report_of both_paths_run))
     = [(PStr ''1'', PStr ''A'', PStr ''TUC'')]"
    by code_simp
  from primary_trades_take_precedence [OF run tr cl [unfolded list_all_iff]]
  show ?thesis using run tr cl keys by (simp add: list_all_iff)
qed

text \<open>
  Against C8 as stated: for the trade with \<^verbatim>\<open>"currentBalanceAmount": "887"\<close> the
  record holds the string \<^verbatim>\<open>"887"\<close> under the provider's name and the float 887
  under \<^verbatim>\<open>balance\<close>.
\<close>

theorem numeric_fields_differ:
  "returns chase_run \<and>
   map_of (accounts (report_of chase_run) ! 0) ''currentBalanceAmount'' = Some (PStr ''887'') \<and>
   map_of (accounts (report_of chase_run) ! 0) ''balance'' = Some (PFloat 887)"
  by code_simp

text \<open>
  The amended C8 on the same input, whose output holds a record of the primary trade
  list and a record of a bureau report.
\<close>

theorem account_records_dual_fields_witness:
  "normalize_report fixture_env chase_raw []
     = Inr (report_of chase_run, warnings_of chase_run) \<and>
   length (accounts (report_of chase_run)) = 2 \<and>
   list_all (dual_fields fixture_env) (accounts (report_of chase_run)) \<and>
   full_fields fixture_env (accounts (report_of chase_run) ! 0)"
proof -
  have "returns chase_run" by code_simp
  then have run: "normalize_report fixture_env chase_raw []
     = Inr (report_of chase_run, warnings_of chase_run)"
    unfolding chase_run_def by (rule returns_Inr)
  have len: "length (accounts (report_of chase_run)) = 2" by code_simp
  have tlk: "fst (snd (projr (credit_report_sections fixture_env
               (dget_or chase_raw ''credit_report_json'' (PDict [])) []))) = PNone"
    by code_simp
  have tr: "trade_accounts fixture_env chase_raw []
              = Inr (take 1 (accounts (report_of chase_run)))"
    by code_simp
  from account_records_dual_fields [OF run] obtain r t b p s l accounts1 accounts2 where
    dual: "\<forall>a \<in> set (accounts (report_of chase_run)). dual_fields fixture_env a"
    and sec: "credit_report_sections fixture_env
                (dget_or chase_raw ''credit_report_json'' (PDict [])) [] = Inr (r, t, b, p, s, l)"
    and p1: "trade_accounts fixture_env chase_raw [] = Inr accounts1"
    and p2: "partition_accounts fixture_env t accounts1 = Inr accounts2"
    and full: "\<forall>a \<in> set accounts2. full_fields fixture_env a"
    by blast
  from sec tlk have "t = PNone" by simp
  with p2 have "accounts2 = accounts1" by (simp add: partition_accounts_def)
  with p1 tr have a2: "accounts2 = take 1 (accounts (report_of chase_run))" by simp
  with len have "accounts (report_of chase_run) ! 0 \<in> set accounts2"
    by (cases "accounts (report_of chase_run)") simp_all
  with full have "full_fields fixture_env (accounts (report_of chase_run) ! 0)" by blast
  with run len dual show ?thesis by (simp add: list_all_iff)
qed

subsection \<open>A payload that does not parse\<close>

text \<open>
  C9 at concrete inputs. The claim says that a \<^verbatim>\<open>rawReport\<close> that fails to parse is
  treated as absent and never makes the run raise. On the text of 100000 opening
  brackets \<^verbatim>\<open>json.loads\<close> raises \<^verbatim>\<open>RecursionError\<close>, which the first
  \<^verbatim>\<open>try\<close> block does not catch: the run raises it. On the truncated text
  \<^verbatim>\<open>json.loads\<close> raises \<^verbatim>\<open>JSONDecodeError\<close> and the run returns, but not with the
  report of the run without the payload: the \<^verbatim>\<open>CreditScore\<close> array of the borrower
  found in the outer document is read because the text is truthy, and the report says
  710 for TransUnion where the run without the payload keeps the \<^verbatim>\<open>"640"\<close> of the
  score argument.
\<close>

theorem unparseable_raw_report_escapes:
  "normalize_report nested_env (raw_report_only nested_text) [] = Inl RecursionError \<and>
   json_loads fixture_env (dget bad_cr ''rawReport'') = Inl JSONDecodeError \<and>
   returns bad_run \<and> returns bad_run_without \<and>
   map_of (scores (report_of bad_run)) ''TransUnion'' = Some (PInt 710) \<and>
   map_of (scores (report_of bad_run_without)) ''TransUnion'' = Some (PStr ''640'')"
proof -
  have "truthy nested_env (PStr nested_text)"
    by (simp add: nested_text_def)
  moreover have "json_loads nested_env (PStr nested_text) = Inl RecursionError"
    by (simp add: json_loads_def nested_env_def)
  ultimately have "parse_raw_report nested_env (PStr nested_text) = Inl RecursionError"
    by (simp add: parse_raw_report_def)
  then have "normalize_report nested_env (raw_report_only nested_text) [] = Inl RecursionError"
    by (simp add: normalize_report_def credit_report_sections_def raw_report_only_def
          dget_def dget_or_def bindE_def)
  moreover have "json_loads fixture_env (dget bad_cr ''rawReport'') = Inl JSONDecodeError"
    by code_simp
  moreover have "returns bad_run" by code_simp
  moreover have "returns bad_run_without" by code_simp
  moreover have "map_of (scores (report_of bad_run)) ''TransUnion'' = Some (PInt 710)"
    by code_simp
  moreover have "map_of (scores (report_of bad_run_without)) ''TransUnion''
                   = Some (PStr ''640'')"
    by code_simp
  ultimately show ?thesis by simp
qed

subsection \<open>Objects and one-element arrays\<close>



end
